theory Spec2Isabelle
  imports Main "HOL-Library.Word"
begin

unbundle bit_operations_syntax

section \<open>Scalars\<close>

text \<open>
  A C \<^verbatim>\<open>double\<close> is its IEEE-754 binary64 bit pattern, so that the comparisons of the
  source (\<^verbatim>\<open>==\<close>, \<^verbatim>\<open>!=\<close>, \<^verbatim>\<open>CPLIsNan\<close>) are the IEEE ones: a NaN differs from
  everything, itself included, and the two zeros are equal. \<^verbatim>\<open>int64_t\<close> and
  \<^verbatim>\<open>uint64_t\<close> are 64-bit words, read with \<open>sint\<close> and \<open>uint\<close>. A C \<^verbatim>\<open>int\<close>
  or \<^verbatim>\<open>short\<close> is an \<open>int\<close>; the conversions that can leave the range
  (\<^verbatim>\<open>atoi\<close>, \<^verbatim>\<open>static_cast<short>\<close>) have the wrap-around written out.
\<close>

type_synonym double = "64 word"
type_synonym int64_t = "64 word"
type_synonym uint64_t = "64 word"

definition CPLIsNan :: "double \<Rightarrow> bool" where
  "CPLIsNan d \<longleftrightarrow>
     d AND 0x7FF0000000000000 = 0x7FF0000000000000 \<and> d AND 0x000FFFFFFFFFFFFF \<noteq> 0"

definition d_is_zero :: "double \<Rightarrow> bool" where
  "d_is_zero d \<longleftrightarrow> d AND 0x7FFFFFFFFFFFFFFF = 0"

text \<open>The operator \<^verbatim>\<open>==\<close> of C on two doubles.\<close>

definition d_eq :: "double \<Rightarrow> double \<Rightarrow> bool" where
  "d_eq a b \<longleftrightarrow> \<not> CPLIsNan a \<and> \<not> CPLIsNan b \<and> (a = b \<or> (d_is_zero a \<and> d_is_zero b))"

text \<open>The operator \<^verbatim>\<open>!=\<close> of C on two doubles.\<close>

definition d_ne :: "double \<Rightarrow> double \<Rightarrow> bool" where
  "d_ne a b \<longleftrightarrow> \<not> d_eq a b"

text \<open>The literals \<^verbatim>\<open>0.0\<close> and \<^verbatim>\<open>1.0\<close>.\<close>

definition d_0 :: double where "d_0 = 0"
definition d_1 :: double where "d_1 = 0x3FF0000000000000"

section \<open>The data model\<close>

datatype CPLErr = CE_None | CE_Debug | CE_Warning | CE_Failure | CE_Fatal

datatype CPLErrorNum = CPLE_AppDefined | CPLE_OutOfMemory

datatype GDALDataType =
    GDT_Unknown | GDT_Byte | GDT_Int8 | GDT_UInt16 | GDT_Int16 | GDT_UInt32 | GDT_Int32
  | GDT_UInt64 | GDT_Int64 | GDT_Float32 | GDT_Float64
  | GDT_CInt16 | GDT_CInt32 | GDT_CFloat32 | GDT_CFloat64

datatype GDALColorInterp =
    GCI_Undefined | GCI_GrayIndex | GCI_PaletteIndex | GCI_RedBand | GCI_GreenBand
  | GCI_BlueBand | GCI_AlphaBand | GCI_HueBand | GCI_SaturationBand | GCI_LightnessBand
  | GCI_CyanBand | GCI_MagentaBand | GCI_YellowBand | GCI_BlackBand
  | GCI_YCbCr_YBand | GCI_YCbCr_CbBand | GCI_YCbCr_CrBand

text \<open>
  The document tree of \<^verbatim>\<open>cpl_minixml.h\<close>. The source links the children of a node
  through \<^verbatim>\<open>psChild\<close> and \<^verbatim>\<open>psNext\<close>; here \<open>psChild\<close> is the list of the children
  in document order.
\<close>

datatype CPLXMLNodeType = CXT_Element | CXT_Text | CXT_Attribute | CXT_Comment | CXT_Literal

datatype CPLXMLNode =
  CPLXMLNode (eType: CPLXMLNodeType) (pszValue: string) (psChild: "CPLXMLNode list")

record GDALColorEntry =
  c1 :: int
  c2 :: int
  c3 :: int
  c4 :: int

text \<open>
  Modelled from the spec: the palette value type \<^verbatim>\<open>GDALColorTable\<close> is declared outside
  the source file; the spec has it as a sequence of entries with four channel values.
\<close>

type_synonym GDALColorTable = "GDALColorEntry list"

text \<open>
  \<^verbatim>\<open>GDALRasterBandPamInfo\<close>, the overlay record of one band. A pointer field that owns
  its value is an \<open>option\<close> (\<open>None\<close> for \<^verbatim>\<open>nullptr\<close>). \<open>poParentDS\<close> is the
  non-owning link to the dataset-level store: \<open>True\<close> when the pointer is set; the store
  itself is the \<open>poDS\<close> of the band. The attribute table is a value of a type \<open>'rat\<close>
  that the band only clones and serialises.
\<close>

record 'rat GDALRasterBandPamInfo =
  poParentDS :: bool
  bNoDataValueSet :: bool
  bNoDataValueSetAsInt64 :: bool
  bNoDataValueSetAsUInt64 :: bool
  dfNoDataValue :: double
  nNoDataValueInt64 :: int64_t
  nNoDataValueUInt64 :: uint64_t
  poColorTable :: "GDALColorTable option"
  dfOffset :: double
  dfScale :: double
  bOffsetSet :: bool
  bScaleSet :: bool
  pszUnitType :: "string option"
  papszCategoryNames :: "string list option"
  eColorInterp :: GDALColorInterp
  poDefaultRAT :: "'rat option"
  bHaveMinMax :: bool
  dfMin :: double
  dfMax :: double
  bHaveStats :: bool
  dfMean :: double
  dfStdDev :: double
  psSavedHistograms :: "CPLXMLNode option"

text \<open>
  What the band sees of its owning dataset: whether it carries the flag
  \<^verbatim>\<open>GMO_PAM_CLASS\<close>, whether the \<^verbatim>\<open>dynamic_cast\<close> to \<^verbatim>\<open>GDALPamDataset\<close> succeeds,
  whether the dataset has an overlay store of its own once its \<^verbatim>\<open>PamInitialize\<close> has run,
  and the dirty flag of that store.
\<close>

record GDALDataset =
  ds_PAM_CLASS :: bool
  ds_is_GDALPamDataset :: bool
  ds_psPam_ok :: bool
  ds_dirty :: bool

text \<open>
  The band: the overlay record, the members of the base classes that the source file reads
  (\<^verbatim>\<open>eDataType\<close>, the band number, the description, the free-form metadata store
  \<open>oMDMD\<close> of a type \<open>'md\<close>), its dataset, and the log of the errors reported through
  \<^verbatim>\<open>CPLError\<close>.
\<close>

record ('rat, 'md) GDALPamRasterBand =
  psPam :: "'rat GDALRasterBandPamInfo option"
  eDataType :: GDALDataType
  nBand :: int
  sDescription :: string
  oMDMD :: 'md
  poDS :: "GDALDataset option"
  cpl_errors :: "(CPLErr \<times> CPLErrorNum) list"

text \<open>
  What the source file takes from the rest of the library and from libc without defining
  it: the three default nodata constants of \<^verbatim>\<open>gdal_pam.h\<close>, the casts of
  \<^verbatim>\<open>GDALGetNoDataValueCastToDouble\<close>, the formatting and parsing of doubles, \<^verbatim>\<open>floor\<close>,
  the tolerance comparison \<^verbatim>\<open>ARE_REAL_EQUAL\<close>, the table of colour interpretation names,
  the serialisation contracts of the attribute table and of the metadata store, the native
  histogram computation of \<^verbatim>\<open>GDALRasterBand\<close>, and whether an allocation succeeds.
\<close>

record ('rat, 'md) env =
  GDAL_PAM_DEFAULT_NODATA_VALUE :: double
  GDAL_PAM_DEFAULT_NODATA_VALUE_INT64 :: int64_t
  GDAL_PAM_DEFAULT_NODATA_VALUE_UINT64 :: uint64_t
  CastInt64ToDouble :: "int64_t \<Rightarrow> double"
  CastUInt64ToDouble :: "uint64_t \<Rightarrow> double"
  Printf_14E :: "double \<Rightarrow> string"
  Printf_16g :: "double \<Rightarrow> string"
  CPLAtof :: "string \<Rightarrow> double"
  CPLAtofM :: "string \<Rightarrow> double"
  floor_double :: "double \<Rightarrow> double"
  ARE_REAL_EQUAL :: "double \<Rightarrow> double \<Rightarrow> bool"
  GDALGetColorInterpretationName :: "GDALColorInterp \<Rightarrow> string"
  GDALGetColorInterpretationByName :: "string \<Rightarrow> GDALColorInterp"
  RAT_Serialize :: "'rat \<Rightarrow> CPLXMLNode option"
  RAT_XMLInit :: "CPLXMLNode \<Rightarrow> 'rat"
  MDMD_Serialize :: "'md \<Rightarrow> CPLXMLNode list"
  MDMD_XMLInit :: "CPLXMLNode \<Rightarrow> 'md \<Rightarrow> 'md"
  GDALRasterBand_GetHistogram ::
    "double \<Rightarrow> double \<Rightarrow> int \<Rightarrow> bool \<Rightarrow> bool \<Rightarrow> CPLErr \<times> uint64_t list"
  new_PamInfo_ok :: bool
  VSICalloc_ok :: "nat \<Rightarrow> bool"
  VSIMalloc_ok :: "nat \<Rightarrow> bool"

text \<open>
  A call that finds no overlay record is forwarded to the implementation of the base class
  \<^verbatim>\<open>GDALRasterBand\<close>, which is outside the source file: its result is \<open>Base\<close>.
\<close>

datatype 'a call = Pam 'a | Base

section \<open>Lazy initialisation\<close>

text \<open>
  Modelled from the spec: the default constructor of \<^verbatim>\<open>GDALRasterBandPamInfo\<close>
  (\<^verbatim>\<open>gdal_pam.h\<close>) is outside the source file. The spec gives the defaults: no nodata
  variant set, offset 0.0, scale 1.0, colour interpretation undefined, every owned value
  absent, no parent link. The nodata values start at the constants that
  \<^verbatim>\<open>ResetNoDataValues\<close> writes.
\<close>

definition new_GDALRasterBandPamInfo :: "('rat, 'md) env \<Rightarrow> 'rat GDALRasterBandPamInfo" where
  "new_GDALRasterBandPamInfo E =
     \<lparr> poParentDS = False,
       bNoDataValueSet = False, bNoDataValueSetAsInt64 = False, bNoDataValueSetAsUInt64 = False,
       dfNoDataValue = GDAL_PAM_DEFAULT_NODATA_VALUE E,
       nNoDataValueInt64 = GDAL_PAM_DEFAULT_NODATA_VALUE_INT64 E,
       nNoDataValueUInt64 = GDAL_PAM_DEFAULT_NODATA_VALUE_UINT64 E,
       poColorTable = None,
       dfOffset = d_0, dfScale = d_1, bOffsetSet = False, bScaleSet = False,
       pszUnitType = None, papszCategoryNames = None, eColorInterp = GCI_Undefined,
       poDefaultRAT = None,
       bHaveMinMax = False, dfMin = d_0, dfMax = d_0,
       bHaveStats = False, dfMean = d_0, dfStdDev = d_0,
       psSavedHistograms = None \<rparr>"

definition CPLError :: "CPLErr \<Rightarrow> CPLErrorNum \<Rightarrow> ('rat, 'md) GDALPamRasterBand
    \<Rightarrow> ('rat, 'md) GDALPamRasterBand" where
  "CPLError c n b = b\<lparr>cpl_errors := cpl_errors b @ [(c, n)]\<rparr>"

text \<open>
  \<^verbatim>\<open>PamInitialize\<close>. The call \<^verbatim>\<open>poParentDS->PamInitialize()\<close> runs in the dataset,
  outside the source file; the band reads its outcome in \<^verbatim>\<open>poParentDS->psPam\<close>. An
  unlinked record is deleted before that call, so the record the band ends with is a
  fresh one with the parent link.
\<close>

definition PamInitialize :: "('rat, 'md) env \<Rightarrow> ('rat, 'md) GDALPamRasterBand
    \<Rightarrow> ('rat, 'md) GDALPamRasterBand" where
  "PamInitialize E b =
     (if (case psPam b of Some p \<Rightarrow> poParentDS p | None \<Rightarrow> False) then b
      else case poDS b of
        None \<Rightarrow> b
      | Some ds \<Rightarrow>
          if \<not> ds_PAM_CLASS ds then b
          else if \<not> ds_is_GDALPamDataset ds then CPLError CE_Failure CPLE_AppDefined b
          else if \<not> ds_psPam_ok ds then b\<lparr>psPam := None\<rparr>
          else if \<not> new_PamInfo_ok E then b\<lparr>psPam := None\<rparr>
          else b\<lparr>psPam := Some ((new_GDALRasterBandPamInfo E)\<lparr>poParentDS := True\<rparr>)\<rparr>)"

definition PamInitializeNoParent :: "('rat, 'md) env \<Rightarrow> ('rat, 'md) GDALPamRasterBand
    \<Rightarrow> ('rat, 'md) GDALPamRasterBand" where
  "PamInitializeNoParent E b =
     (if psPam b = None \<and> new_PamInfo_ok E
      then b\<lparr>psPam := Some (new_GDALRasterBandPamInfo E)\<rparr> else b)"

text \<open>
  \<^verbatim>\<open>MarkPamDirty\<close>. Modelled from the spec: \<^verbatim>\<open>GDALPamDataset::MarkPamDirty\<close> is outside
  the source file; it marks the dataset-level store dirty.
\<close>

definition MarkPamDirty :: "('rat, 'md) GDALPamRasterBand \<Rightarrow> ('rat, 'md) GDALPamRasterBand" where
  "MarkPamDirty b =
     (case psPam b of
        None \<Rightarrow> b
      | Some p \<Rightarrow>
          if poParentDS p then b\<lparr>poDS := map_option (\<lambda>ds. ds\<lparr>ds_dirty := True\<rparr>) (poDS b)\<rparr>
          else b)"

section \<open>Nodata\<close>

definition ResetNoDataValues :: "('rat, 'md) env \<Rightarrow> 'rat GDALRasterBandPamInfo
    \<Rightarrow> 'rat GDALRasterBandPamInfo" where
  "ResetNoDataValues E p =
     p\<lparr> bNoDataValueSet := False, bNoDataValueSetAsInt64 := False,
        bNoDataValueSetAsUInt64 := False,
        dfNoDataValue := GDAL_PAM_DEFAULT_NODATA_VALUE E,
        nNoDataValueInt64 := GDAL_PAM_DEFAULT_NODATA_VALUE_INT64 E,
        nNoDataValueUInt64 := GDAL_PAM_DEFAULT_NODATA_VALUE_UINT64 E \<rparr>"

definition SetNoDataValue :: "('rat, 'md) env \<Rightarrow> double \<Rightarrow> ('rat, 'md) GDALPamRasterBand
    \<Rightarrow> CPLErr call \<times> ('rat, 'md) GDALPamRasterBand" where
  "SetNoDataValue E dfNewValue b0 =
     (let b = PamInitialize E b0 in
      case psPam b of
        None \<Rightarrow> (Base, b)
      | Some p \<Rightarrow>
          (Pam CE_None,
           MarkPamDirty (b\<lparr>psPam := Some ((ResetNoDataValues E p)
             \<lparr>bNoDataValueSet := True, dfNoDataValue := dfNewValue\<rparr>)\<rparr>)))"

definition SetNoDataValueAsInt64 :: "('rat, 'md) env \<Rightarrow> int64_t \<Rightarrow> ('rat, 'md) GDALPamRasterBand
    \<Rightarrow> CPLErr call \<times> ('rat, 'md) GDALPamRasterBand" where
  "SetNoDataValueAsInt64 E nNewValue b0 =
     (let b = PamInitialize E b0 in
      case psPam b of
        None \<Rightarrow> (Base, b)
      | Some p \<Rightarrow>
          (Pam CE_None,
           MarkPamDirty (b\<lparr>psPam := Some ((ResetNoDataValues E p)
             \<lparr>bNoDataValueSetAsInt64 := True, nNoDataValueInt64 := nNewValue\<rparr>)\<rparr>)))"

definition SetNoDataValueAsUInt64 :: "('rat, 'md) env \<Rightarrow> uint64_t \<Rightarrow> ('rat, 'md) GDALPamRasterBand
    \<Rightarrow> CPLErr call \<times> ('rat, 'md) GDALPamRasterBand" where
  "SetNoDataValueAsUInt64 E nNewValue b0 =
     (let b = PamInitialize E b0 in
      case psPam b of
        None \<Rightarrow> (Base, b)
      | Some p \<Rightarrow>
          (Pam CE_None,
           MarkPamDirty (b\<lparr>psPam := Some ((ResetNoDataValues E p)
             \<lparr>bNoDataValueSetAsUInt64 := True, nNoDataValueUInt64 := nNewValue\<rparr>)\<rparr>)))"

definition DeleteNoDataValue :: "('rat, 'md) env \<Rightarrow> ('rat, 'md) GDALPamRasterBand
    \<Rightarrow> CPLErr call \<times> ('rat, 'md) GDALPamRasterBand" where
  "DeleteNoDataValue E b0 =
     (let b = PamInitialize E b0 in
      case psPam b of
        None \<Rightarrow> (Base, b)
      | Some p \<Rightarrow> (Pam CE_None, MarkPamDirty (b\<lparr>psPam := Some (ResetNoDataValues E p)\<rparr>)))"

text \<open>
  The getters return the value together with what they write to \<^verbatim>\<open>*pbSuccess\<close> when
  the caller passes that pointer, and the band, whose error log they may extend.
\<close>

definition GetNoDataValue :: "('rat, 'md) env \<Rightarrow> ('rat, 'md) GDALPamRasterBand
    \<Rightarrow> (bool \<times> double) call \<times> ('rat, 'md) GDALPamRasterBand" where
  "GetNoDataValue E b =
     (case psPam b of
        None \<Rightarrow> (Base, b)
      | Some p \<Rightarrow>
          if bNoDataValueSetAsInt64 p then (Pam (True, CastInt64ToDouble E (nNoDataValueInt64 p)), b)
          else if bNoDataValueSetAsUInt64 p
            then (Pam (True, CastUInt64ToDouble E (nNoDataValueUInt64 p)), b)
          else (Pam (bNoDataValueSet p, dfNoDataValue p), b))"

definition GetNoDataValueAsInt64 :: "('rat, 'md) env \<Rightarrow> ('rat, 'md) GDALPamRasterBand
    \<Rightarrow> (bool \<times> int64_t) call \<times> ('rat, 'md) GDALPamRasterBand" where
  "GetNoDataValueAsInt64 E b =
     (case psPam b of
        None \<Rightarrow> (Base, b)
      | Some p \<Rightarrow>
          if eDataType b = GDT_UInt64
            then (Pam (False, GDAL_PAM_DEFAULT_NODATA_VALUE_INT64 E),
                  CPLError CE_Failure CPLE_AppDefined b)
          else if eDataType b \<noteq> GDT_Int64
            then (Pam (False, GDAL_PAM_DEFAULT_NODATA_VALUE_INT64 E),
                  CPLError CE_Failure CPLE_AppDefined b)
          else (Pam (bNoDataValueSetAsInt64 p, nNoDataValueInt64 p), b))"

definition GetNoDataValueAsUInt64 :: "('rat, 'md) env \<Rightarrow> ('rat, 'md) GDALPamRasterBand
    \<Rightarrow> (bool \<times> uint64_t) call \<times> ('rat, 'md) GDALPamRasterBand" where
  "GetNoDataValueAsUInt64 E b =
     (case psPam b of
        None \<Rightarrow> (Base, b)
      | Some p \<Rightarrow>
          if eDataType b = GDT_Int64
            then (Pam (False, GDAL_PAM_DEFAULT_NODATA_VALUE_UINT64 E),
                  CPLError CE_Failure CPLE_AppDefined b)
          else if eDataType b \<noteq> GDT_UInt64
            then (Pam (False, GDAL_PAM_DEFAULT_NODATA_VALUE_UINT64 E),
                  CPLError CE_Failure CPLE_AppDefined b)
          else (Pam (bNoDataValueSetAsUInt64 p, nNoDataValueUInt64 p), b))"

section \<open>Offset, scale, unit type, category names, colour table, description\<close>

definition GetOffset :: "('rat, 'md) GDALPamRasterBand \<Rightarrow> (bool \<times> double) call" where
  "GetOffset b = (case psPam b of None \<Rightarrow> Base | Some p \<Rightarrow> Pam (bOffsetSet p, dfOffset p))"

definition SetOffset :: "('rat, 'md) env \<Rightarrow> double \<Rightarrow> ('rat, 'md) GDALPamRasterBand
    \<Rightarrow> CPLErr call \<times> ('rat, 'md) GDALPamRasterBand" where
  "SetOffset E dfNewOffset b0 =
     (let b = PamInitialize E b0 in
      case psPam b of
        None \<Rightarrow> (Base, b)
      | Some p \<Rightarrow>
          if \<not> bOffsetSet p \<or> d_ne (dfOffset p) dfNewOffset
          then (Pam CE_None,
                MarkPamDirty (b\<lparr>psPam := Some (p\<lparr>dfOffset := dfNewOffset, bOffsetSet := True\<rparr>)\<rparr>))
          else (Pam CE_None, b))"

definition GetScale :: "('rat, 'md) GDALPamRasterBand \<Rightarrow> (bool \<times> double) call" where
  "GetScale b = (case psPam b of None \<Rightarrow> Base | Some p \<Rightarrow> Pam (bScaleSet p, dfScale p))"

definition SetScale :: "('rat, 'md) env \<Rightarrow> double \<Rightarrow> ('rat, 'md) GDALPamRasterBand
    \<Rightarrow> CPLErr call \<times> ('rat, 'md) GDALPamRasterBand" where
  "SetScale E dfNewScale b0 =
     (let b = PamInitialize E b0 in
      case psPam b of
        None \<Rightarrow> (Base, b)
      | Some p \<Rightarrow>
          if \<not> bScaleSet p \<or> d_ne dfNewScale (dfScale p)
          then (Pam CE_None,
                MarkPamDirty (b\<lparr>psPam := Some (p\<lparr>dfScale := dfNewScale, bScaleSet := True\<rparr>)\<rparr>))
          else (Pam CE_None, b))"

definition GetUnitType :: "('rat, 'md) GDALPamRasterBand \<Rightarrow> string call" where
  "GetUnitType b =
     (case psPam b of
        None \<Rightarrow> Base
      | Some p \<Rightarrow> (case pszUnitType p of None \<Rightarrow> Pam [] | Some u \<Rightarrow> Pam u))"

text \<open>The new value is a nullable C string: \<open>None\<close> for \<^verbatim>\<open>nullptr\<close>.\<close>

definition SetUnitType :: "('rat, 'md) env \<Rightarrow> string option \<Rightarrow> ('rat, 'md) GDALPamRasterBand
    \<Rightarrow> CPLErr call \<times> ('rat, 'md) GDALPamRasterBand" where
  "SetUnitType E pszNewValue b0 =
     (let b = PamInitialize E b0 in
      case psPam b of
        None \<Rightarrow> (Base, b)
      | Some p \<Rightarrow>
          if pszNewValue = None \<or> pszNewValue = Some []
          then (Pam CE_None,
                (if pszUnitType p \<noteq> None then MarkPamDirty b else b)
                  \<lparr>psPam := Some (p\<lparr>pszUnitType := None\<rparr>)\<rparr>)
          else (Pam CE_None,
                (if pszUnitType p = None \<or> pszUnitType p \<noteq> pszNewValue then MarkPamDirty b else b)
                  \<lparr>psPam := Some (p\<lparr>pszUnitType := pszNewValue\<rparr>)\<rparr>))"

definition GetCategoryNames :: "('rat, 'md) GDALPamRasterBand \<Rightarrow> string list option call" where
  "GetCategoryNames b = (case psPam b of None \<Rightarrow> Base | Some p \<Rightarrow> Pam (papszCategoryNames p))"

text \<open>
  Modelled from the spec: \<^verbatim>\<open>CSLDuplicate\<close> (\<^verbatim>\<open>cpl_string.h\<close>) is outside the source
  file. It is the deep copy of a string list; the library returns \<^verbatim>\<open>nullptr\<close> for a
  list without entries.
\<close>

definition CSLDuplicate :: "string list option \<Rightarrow> string list option" where
  "CSLDuplicate l = (case l of None \<Rightarrow> None | Some [] \<Rightarrow> None | Some (x # xs) \<Rightarrow> Some (x # xs))"

definition SetCategoryNames :: "('rat, 'md) env \<Rightarrow> string list option
    \<Rightarrow> ('rat, 'md) GDALPamRasterBand \<Rightarrow> CPLErr call \<times> ('rat, 'md) GDALPamRasterBand" where
  "SetCategoryNames E papszNewNames b0 =
     (let b = PamInitialize E b0 in
      case psPam b of
        None \<Rightarrow> (Base, b)
      | Some p \<Rightarrow>
          (Pam CE_None,
           MarkPamDirty (b\<lparr>psPam := Some (p\<lparr>papszCategoryNames := CSLDuplicate papszNewNames\<rparr>)\<rparr>)))"

definition GetColorTable :: "('rat, 'md) GDALPamRasterBand \<Rightarrow> GDALColorTable option call" where
  "GetColorTable b = (case psPam b of None \<Rightarrow> Base | Some p \<Rightarrow> Pam (poColorTable p))"

definition SetColorTable :: "('rat, 'md) env \<Rightarrow> GDALColorTable option
    \<Rightarrow> ('rat, 'md) GDALPamRasterBand \<Rightarrow> CPLErr call \<times> ('rat, 'md) GDALPamRasterBand" where
  "SetColorTable E poTableIn b0 =
     (let b = PamInitialize E b0 in
      case psPam b of
        None \<Rightarrow> (Base, b)
      | Some p \<Rightarrow>
          (Pam CE_None,
           MarkPamDirty (b\<lparr>psPam := Some
             (case poTableIn of
                None \<Rightarrow> p\<lparr>poColorTable := None\<rparr>
              | Some t \<Rightarrow> p\<lparr>poColorTable := Some t, eColorInterp := GCI_PaletteIndex\<rparr>)\<rparr>)))"

definition SetColorInterpretation :: "('rat, 'md) env \<Rightarrow> GDALColorInterp
    \<Rightarrow> ('rat, 'md) GDALPamRasterBand \<Rightarrow> CPLErr call \<times> ('rat, 'md) GDALPamRasterBand" where
  "SetColorInterpretation E eInterpIn b0 =
     (let b = PamInitialize E b0 in
      case psPam b of
        Some p \<Rightarrow>
          (let b1 = MarkPamDirty b in
           (Pam CE_None, b1\<lparr>psPam := map_option (\<lambda>q. q\<lparr>eColorInterp := eInterpIn\<rparr>) (psPam b1)\<rparr>))
      | None \<Rightarrow> (Base, b))"

definition GetColorInterpretation :: "('rat, 'md) GDALPamRasterBand \<Rightarrow> GDALColorInterp call" where
  "GetColorInterpretation b = (case psPam b of None \<Rightarrow> Base | Some p \<Rightarrow> Pam (eColorInterp p))"

text \<open>
  \<^verbatim>\<open>SetDescription\<close>: the description is held by \<^verbatim>\<open>GDALMajorObject\<close>, whose setter
  stores the string.
\<close>

definition SetDescription :: "('rat, 'md) env \<Rightarrow> string \<Rightarrow> ('rat, 'md) GDALPamRasterBand
    \<Rightarrow> ('rat, 'md) GDALPamRasterBand" where
  "SetDescription E pszDescription b0 =
     (let b = PamInitialize E b0;
          b1 = (if psPam b \<noteq> None \<and> pszDescription \<noteq> sDescription b then MarkPamDirty b else b)
      in b1\<lparr>sDescription := pszDescription\<rparr>)"

definition GetDefaultRAT :: "('rat, 'md) env \<Rightarrow> ('rat, 'md) GDALPamRasterBand
    \<Rightarrow> 'rat option call \<times> ('rat, 'md) GDALPamRasterBand" where
  "GetDefaultRAT E b0 =
     (let b = PamInitialize E b0 in
      case psPam b of None \<Rightarrow> (Base, b) | Some p \<Rightarrow> (Pam (poDefaultRAT p), b))"

definition SetDefaultRAT :: "('rat, 'md) env \<Rightarrow> 'rat option \<Rightarrow> ('rat, 'md) GDALPamRasterBand
    \<Rightarrow> CPLErr call \<times> ('rat, 'md) GDALPamRasterBand" where
  "SetDefaultRAT E poRAT b0 =
     (let b = PamInitialize E b0 in
      case psPam b of
        None \<Rightarrow> (Base, b)
      | Some p \<Rightarrow>
          (let b1 = MarkPamDirty b in
           (Pam CE_None, b1\<lparr>psPam := map_option (\<lambda>q. q\<lparr>poDefaultRAT := poRAT\<rparr>) (psPam b1)\<rparr>)))"

section \<open>C strings and numbers\<close>

text \<open>
  \<^verbatim>\<open>EQUAL\<close> is the case-insensitive comparison of two C strings (\<^verbatim>\<open>cpl_port.h\<close>).
\<close>

definition toupper_c :: "char \<Rightarrow> char" where
  "toupper_c c = (let n = (of_char c :: nat) in if 97 \<le> n \<and> n \<le> 122 then char_of (n - 32) else c)"

definition EQUAL :: "string \<Rightarrow> string \<Rightarrow> bool" where
  "EQUAL a b \<longleftrightarrow> map toupper_c a = map toupper_c b"

definition isdigit_c :: "char \<Rightarrow> bool" where
  "isdigit_c c \<longleftrightarrow> 48 \<le> (of_char c :: nat) \<and> (of_char c :: nat) \<le> 57"

definition isspace_c :: "char \<Rightarrow> bool" where
  "isspace_c c \<longleftrightarrow> (of_char c :: nat) = 32 \<or> (9 \<le> (of_char c :: nat) \<and> (of_char c :: nat) \<le> 13)"

definition digit_char :: "nat \<Rightarrow> char" where
  "digit_char d = char_of (48 + d)"

text \<open>The decimal digits of a number, as \<^verbatim>\<open>%u\<close> prints them.\<close>

fun Printf_u :: "nat \<Rightarrow> string" where
  "Printf_u n = (if n < 10 then [digit_char n] else Printf_u (n div 10) @ [digit_char (n mod 10)])"

declare Printf_u.simps [simp del]

text \<open>\<^verbatim>\<open>%d\<close> and \<^verbatim>\<open>%lld\<close>.\<close>

definition Printf_d :: "int \<Rightarrow> string" where
  "Printf_d i = (if i < 0 then CHR ''-'' # Printf_u (nat (- i)) else Printf_u (nat i))"

text \<open>
  The common part of \<^verbatim>\<open>strtol\<close>, \<^verbatim>\<open>strtoll\<close> and \<^verbatim>\<open>strtoull\<close> in base 10: leading
  white space, an optional sign, then the longest run of digits. The result is the sign
  and the magnitude, not yet brought into any range.
\<close>

fun digits_value :: "nat \<Rightarrow> string \<Rightarrow> nat" where
  "digits_value acc [] = acc"
| "digits_value acc (c # cs) =
     (if isdigit_c c then digits_value (acc * 10 + ((of_char c :: nat) - 48)) cs else acc)"

definition strto_parse :: "string \<Rightarrow> bool \<times> nat" where
  "strto_parse s =
     (case dropWhile isspace_c s of
        [] \<Rightarrow> (False, 0)
      | c # cs \<Rightarrow>
          if c = CHR ''-'' then (True, digits_value 0 cs)
          else if c = CHR ''+'' then (False, digits_value 0 cs)
          else (False, digits_value 0 (c # cs)))"

text \<open>\<^verbatim>\<open>strtoll\<close>: the value, brought into the range of a signed 64-bit integer.\<close>

definition strtoll :: "string \<Rightarrow> int" where
  "strtoll s =
     (case strto_parse s of
        (neg, m) \<Rightarrow>
          if neg then max (- (2 ^ 63)) (- int m) else min (2 ^ 63 - 1) (int m))"

text \<open>
  \<^verbatim>\<open>strtoull\<close>: the magnitude, \<^verbatim>\<open>ULLONG_MAX\<close> when it does not fit, negated modulo
  \<open>2 ^ 64\<close> after a minus sign.
\<close>

definition strtoull :: "string \<Rightarrow> uint64_t" where
  "strtoull s =
     (case strto_parse s of
        (neg, m) \<Rightarrow>
          if m > 2 ^ 64 - 1 then - 1
          else if neg then - word_of_nat m else word_of_nat m)"

text \<open>
  \<^verbatim>\<open>atoi\<close> is \<^verbatim>\<open>(int) strtol(s, NULL, 10)\<close>: the \<^verbatim>\<open>long\<close> of 64 bits is cut to the
  32 bits of an \<^verbatim>\<open>int\<close>.
\<close>

definition atoi :: "string \<Rightarrow> int" where
  "atoi s = signed_take_bit 31 (strtoll s)"

text \<open>\<^verbatim>\<open>static_cast<short>\<close> of an \<^verbatim>\<open>int\<close>.\<close>

definition cast_short :: "int \<Rightarrow> int" where
  "cast_short i = signed_take_bit 15 i"

text \<open>\<^verbatim>\<open>CPLAtoGIntBig\<close> is \<^verbatim>\<open>atoll\<close>; the source stores its result in a \<^verbatim>\<open>GUIntBig\<close>.\<close>

definition CPLAtoGIntBig :: "string \<Rightarrow> uint64_t" where
  "CPLAtoGIntBig s = word_of_int (strtoll s)"

text \<open>
  The eight bytes of a double in little-endian order (\<^verbatim>\<open>CPL_LSBPTR64\<close> on the value in
  memory), and \<^verbatim>\<open>CPLBinaryToHex\<close> and \<^verbatim>\<open>CPLHexToBinary\<close> (\<^verbatim>\<open>cpl_string.h\<close>): two
  upper-case hexadecimal digits for each byte, the high one first; the decoder reads pairs
  of characters, gives \<open>64\<close> to a character that is no hexadecimal digit, and ignores a
  trailing odd character.
\<close>

definition le_bytes :: "double \<Rightarrow> nat list" where
  "le_bytes d = map (\<lambda>i. unat (drop_bit (8 * i) d AND 0xFF)) [0..<8]"

definition of_le_bytes :: "nat list \<Rightarrow> double" where
  "of_le_bytes bs = foldr (\<lambda>b acc. word_of_nat b OR push_bit 8 acc) bs 0"

definition hex_digit :: "nat \<Rightarrow> char" where
  "hex_digit n = (if n < 10 then char_of (48 + n) else char_of (55 + n))"

definition hex2char :: "char \<Rightarrow> nat" where
  "hex2char c =
     (let n = (of_char c :: nat) in
      if 48 \<le> n \<and> n \<le> 57 then n - 48
      else if 65 \<le> n \<and> n \<le> 70 then n - 55
      else if 97 \<le> n \<and> n \<le> 102 then n - 87
      else 64)"

definition CPLBinaryToHex :: "nat list \<Rightarrow> string" where
  "CPLBinaryToHex bs = concat (map (\<lambda>b. [hex_digit (b div 16), hex_digit (b mod 16)]) bs)"

fun CPLHexToBinary :: "string \<Rightarrow> nat list" where
  "CPLHexToBinary (h1 # h2 # r) = ((hex2char h1 * 16) mod 256 OR hex2char h2) # CPLHexToBinary r"
| "CPLHexToBinary _ = []"

section \<open>The document tree primitives\<close>

text \<open>
  Modelled from the spec: the tree primitives of \<^verbatim>\<open>cpl_minixml\<close> (node creation, lookup,
  value access, insertion, removal, cloning) are outside the source file; the spec names
  them as the abstract tree with element, attribute and text nodes that the band reads and
  writes through. A path is given as the list of its dot-separated components. Cloning a
  tree of values is the identity.
\<close>

definition named :: "string \<Rightarrow> CPLXMLNode \<Rightarrow> bool" where
  "named tok c \<longleftrightarrow> eType c \<noteq> CXT_Text \<and> EQUAL tok (pszValue c)"

text \<open>
  \<^verbatim>\<open>CPLGetXMLNode\<close>: at each component, the first child that is not a text node and
  whose name is the component, up to case.
\<close>

fun CPLGetXMLNode :: "CPLXMLNode \<Rightarrow> string list \<Rightarrow> CPLXMLNode option" where
  "CPLGetXMLNode psRoot [] = Some psRoot"
| "CPLGetXMLNode psRoot (tok # toks) =
     (case find (named tok) (psChild psRoot) of
        None \<Rightarrow> None
      | Some c \<Rightarrow> CPLGetXMLNode c toks)"

text \<open>
  \<^verbatim>\<open>CPLGetXMLValue\<close>: the value of an attribute is its first child (the library
  asserts that there is one); the value of an element is its only child after the
  attributes, when that child is a text node; anything else gives the default.
\<close>

definition CPLGetXMLValue :: "CPLXMLNode \<Rightarrow> string list \<Rightarrow> string option \<Rightarrow> string option" where
  "CPLGetXMLValue psRoot path pszDefault =
     (case CPLGetXMLNode psRoot path of
        None \<Rightarrow> pszDefault
      | Some t \<Rightarrow>
          if eType t = CXT_Attribute
          then (case psChild t of [] \<Rightarrow> pszDefault | c # _ \<Rightarrow> Some (pszValue c))
          else if eType t = CXT_Element
          then (case dropWhile (\<lambda>c. eType c = CXT_Attribute) (psChild t) of
                  [c] \<Rightarrow> if eType c = CXT_Text then Some (pszValue c) else pszDefault
                | _ \<Rightarrow> pszDefault)
          else pszDefault)"

text \<open>The same with a default that is not \<^verbatim>\<open>nullptr\<close>: the result is a string.\<close>

definition CPLGetXMLValueD :: "CPLXMLNode \<Rightarrow> string list \<Rightarrow> string \<Rightarrow> string" where
  "CPLGetXMLValueD psRoot path d =
     (case CPLGetXMLValue psRoot path (Some d) of None \<Rightarrow> d | Some v \<Rightarrow> v)"

text \<open>
  Where \<^verbatim>\<open>CPLCreateXMLNode\<close> links a new node among the children of its parent: at the
  end, except that an attribute goes before the first text node that is not the first
  child, and before a text node that is the only child.
\<close>

fun link_after :: "CPLXMLNode \<Rightarrow> CPLXMLNode list \<Rightarrow> CPLXMLNode list" where
  "link_after n [] = [n]"
| "link_after n (d # ds) =
     (if eType n = CXT_Attribute \<and> eType d = CXT_Text then n # d # ds else d # link_after n ds)"

fun link_child :: "CPLXMLNode \<Rightarrow> CPLXMLNode list \<Rightarrow> CPLXMLNode list" where
  "link_child n [] = [n]"
| "link_child n [c] =
     (if eType n = CXT_Attribute \<and> eType c = CXT_Text then [n, c] else [c, n])"
| "link_child n (c # cs) = c # link_after n cs"

definition CPLCreateXMLElementAndValue :: "string \<Rightarrow> string \<Rightarrow> CPLXMLNode" where
  "CPLCreateXMLElementAndValue pszName pszText =
     CPLXMLNode CXT_Element pszName [CPLXMLNode CXT_Text pszText []]"

text \<open>The end of \<^verbatim>\<open>CPLSetXMLValue\<close>: the first text child takes the value, or a new one is created.\<close>

fun set_text_child :: "string \<Rightarrow> CPLXMLNode list \<Rightarrow> CPLXMLNode list option" where
  "set_text_child v [] = None"
| "set_text_child v (c # cs) =
     (if eType c = CXT_Text then Some (CPLXMLNode CXT_Text v (psChild c) # cs)
      else map_option ((#) c) (set_text_child v cs))"

fun split_first :: "('a \<Rightarrow> bool) \<Rightarrow> 'a list \<Rightarrow> ('a list \<times> 'a \<times> 'a list) option" where
  "split_first P [] = None"
| "split_first P (x # xs) =
     (if P x then Some ([], x, xs)
      else case split_first P xs of
        None \<Rightarrow> None
      | Some (pre, y, post) \<Rightarrow> Some (x # pre, y, post))"

text \<open>
  \<^verbatim>\<open>CPLSetXMLValue\<close>: walks the path, creating the missing nodes (an attribute for a
  component that starts with \<^verbatim>\<open>#\<close>), and sets the text of the node it reaches. It gives
  up, with \<^verbatim>\<open>FALSE\<close>, at a node that is no element.
\<close>

fun CPLSetXMLValue :: "CPLXMLNode \<Rightarrow> string list \<Rightarrow> string \<Rightarrow> bool \<times> CPLXMLNode" where
  "CPLSetXMLValue psRoot [] v =
     (True,
      case set_text_child v (psChild psRoot) of
        Some kids \<Rightarrow> CPLXMLNode (eType psRoot) (pszValue psRoot) kids
      | None \<Rightarrow> CPLXMLNode (eType psRoot) (pszValue psRoot)
                  (link_child (CPLXMLNode CXT_Text v []) (psChild psRoot)))"
| "CPLSetXMLValue psRoot (tok # toks) v =
     (let bIsAttribute = (case tok of [] \<Rightarrow> False | c # _ \<Rightarrow> c = CHR ''#'');
          pszName = (if bIsAttribute then tl tok else tok)
      in if eType psRoot \<noteq> CXT_Element then (False, psRoot)
         else case split_first (named pszName) (psChild psRoot) of
           Some (pre, c, post) \<Rightarrow>
             (case CPLSetXMLValue c toks v of
                (ok, c') \<Rightarrow> (ok, CPLXMLNode (eType psRoot) (pszValue psRoot) (pre @ c' # post)))
         | None \<Rightarrow>
             (case CPLSetXMLValue
                     (CPLXMLNode (if bIsAttribute then CXT_Attribute else CXT_Element) pszName [])
                     toks v of
                (ok, c') \<Rightarrow>
                  (ok, CPLXMLNode (eType psRoot) (pszValue psRoot) (link_child c' (psChild psRoot)))))"

text \<open>The source ignores the result of \<^verbatim>\<open>CPLSetXMLValue\<close>.\<close>

definition SetXMLValue :: "CPLXMLNode \<Rightarrow> string list \<Rightarrow> string \<Rightarrow> CPLXMLNode" where
  "SetXMLValue psRoot path v = snd (CPLSetXMLValue psRoot path v)"

text \<open>
  \<^verbatim>\<open>CPLAddXMLChild\<close>: the child goes to the end of the list, an attribute after the
  leading attributes.
\<close>

fun add_after :: "CPLXMLNode \<Rightarrow> CPLXMLNode list \<Rightarrow> CPLXMLNode list" where
  "add_after n [] = [n]"
| "add_after n (d # ds) =
     (if eType n = CXT_Attribute \<and> eType d \<noteq> CXT_Attribute then n # d # ds
      else d # add_after n ds)"

definition CPLAddXMLChild :: "CPLXMLNode \<Rightarrow> CPLXMLNode \<Rightarrow> CPLXMLNode" where
  "CPLAddXMLChild psParent n =
     CPLXMLNode (eType psParent) (pszValue psParent) (add_after n (psChild psParent))"

text \<open>
  The same for a node that brings its following siblings along, as the serialisation of
  the metadata store does: the siblings stay linked behind the node when it goes to the
  end of the list, and are cut off when it is an attribute put in the middle.
\<close>

fun add_chain_after :: "CPLXMLNode \<Rightarrow> CPLXMLNode list \<Rightarrow> CPLXMLNode list \<Rightarrow> CPLXMLNode list" where
  "add_chain_after n rest [] = n # rest"
| "add_chain_after n rest (d # ds) =
     (if eType n = CXT_Attribute \<and> eType d \<noteq> CXT_Attribute then n # d # ds
      else d # add_chain_after n rest ds)"

definition CPLAddXMLChildren :: "CPLXMLNode \<Rightarrow> CPLXMLNode list \<Rightarrow> CPLXMLNode" where
  "CPLAddXMLChildren psParent chain =
     (case chain of
        [] \<Rightarrow> psParent
      | n # rest \<Rightarrow>
          CPLXMLNode (eType psParent) (pszValue psParent) (add_chain_after n rest (psChild psParent)))"

text \<open>
  \<^verbatim>\<open>CPLRemoveXMLChild\<close> unlinks the child that a pointer designates; the pointer is the
  position of the child among the children.
\<close>

definition CPLRemoveXMLChild :: "CPLXMLNode \<Rightarrow> nat \<Rightarrow> CPLXMLNode" where
  "CPLRemoveXMLChild psParent i =
     CPLXMLNode (eType psParent) (pszValue psParent)
       (take i (psChild psParent) @ drop (Suc i) (psChild psParent))"

section \<open>Histograms\<close>

definition INT_MAX :: int where "INT_MAX = 2147483647"

definition is_HistItem :: "CPLXMLNode \<Rightarrow> bool" where
  "is_HistItem h \<longleftrightarrow> eType h = CXT_Element \<and> EQUAL (pszValue h) ''HistItem''"

text \<open>
  The loop of \<^verbatim>\<open>PamParseHistogram\<close> over the buckets: read a number at the cursor, then
  move the cursor behind the next \<^verbatim>\<open>|\<close>, or to the end of the string.
\<close>

definition skip_count :: "string \<Rightarrow> string" where
  "skip_count s = (case dropWhile (\<lambda>c. c \<noteq> CHR ''|'') s of [] \<Rightarrow> [] | c # r \<Rightarrow> r)"

fun parse_counts :: "nat \<Rightarrow> string \<Rightarrow> uint64_t list" where
  "parse_counts 0 s = []"
| "parse_counts (Suc n) s = CPLAtoGIntBig s # parse_counts n (skip_count s)"

text \<open>
  In this section \<open>dMin\<close> and \<open>dMax\<close> stand for the \<^verbatim>\<open>dfMin\<close> and \<^verbatim>\<open>dfMax\<close>
  of the source, which are also fields of the overlay record.

  \<^verbatim>\<open>PamParseHistogram\<close>. \<open>want\<close> says whether the caller passes \<^verbatim>\<open>ppanHistogram\<close>.
  The result is the return value, what the call has written to \<^verbatim>\<open>*pdfMin\<close>,
  \<^verbatim>\<open>*pdfMax\<close> and \<^verbatim>\<open>*pnBuckets\<close> (\<open>None\<close> when it has written nothing), what it
  has written to \<^verbatim>\<open>*ppanHistogram\<close>, and the errors it has reported.
\<close>

definition PamParseHistogram :: "('rat, 'md) env \<Rightarrow> CPLXMLNode option \<Rightarrow> bool
    \<Rightarrow> bool \<times> (double \<times> double \<times> int) option \<times> uint64_t list option \<times> (CPLErr \<times> CPLErrorNum) list" where
  "PamParseHistogram E psHistItem want =
     (case psHistItem of
        None \<Rightarrow> (False, None, None, [])
      | Some h \<Rightarrow>
          (let dMin = CPLAtofM E (CPLGetXMLValueD h [''HistMin''] ''0'');
               dMax = CPLAtofM E (CPLGetXMLValueD h [''HistMax''] ''1'');
               nBuckets = atoi (CPLGetXMLValueD h [''BucketCount''] ''2'');
               out = Some (dMin, dMax, nBuckets)
           in if nBuckets \<le> 0 \<or> nBuckets > INT_MAX div 2 then (False, out, None, [])
              else if \<not> want then (True, out, None, [])
              else
                (let pszHistCounts = CPLGetXMLValueD h [''HistCounts''] [] in
                 if int (length pszHistCounts) < 2 * nBuckets - 1
                 then (False, out, None, [(CE_Failure, CPLE_AppDefined)])
                 else if \<not> VSICalloc_ok E (nat nBuckets)
                 then (False, out, None, [(CE_Failure, CPLE_OutOfMemory)])
                 else (True, out, Some (parse_counts (nat nBuckets) pszHistCounts), []))))"

text \<open>
  \<^verbatim>\<open>PamFindMatchingHistogram\<close>. The two flags are C integers, read as truth values.
  The pointer returned is the position of the item among the children of
  \<^verbatim>\<open>psSavedHistograms\<close>.
\<close>

definition hist_mismatch :: "('rat, 'md) env \<Rightarrow> CPLXMLNode \<Rightarrow> double \<Rightarrow> double \<Rightarrow> int \<Rightarrow> int \<Rightarrow> int
    \<Rightarrow> bool" where
  "hist_mismatch E psXMLHist dMin dMax nBuckets bIncludeOutOfRange bApproxOK \<longleftrightarrow>
     (let dfHistMin = CPLAtofM E (CPLGetXMLValueD psXMLHist [''HistMin''] ''0'');
          dfHistMax = CPLAtofM E (CPLGetXMLValueD psXMLHist [''HistMax''] ''0'')
      in \<not> ARE_REAL_EQUAL E dfHistMin dMin \<or>
         \<not> ARE_REAL_EQUAL E dfHistMax dMax \<or>
         atoi (CPLGetXMLValueD psXMLHist [''BucketCount''] ''0'') \<noteq> nBuckets \<or>
         (atoi (CPLGetXMLValueD psXMLHist [''IncludeOutOfRange''] ''0'') = 0)
           \<noteq> (bIncludeOutOfRange = 0) \<or>
         (bApproxOK = 0 \<and> atoi (CPLGetXMLValueD psXMLHist [''Approximate''] ''0'') \<noteq> 0))"

fun find_hist :: "('rat, 'md) env \<Rightarrow> CPLXMLNode list \<Rightarrow> nat \<Rightarrow> double \<Rightarrow> double \<Rightarrow> int \<Rightarrow> int \<Rightarrow> int
    \<Rightarrow> nat option" where
  "find_hist E [] i dMin dMax nBuckets bIncludeOutOfRange bApproxOK = None"
| "find_hist E (psXMLHist # rest) i dMin dMax nBuckets bIncludeOutOfRange bApproxOK =
     (if \<not> is_HistItem psXMLHist
      then find_hist E rest (Suc i) dMin dMax nBuckets bIncludeOutOfRange bApproxOK
      else if hist_mismatch E psXMLHist dMin dMax nBuckets bIncludeOutOfRange bApproxOK
      then find_hist E rest (Suc i) dMin dMax nBuckets bIncludeOutOfRange bApproxOK
      else Some i)"

definition PamFindMatchingHistogram :: "('rat, 'md) env \<Rightarrow> CPLXMLNode option \<Rightarrow> double \<Rightarrow> double
    \<Rightarrow> int \<Rightarrow> int \<Rightarrow> int \<Rightarrow> nat option" where
  "PamFindMatchingHistogram E psSavedHists dMin dMax nBuckets bIncludeOutOfRange bApproxOK =
     (case psSavedHists of
        None \<Rightarrow> None
      | Some hs \<Rightarrow> find_hist E (psChild hs) 0 dMin dMax nBuckets bIncludeOutOfRange bApproxOK)"

text \<open>
  \<^verbatim>\<open>PamHistogramToXMLTree\<close>. The caller's array \<open>panHistogram\<close> has \<open>nBuckets\<close>
  entries. The length of the text buffer is computed in \<^verbatim>\<open>size_t\<close>, of 64 bits.
\<close>

fun join_counts :: "uint64_t list \<Rightarrow> string" where
  "join_counts [] = []"
| "join_counts [c] = Printf_u (unat c)"
| "join_counts (c # cs) = Printf_u (unat c) @ CHR ''|'' # join_counts cs"

definition PamHistogramToXMLTree :: "('rat, 'md) env \<Rightarrow> double \<Rightarrow> double \<Rightarrow> int \<Rightarrow> uint64_t list
    \<Rightarrow> int \<Rightarrow> int \<Rightarrow> CPLXMLNode option" where
  "PamHistogramToXMLTree E dMin dMax nBuckets panHistogram bIncludeOutOfRange bApprox =
     (if nBuckets > (INT_MAX - 10) div 12 then None
      else if \<not> VSIMalloc_ok E (nat ((22 * (nBuckets mod 2 ^ 64) + 10) mod 2 ^ 64)) then None
      else
        (let x0 = CPLXMLNode CXT_Element ''HistItem'' [];
             x1 = SetXMLValue x0 [''HistMin''] (Printf_16g E dMin);
             x2 = SetXMLValue x1 [''HistMax''] (Printf_16g E dMax);
             x3 = SetXMLValue x2 [''BucketCount''] (Printf_d nBuckets);
             x4 = SetXMLValue x3 [''IncludeOutOfRange''] (Printf_d bIncludeOutOfRange);
             x5 = SetXMLValue x4 [''Approximate''] (Printf_d bApprox)
         in Some (SetXMLValue x5 [''HistCounts''] (join_counts (take (nat nBuckets) panHistogram)))))"

text \<open>
  \<^verbatim>\<open>GetHistogram\<close>. The second component of the result is what the call leaves in the
  caller's array \<open>panHistogram\<close> (\<open>None\<close> when it has not written to it).
  \<open>GetHistogram_native\<close> is the second half of the function, from the call of the native
  computation on. A cached item that is found but does not decode has already
  overwritten the arguments \<^verbatim>\<open>dfMin\<close>, \<^verbatim>\<open>dfMax\<close> and \<^verbatim>\<open>nBuckets\<close> when that half
  runs.
\<close>

definition GetHistogram_native :: "('rat, 'md) env \<Rightarrow> double \<Rightarrow> double \<Rightarrow> int \<Rightarrow> int \<Rightarrow> int
    \<Rightarrow> 'rat GDALRasterBandPamInfo \<Rightarrow> ('rat, 'md) GDALPamRasterBand
    \<Rightarrow> CPLErr call \<times> uint64_t list option \<times> ('rat, 'md) GDALPamRasterBand" where
  "GetHistogram_native E dMin dMax nBuckets bIncludeOutOfRange bApproxOK p b =
     (case GDALRasterBand_GetHistogram E dMin dMax nBuckets
             (bIncludeOutOfRange \<noteq> 0) (bApproxOK \<noteq> 0) of
        (eErr, panHistogram) \<Rightarrow>
          if eErr \<noteq> CE_None then (Pam eErr, Some panHistogram, b)
          else
            (case PamHistogramToXMLTree E dMin dMax nBuckets panHistogram
                    bIncludeOutOfRange bApproxOK of
               None \<Rightarrow> (Pam CE_None, Some panHistogram, b)
             | Some psXMLHist \<Rightarrow>
                 (let b1 = MarkPamDirty b;
                      hs = (case psSavedHistograms p of
                              None \<Rightarrow> CPLXMLNode CXT_Element ''Histograms'' []
                            | Some hs \<Rightarrow> hs)
                  in (Pam CE_None, Some panHistogram,
                      b1\<lparr>psPam := Some (p\<lparr>psSavedHistograms :=
                             Some (CPLAddXMLChild hs psXMLHist)\<rparr>)\<rparr>))))"

definition GetHistogram :: "('rat, 'md) env \<Rightarrow> double \<Rightarrow> double \<Rightarrow> int \<Rightarrow> int \<Rightarrow> int
    \<Rightarrow> ('rat, 'md) GDALPamRasterBand
    \<Rightarrow> CPLErr call \<times> uint64_t list option \<times> ('rat, 'md) GDALPamRasterBand" where
  "GetHistogram E dMin dMax nBuckets bIncludeOutOfRange bApproxOK b0 =
     (let b = PamInitialize E b0 in
      case psPam b of
        None \<Rightarrow> (Base, None, b)
      | Some p \<Rightarrow>
          (case PamFindMatchingHistogram E (psSavedHistograms p) dMin dMax nBuckets
                  bIncludeOutOfRange bApproxOK of
             None \<Rightarrow> GetHistogram_native E dMin dMax nBuckets bIncludeOutOfRange bApproxOK p b
           | Some i \<Rightarrow>
               (case PamParseHistogram E
                       (map_option (\<lambda>hs. psChild hs ! i) (psSavedHistograms p)) True of
                  (ok, out, panTempHist, errs) \<Rightarrow>
                    (let b1 = b\<lparr>cpl_errors := cpl_errors b @ errs\<rparr> in
                     if ok then (Pam CE_None, panTempHist, b1)
                     else
                       (case out of
                          Some (dMin', dMax', nBuckets') \<Rightarrow>
                            GetHistogram_native E dMin' dMax' nBuckets'
                              bIncludeOutOfRange bApproxOK p b1
                        | None \<Rightarrow>
                            GetHistogram_native E dMin dMax nBuckets
                              bIncludeOutOfRange bApproxOK p b1)))))"

definition SetDefaultHistogram :: "('rat, 'md) env \<Rightarrow> double \<Rightarrow> double \<Rightarrow> int \<Rightarrow> uint64_t list
    \<Rightarrow> ('rat, 'md) GDALPamRasterBand \<Rightarrow> CPLErr call \<times> ('rat, 'md) GDALPamRasterBand" where
  "SetDefaultHistogram E dMin dMax nBuckets panHistogram b0 =
     (let b = PamInitialize E b0 in
      case psPam b of
        None \<Rightarrow> (Base, b)
      | Some p \<Rightarrow>
          (let psNode = PamFindMatchingHistogram E (psSavedHistograms p) dMin dMax nBuckets 1 1;
               p1 = (case psNode of
                       None \<Rightarrow> p
                     | Some i \<Rightarrow>
                         p\<lparr>psSavedHistograms :=
                             map_option (\<lambda>hs. CPLRemoveXMLChild hs i) (psSavedHistograms p)\<rparr>);
               b1 = b\<lparr>psPam := Some p1\<rparr>
           in case PamHistogramToXMLTree E dMin dMax nBuckets panHistogram 1 0 of
                None \<Rightarrow> (Pam CE_Failure, b1)
              | Some psHistItem \<Rightarrow>
                  (let b2 = MarkPamDirty b1;
                       hs = (case psSavedHistograms p1 of
                               None \<Rightarrow> CPLXMLNode CXT_Element ''Histograms'' []
                             | Some hs \<Rightarrow> hs)
                   in (Pam CE_None,
                       b2\<lparr>psPam := Some (p1\<lparr>psSavedHistograms :=
                              Some (CPLXMLNode (eType hs) (pszValue hs) (psHistItem # psChild hs))\<rparr>)\<rparr>))))"

text \<open>
  \<^verbatim>\<open>GetDefaultHistogram\<close>: the first item of the list, decoded; \<open>want\<close> says whether
  the caller passes \<^verbatim>\<open>ppanHistogram\<close>.
\<close>

definition GetDefaultHistogram :: "('rat, 'md) env \<Rightarrow> bool \<Rightarrow> ('rat, 'md) GDALPamRasterBand
    \<Rightarrow> CPLErr call \<times> (double \<times> double \<times> int) option \<times> uint64_t list option
        \<times> ('rat, 'md) GDALPamRasterBand" where
  "GetDefaultHistogram E want b =
     (case psPam b of
        None \<Rightarrow> (Base, None, None, b)
      | Some p \<Rightarrow>
          (case psSavedHistograms p of
             None \<Rightarrow> (Base, None, None, b)
           | Some hs \<Rightarrow>
               (case find is_HistItem (psChild hs) of
                  None \<Rightarrow> (Base, None, None, b)
                | Some psXMLHist \<Rightarrow>
                    (case PamParseHistogram E (Some psXMLHist) want of
                       (ok, out, h, errs) \<Rightarrow>
                         (Pam (if ok then CE_None else CE_Failure), out, h,
                          b\<lparr>cpl_errors := cpl_errors b @ errs\<rparr>)))))"

section \<open>Serialisation\<close>

definition add_element :: "CPLXMLNode \<Rightarrow> CPLXMLNode \<Rightarrow> CPLXMLNode" where
  \<comment> \<open>\<^verbatim>\<open>CPLCreateXMLNode\<close> with a parent, for a node whose children the source fills in afterwards\<close>
  "add_element psParent n =
     CPLXMLNode (eType psParent) (pszValue psParent) (link_child n (psChild psParent))"

definition Serialize_NoDataValue :: "('rat, 'md) env \<Rightarrow> 'rat GDALRasterBandPamInfo
    \<Rightarrow> CPLXMLNode \<Rightarrow> CPLXMLNode" where
  "Serialize_NoDataValue E p psTree =
     (if bNoDataValueSet p then
        (let t1 = (if CPLIsNan (dfNoDataValue p) then SetXMLValue psTree [''NoDataValue''] ''nan''
                   else SetXMLValue psTree [''NoDataValue''] (Printf_14E E (dfNoDataValue p)))
         in if d_ne (dfNoDataValue p) (floor_double E (dfNoDataValue p)) \<or>
               d_ne (dfNoDataValue p) (CPLAtof E (Printf_14E E (dfNoDataValue p)))
            then SetXMLValue t1 [''NoDataValue'', ''#le_hex_equiv'']
                   (CPLBinaryToHex (le_bytes (dfNoDataValue p)))
            else t1)
      else if bNoDataValueSetAsInt64 p
        then SetXMLValue psTree [''NoDataValue''] (Printf_d (sint (nNoDataValueInt64 p)))
      else if bNoDataValueSetAsUInt64 p
        then SetXMLValue psTree [''NoDataValue''] (Printf_u (unat (nNoDataValueUInt64 p)))
      else psTree)"

definition Serialize_Entry :: "GDALColorEntry \<Rightarrow> CPLXMLNode" where
  "Serialize_Entry sEntry =
     (let e0 = CPLXMLNode CXT_Element ''Entry'' [];
          e1 = SetXMLValue e0 [''#c1''] (Printf_d (c1 sEntry));
          e2 = SetXMLValue e1 [''#c2''] (Printf_d (c2 sEntry));
          e3 = SetXMLValue e2 [''#c3''] (Printf_d (c3 sEntry))
      in SetXMLValue e3 [''#c4''] (Printf_d (c4 sEntry)))"

text \<open>
  \<^verbatim>\<open>SerializeToXML\<close>, block by block in the order of the source: each block takes the
  tree built so far and returns it with what the block adds. In the test of the nodata
  value against its text form, \<^verbatim>\<open>oFmt\<close> holds that text form whenever the test looks at
  it: for a NaN the first comparison is already true.
\<close>

definition Serialize_Band :: "('rat, 'md) GDALPamRasterBand \<Rightarrow> CPLXMLNode \<Rightarrow> CPLXMLNode" where
  "Serialize_Band b psTree =
     (if nBand b > 0 then SetXMLValue psTree [''#band''] (Printf_d (nBand b)) else psTree)"

definition Serialize_Description :: "('rat, 'md) GDALPamRasterBand \<Rightarrow> CPLXMLNode \<Rightarrow> CPLXMLNode" where
  "Serialize_Description b psTree =
     (if sDescription b \<noteq> [] then SetXMLValue psTree [''Description''] (sDescription b)
      else psTree)"

definition Serialize_UnitType :: "'rat GDALRasterBandPamInfo \<Rightarrow> CPLXMLNode \<Rightarrow> CPLXMLNode" where
  "Serialize_UnitType p psTree =
     (case pszUnitType p of
        Some u \<Rightarrow> SetXMLValue psTree [''UnitType''] u
      | None \<Rightarrow> psTree)"

definition Serialize_Offset :: "('rat, 'md) env \<Rightarrow> 'rat GDALRasterBandPamInfo
    \<Rightarrow> CPLXMLNode \<Rightarrow> CPLXMLNode" where
  "Serialize_Offset E p psTree =
     (if d_ne (dfOffset p) d_0
      then SetXMLValue psTree [''Offset''] (Printf_16g E (dfOffset p)) else psTree)"

definition Serialize_Scale :: "('rat, 'md) env \<Rightarrow> 'rat GDALRasterBandPamInfo
    \<Rightarrow> CPLXMLNode \<Rightarrow> CPLXMLNode" where
  "Serialize_Scale E p psTree =
     (if d_ne (dfScale p) d_1
      then SetXMLValue psTree [''Scale''] (Printf_16g E (dfScale p)) else psTree)"

definition Serialize_ColorInterp :: "('rat, 'md) env \<Rightarrow> 'rat GDALRasterBandPamInfo
    \<Rightarrow> CPLXMLNode \<Rightarrow> CPLXMLNode" where
  "Serialize_ColorInterp E p psTree =
     (if eColorInterp p \<noteq> GCI_Undefined
      then SetXMLValue psTree [''ColorInterp''] (GDALGetColorInterpretationName E (eColorInterp p))
      else psTree)"

definition Serialize_CategoryNames :: "'rat GDALRasterBandPamInfo \<Rightarrow> CPLXMLNode \<Rightarrow> CPLXMLNode" where
  "Serialize_CategoryNames p psTree =
     (case papszCategoryNames p of
        Some names \<Rightarrow>
          add_element psTree (CPLXMLNode CXT_Element ''CategoryNames''
            (map (CPLCreateXMLElementAndValue ''Category'') names))
      | None \<Rightarrow> psTree)"

definition Serialize_ColorTable :: "'rat GDALRasterBandPamInfo \<Rightarrow> CPLXMLNode \<Rightarrow> CPLXMLNode" where
  "Serialize_ColorTable p psTree =
     (case poColorTable p of
        Some tab \<Rightarrow>
          add_element psTree (CPLXMLNode CXT_Element ''ColorTable'' (map Serialize_Entry tab))
      | None \<Rightarrow> psTree)"

definition Serialize_MinMax :: "('rat, 'md) env \<Rightarrow> 'rat GDALRasterBandPamInfo
    \<Rightarrow> CPLXMLNode \<Rightarrow> CPLXMLNode" where
  "Serialize_MinMax E p psTree =
     (if bHaveMinMax p
      then SetXMLValue (SetXMLValue psTree [''Minimum''] (Printf_16g E (dfMin p)))
             [''Maximum''] (Printf_16g E (dfMax p))
      else psTree)"

definition Serialize_Stats :: "('rat, 'md) env \<Rightarrow> 'rat GDALRasterBandPamInfo
    \<Rightarrow> CPLXMLNode \<Rightarrow> CPLXMLNode" where
  "Serialize_Stats E p psTree =
     (if bHaveStats p
      then SetXMLValue (SetXMLValue psTree [''Mean''] (Printf_16g E (dfMean p)))
             [''StandardDeviation''] (Printf_16g E (dfStdDev p))
      else psTree)"

definition Serialize_Histograms :: "'rat GDALRasterBandPamInfo \<Rightarrow> CPLXMLNode \<Rightarrow> CPLXMLNode" where
  "Serialize_Histograms p psTree =
     (case psSavedHistograms p of
        Some hs \<Rightarrow> CPLAddXMLChild psTree hs
      | None \<Rightarrow> psTree)"

definition Serialize_RAT :: "('rat, 'md) env \<Rightarrow> 'rat GDALRasterBandPamInfo
    \<Rightarrow> CPLXMLNode \<Rightarrow> CPLXMLNode" where
  "Serialize_RAT E p psTree =
     (case poDefaultRAT p of
        Some rat \<Rightarrow>
          (case RAT_Serialize E rat of
             Some psSerializedRAT \<Rightarrow> CPLAddXMLChild psTree psSerializedRAT
           | None \<Rightarrow> psTree)
      | None \<Rightarrow> psTree)"

definition Serialize_Metadata :: "('rat, 'md) env \<Rightarrow> ('rat, 'md) GDALPamRasterBand
    \<Rightarrow> CPLXMLNode \<Rightarrow> CPLXMLNode" where
  "Serialize_Metadata E b psTree = CPLAddXMLChildren psTree (MDMD_Serialize E (oMDMD b))"

definition SerializeToXML :: "('rat, 'md) env \<Rightarrow> ('rat, 'md) GDALPamRasterBand \<Rightarrow> CPLXMLNode option" where
  "SerializeToXML E b =
     (case psPam b of
        None \<Rightarrow> None
      | Some p \<Rightarrow>
          (let t0 = CPLXMLNode CXT_Element ''PAMRasterBand'' [];
               t1 = Serialize_Band b t0;
               t2 = Serialize_Description b t1;
               t3 = Serialize_NoDataValue E p t2;
               t4 = Serialize_UnitType p t3;
               t5 = Serialize_Offset E p t4;
               t6 = Serialize_Scale E p t5;
               t7 = Serialize_ColorInterp E p t6;
               t8 = Serialize_CategoryNames p t7;
               t9 = Serialize_ColorTable p t8;
               t10 = Serialize_MinMax E p t9;
               t11 = Serialize_Stats E p t10;
               t12 = Serialize_Histograms p t11;
               t13 = Serialize_RAT E p t12;
               psTree = Serialize_Metadata E b t13
           in case psChild psTree of
                [] \<Rightarrow> None
              | [c] \<Rightarrow> None
              | _ \<Rightarrow> Some psTree))"

section \<open>Deserialisation\<close>

datatype crash = NullPointerDereference

text \<open>A write through \<^verbatim>\<open>psPam\<close> that the source does without a test of the pointer.\<close>

definition with_psPam :: "('rat GDALRasterBandPamInfo \<Rightarrow> 'rat GDALRasterBandPamInfo)
    \<Rightarrow> ('rat, 'md) GDALPamRasterBand \<Rightarrow> crash + ('rat, 'md) GDALPamRasterBand" where
  "with_psPam f b =
     (case psPam b of
        None \<Rightarrow> Inl NullPointerDereference
      | Some p \<Rightarrow> Inr (b\<lparr>psPam := Some (f p)\<rparr>))"

definition XMLInit_NoDataValue :: "('rat, 'md) env \<Rightarrow> CPLXMLNode \<Rightarrow> ('rat, 'md) GDALPamRasterBand
    \<Rightarrow> ('rat, 'md) GDALPamRasterBand" where
  "XMLInit_NoDataValue E psTree b =
     (case CPLGetXMLValue psTree [''NoDataValue''] None of
        None \<Rightarrow> b
      | Some pszNoDataValue \<Rightarrow>
          (case CPLGetXMLValue psTree [''NoDataValue'', ''le_hex_equiv''] None of
             Some pszLEHex \<Rightarrow>
               (let pabyBin = CPLHexToBinary pszLEHex in
                if length pabyBin = 8 then snd (SetNoDataValue E (of_le_bytes pabyBin) b)
                else snd (SetNoDataValue E (CPLAtof E pszNoDataValue) b))
           | None \<Rightarrow>
               if eDataType b = GDT_Int64
               then snd (SetNoDataValueAsInt64 E (word_of_int (strtoll pszNoDataValue)) b)
               else if eDataType b = GDT_UInt64
               then snd (SetNoDataValueAsUInt64 E (strtoull pszNoDataValue) b)
               else snd (SetNoDataValue E (CPLAtof E pszNoDataValue) b)))"

definition XMLInit_OffsetScale :: "('rat, 'md) env \<Rightarrow> CPLXMLNode \<Rightarrow> ('rat, 'md) GDALPamRasterBand
    \<Rightarrow> ('rat, 'md) GDALPamRasterBand" where
  "XMLInit_OffsetScale E psTree b =
     (let pszOffset = CPLGetXMLValue psTree [''Offset''] None;
          pszScale = CPLGetXMLValue psTree [''Scale''] None
      in if pszOffset \<noteq> None \<or> pszScale \<noteq> None
         then snd (SetScale E (case pszScale of Some s \<Rightarrow> CPLAtof E s | None \<Rightarrow> d_1)
                (snd (SetOffset E (case pszOffset of Some s \<Rightarrow> CPLAtof E s | None \<Rightarrow> d_0) b)))
         else b)"

definition XMLInit_UnitType :: "('rat, 'md) env \<Rightarrow> CPLXMLNode \<Rightarrow> ('rat, 'md) GDALPamRasterBand
    \<Rightarrow> ('rat, 'md) GDALPamRasterBand" where
  "XMLInit_UnitType E psTree b =
     (case CPLGetXMLValue psTree [''UnitType''] None of
        Some pszUnit \<Rightarrow> snd (SetUnitType E (Some pszUnit) b)
      | None \<Rightarrow> b)"

definition XMLInit_ColorInterp :: "('rat, 'md) env \<Rightarrow> CPLXMLNode \<Rightarrow> ('rat, 'md) GDALPamRasterBand
    \<Rightarrow> ('rat, 'md) GDALPamRasterBand" where
  "XMLInit_ColorInterp E psTree b =
     (case CPLGetXMLValue psTree [''ColorInterp''] None of
        Some pszInterp \<Rightarrow>
          snd (SetColorInterpretation E (GDALGetColorInterpretationByName E pszInterp) b)
      | None \<Rightarrow> b)"

text \<open>
  The category names: every element \<^verbatim>\<open>Category\<close> whose first child, if it has one, is a
  text node; an element without a child gives the empty string. \<^verbatim>\<open>CPLStringList::List\<close>
  is \<^verbatim>\<open>nullptr\<close> for a list that has received no string.
\<close>

definition is_Category :: "CPLXMLNode \<Rightarrow> bool" where
  "is_Category psEntry \<longleftrightarrow>
     \<not> (eType psEntry \<noteq> CXT_Element \<or> \<not> EQUAL (pszValue psEntry) ''Category'' \<or>
        (case psChild psEntry of [] \<Rightarrow> False | c # _ \<Rightarrow> eType c \<noteq> CXT_Text))"

definition XMLInit_CategoryNames :: "('rat, 'md) env \<Rightarrow> CPLXMLNode \<Rightarrow> ('rat, 'md) GDALPamRasterBand
    \<Rightarrow> ('rat, 'md) GDALPamRasterBand" where
  "XMLInit_CategoryNames E psTree b =
     (case CPLGetXMLNode psTree [''CategoryNames''] of
        Some psCategoryNames \<Rightarrow>
          (let oCategoryNames =
                 map (\<lambda>psEntry. case psChild psEntry of [] \<Rightarrow> [] | c # _ \<Rightarrow> pszValue c)
                   (filter is_Category (psChild psCategoryNames))
           in snd (SetCategoryNames E
                     (if oCategoryNames = [] then None else Some oCategoryNames) b))
      | None \<Rightarrow> b)"

text \<open>
  The colour table: the entries in document order, the index counted from zero, so that
  \<^verbatim>\<open>SetColorEntry\<close> appends each one.
\<close>

definition XMLInit_Entry :: "CPLXMLNode \<Rightarrow> GDALColorEntry" where
  "XMLInit_Entry psEntry =
     \<lparr> c1 = cast_short (atoi (CPLGetXMLValueD psEntry [''c1''] ''0'')),
       c2 = cast_short (atoi (CPLGetXMLValueD psEntry [''c2''] ''0'')),
       c3 = cast_short (atoi (CPLGetXMLValueD psEntry [''c3''] ''0'')),
       c4 = cast_short (atoi (CPLGetXMLValueD psEntry [''c4''] ''255'')) \<rparr>"

definition XMLInit_ColorTable :: "('rat, 'md) env \<Rightarrow> CPLXMLNode \<Rightarrow> ('rat, 'md) GDALPamRasterBand
    \<Rightarrow> ('rat, 'md) GDALPamRasterBand" where
  "XMLInit_ColorTable E psTree b =
     (case CPLGetXMLNode psTree [''ColorTable''] of
        Some psColorTable \<Rightarrow>
          (let oTable =
                 map XMLInit_Entry
                   (filter (\<lambda>psEntry. eType psEntry = CXT_Element \<and> EQUAL (pszValue psEntry) ''Entry'')
                      (psChild psColorTable))
           in snd (SetColorTable E (Some oTable) b))
      | None \<Rightarrow> b)"

definition XMLInit_MinMax :: "('rat, 'md) env \<Rightarrow> CPLXMLNode \<Rightarrow> ('rat, 'md) GDALPamRasterBand
    \<Rightarrow> crash + ('rat, 'md) GDALPamRasterBand" where
  "XMLInit_MinMax E psTree b =
     (case CPLGetXMLValue psTree [''Minimum''] None of
        Some pszMinimum \<Rightarrow>
          (case CPLGetXMLValue psTree [''Maximum''] None of
             Some pszMaximum \<Rightarrow>
               with_psPam (\<lambda>p. p\<lparr>bHaveMinMax := True, dfMin := CPLAtofM E pszMinimum,
                                  dfMax := CPLAtofM E pszMaximum\<rparr>) b
           | None \<Rightarrow> Inr b)
      | None \<Rightarrow> Inr b)"

definition XMLInit_Stats :: "('rat, 'md) env \<Rightarrow> CPLXMLNode \<Rightarrow> ('rat, 'md) GDALPamRasterBand
    \<Rightarrow> crash + ('rat, 'md) GDALPamRasterBand" where
  "XMLInit_Stats E psTree b =
     (case CPLGetXMLValue psTree [''Mean''] None of
        Some pszMean \<Rightarrow>
          (case CPLGetXMLValue psTree [''StandardDeviation''] None of
             Some pszStandardDeviation \<Rightarrow>
               with_psPam (\<lambda>p. p\<lparr>bHaveStats := True, dfMean := CPLAtofM E pszMean,
                                  dfStdDev := CPLAtofM E pszStandardDeviation\<rparr>) b
           | None \<Rightarrow> Inr b)
      | None \<Rightarrow> Inr b)"

definition XMLInit_Histograms :: "CPLXMLNode \<Rightarrow> ('rat, 'md) GDALPamRasterBand
    \<Rightarrow> crash + ('rat, 'md) GDALPamRasterBand" where
  "XMLInit_Histograms psTree b =
     (case CPLGetXMLNode psTree [''Histograms''] of
        Some psHist \<Rightarrow> with_psPam (\<lambda>p. p\<lparr>psSavedHistograms := Some psHist\<rparr>) b
      | None \<Rightarrow> Inr b)"

definition XMLInit_RAT :: "('rat, 'md) env \<Rightarrow> CPLXMLNode \<Rightarrow> ('rat, 'md) GDALPamRasterBand
    \<Rightarrow> crash + ('rat, 'md) GDALPamRasterBand" where
  "XMLInit_RAT E psTree b =
     (case CPLGetXMLNode psTree [''GDALRasterAttributeTable''] of
        Some psRAT \<Rightarrow> with_psPam (\<lambda>p. p\<lparr>poDefaultRAT := Some (RAT_XMLInit E psRAT)\<rparr>) b
      | None \<Rightarrow> Inr b)"

definition bind_crash :: "crash + 'a \<Rightarrow> ('a \<Rightarrow> crash + 'b) \<Rightarrow> crash + 'b" where
  "bind_crash m f = (case m of Inl e \<Rightarrow> Inl e | Inr x \<Rightarrow> f x)"

text \<open>
  \<^verbatim>\<open>XMLInit\<close>, block by block in the order of the source. It returns \<^verbatim>\<open>CE_None\<close>
  whenever it returns.
\<close>

definition XMLInit :: "('rat, 'md) env \<Rightarrow> CPLXMLNode \<Rightarrow> ('rat, 'md) GDALPamRasterBand
    \<Rightarrow> crash + ('rat, 'md) GDALPamRasterBand" where
  "XMLInit E psTree b0 =
     (let b1 = PamInitialize E b0;
          b2 = b1\<lparr>oMDMD := MDMD_XMLInit E psTree (oMDMD b1)\<rparr>;
          b3 = b2\<lparr>sDescription := CPLGetXMLValueD psTree [''Description''] []\<rparr>;
          b4 = XMLInit_NoDataValue E psTree b3;
          b5 = XMLInit_OffsetScale E psTree b4;
          b6 = XMLInit_UnitType E psTree b5;
          b7 = XMLInit_ColorInterp E psTree b6;
          b8 = XMLInit_CategoryNames E psTree b7;
          b9 = XMLInit_ColorTable E psTree b8
      in bind_crash (XMLInit_MinMax E psTree b9) (\<lambda>b10.
         bind_crash (XMLInit_Stats E psTree b10) (\<lambda>b11.
         bind_crash (XMLInit_Histograms psTree b11) (\<lambda>b12.
         XMLInit_RAT E psTree b12))))"

section \<open>The band as a state machine\<close>

definition PamClear :: "('rat, 'md) GDALPamRasterBand \<Rightarrow> ('rat, 'md) GDALPamRasterBand" where
  "PamClear b = b\<lparr>psPam := None\<rparr>"

text \<open>
  The calls that can change the overlay record. \<^verbatim>\<open>CloneInfo\<close> changes it only through
  the setters listed here.
\<close>

datatype 'rat pam_op =
    Op_PamInitialize
  | Op_PamInitializeNoParent
  | Op_PamClear
  | Op_XMLInit CPLXMLNode
  | Op_SetNoDataValue double
  | Op_SetNoDataValueAsInt64 int64_t
  | Op_SetNoDataValueAsUInt64 uint64_t
  | Op_DeleteNoDataValue
  | Op_SetOffset double
  | Op_SetScale double
  | Op_SetUnitType "string option"
  | Op_SetCategoryNames "string list option"
  | Op_SetColorTable "GDALColorTable option"
  | Op_SetColorInterpretation GDALColorInterp
  | Op_SetDescription string
  | Op_SetDefaultRAT "'rat option"
  | Op_GetDefaultRAT
  | Op_GetHistogram double double int int int
  | Op_SetDefaultHistogram double double int "uint64_t list"

fun pam_step :: "('rat, 'md) env \<Rightarrow> 'rat pam_op \<Rightarrow> ('rat, 'md) GDALPamRasterBand
    \<Rightarrow> crash + ('rat, 'md) GDALPamRasterBand" where
  "pam_step E Op_PamInitialize b = Inr (PamInitialize E b)"
| "pam_step E Op_PamInitializeNoParent b = Inr (PamInitializeNoParent E b)"
| "pam_step E Op_PamClear b = Inr (PamClear b)"
| "pam_step E (Op_XMLInit psTree) b = XMLInit E psTree b"
| "pam_step E (Op_SetNoDataValue v) b = Inr (snd (SetNoDataValue E v b))"
| "pam_step E (Op_SetNoDataValueAsInt64 v) b = Inr (snd (SetNoDataValueAsInt64 E v b))"
| "pam_step E (Op_SetNoDataValueAsUInt64 v) b = Inr (snd (SetNoDataValueAsUInt64 E v b))"
| "pam_step E Op_DeleteNoDataValue b = Inr (snd (DeleteNoDataValue E b))"
| "pam_step E (Op_SetOffset v) b = Inr (snd (SetOffset E v b))"
| "pam_step E (Op_SetScale v) b = Inr (snd (SetScale E v b))"
| "pam_step E (Op_SetUnitType v) b = Inr (snd (SetUnitType E v b))"
| "pam_step E (Op_SetCategoryNames v) b = Inr (snd (SetCategoryNames E v b))"
| "pam_step E (Op_SetColorTable v) b = Inr (snd (SetColorTable E v b))"
| "pam_step E (Op_SetColorInterpretation v) b = Inr (snd (SetColorInterpretation E v b))"
| "pam_step E (Op_SetDescription v) b = Inr (SetDescription E v b)"
| "pam_step E (Op_SetDefaultRAT v) b = Inr (snd (SetDefaultRAT E v b))"
| "pam_step E Op_GetDefaultRAT b = Inr (snd (GetDefaultRAT E b))"
| "pam_step E (Op_GetHistogram dMin dMax n bIncl bApprox) b =
     Inr (snd (snd (GetHistogram E dMin dMax n bIncl bApprox b)))"
| "pam_step E (Op_SetDefaultHistogram dMin dMax n h) b =
     Inr (snd (SetDefaultHistogram E dMin dMax n h b))"

fun pam_run :: "('rat, 'md) env \<Rightarrow> 'rat pam_op list \<Rightarrow> ('rat, 'md) GDALPamRasterBand
    \<Rightarrow> crash + ('rat, 'md) GDALPamRasterBand" where
  "pam_run E [] b = Inr b"
| "pam_run E (op # ops) b = bind_crash (pam_step E op b) (pam_run E ops)"

text \<open>How many of the three nodata flags of a record are set.\<close>

definition nodata_flags :: "'rat GDALRasterBandPamInfo \<Rightarrow> bool list" where
  "nodata_flags p = [bNoDataValueSet p, bNoDataValueSetAsInt64 p, bNoDataValueSetAsUInt64 p]"

definition nodata_flag_count :: "('rat, 'md) GDALPamRasterBand \<Rightarrow> nat" where
  "nodata_flag_count b =
     (case psPam b of None \<Rightarrow> 0 | Some p \<Rightarrow> length (filter id (nodata_flags p)))"

text \<open>The dirty flag of the parent store of a band.\<close>

definition pam_dirty :: "('rat, 'md) GDALPamRasterBand \<Rightarrow> bool" where
  "pam_dirty b = (case poDS b of None \<Rightarrow> False | Some ds \<Rightarrow> ds_dirty ds)"

section \<open>A concrete environment\<close>

text \<open>
  An environment to run the model in. The doubles it knows are a few values with the text
  that \<^verbatim>\<open>%.16g\<close> and \<^verbatim>\<open>%.14E\<close> give them; the attribute table is held as its own
  document, the metadata store as the list of its \<^verbatim>\<open>Metadata\<close> elements.
\<close>

definition demo_doubles :: "(double \<times> string \<times> string \<times> int) list" where
  "demo_doubles =
     [(0x0000000000000000, ''0'', ''0.00000000000000E+00'', 0),
      (0x3FF0000000000000, ''1'', ''1.00000000000000E+00'', 1),
      (0x4000000000000000, ''2'', ''2.00000000000000E+00'', 2),
      (0x4004000000000000, ''2.5'', ''2.50000000000000E+00'', 2),
      (0x406FE00000000000, ''255'', ''2.55000000000000E+02'', 255),
      (0x4070000000000000, ''256'', ''2.56000000000000E+02'', 256),
      (0xC0C3878000000000, ''-9999'', ''-9.99900000000000E+03'', - 9999)]"

definition demo_Printf_16g :: "double \<Rightarrow> string" where
  "demo_Printf_16g d =
     (case find (\<lambda>(x, g, e, i). x = d) demo_doubles of Some (x, g, e, i) \<Rightarrow> g | None \<Rightarrow> ''nan'')"

definition demo_Printf_14E :: "double \<Rightarrow> string" where
  "demo_Printf_14E d =
     (case find (\<lambda>(x, g, e, i). x = d) demo_doubles of Some (x, g, e, i) \<Rightarrow> e | None \<Rightarrow> ''nan'')"

definition demo_Atof :: "string \<Rightarrow> double" where
  "demo_Atof s =
     (case find (\<lambda>(x, g, e, i). g = s \<or> e = s) demo_doubles of Some (x, g, e, i) \<Rightarrow> x | None \<Rightarrow> 0)"

definition demo_floor :: "double \<Rightarrow> double" where
  "demo_floor d = (if d = 0x4004000000000000 then 0x4000000000000000 else d)"

definition demo_cast :: "int \<Rightarrow> double" where
  "demo_cast k =
     (case find (\<lambda>(x, g, e, i). i = k \<and> x \<noteq> 0x4004000000000000) demo_doubles of
        Some (x, g, e, i) \<Rightarrow> x | None \<Rightarrow> 0)"

definition demo_interp_names :: "(GDALColorInterp \<times> string) list" where
  "demo_interp_names =
     [(GCI_Undefined, ''Undefined''), (GCI_GrayIndex, ''Gray''), (GCI_PaletteIndex, ''Palette''),
      (GCI_RedBand, ''Red''), (GCI_GreenBand, ''Green''), (GCI_BlueBand, ''Blue''),
      (GCI_AlphaBand, ''Alpha''), (GCI_HueBand, ''Hue''), (GCI_SaturationBand, ''Saturation''),
      (GCI_LightnessBand, ''Lightness''), (GCI_CyanBand, ''Cyan''), (GCI_MagentaBand, ''Magenta''),
      (GCI_YellowBand, ''Yellow''), (GCI_BlackBand, ''Black''), (GCI_YCbCr_YBand, ''YCbCr_Y''),
      (GCI_YCbCr_CbBand, ''YCbCr_Cb''), (GCI_YCbCr_CrBand, ''YCbCr_Cr'')]"

text \<open>A native histogram computation that finds seven pixels in every bucket.\<close>

definition demo_GetHistogram :: "double \<Rightarrow> double \<Rightarrow> int \<Rightarrow> bool \<Rightarrow> bool \<Rightarrow> CPLErr \<times> uint64_t list" where
  "demo_GetHistogram dMin dMax n bIncl bApprox = (CE_None, replicate (nat n) 7)"

definition demo_env :: "(CPLXMLNode, CPLXMLNode list) env" where
  "demo_env =
     \<lparr> GDAL_PAM_DEFAULT_NODATA_VALUE = 0,
       GDAL_PAM_DEFAULT_NODATA_VALUE_INT64 = 0x8000000000000000,
       GDAL_PAM_DEFAULT_NODATA_VALUE_UINT64 = 0xFFFFFFFFFFFFFFFF,
       CastInt64ToDouble = (\<lambda>w. demo_cast (sint w)),
       CastUInt64ToDouble = (\<lambda>w. demo_cast (uint w)),
       Printf_14E = demo_Printf_14E,
       Printf_16g = demo_Printf_16g,
       CPLAtof = demo_Atof,
       CPLAtofM = demo_Atof,
       floor_double = demo_floor,
       ARE_REAL_EQUAL = d_eq,
       GDALGetColorInterpretationName =
         (\<lambda>ci. case find (\<lambda>(c, n). c = ci) demo_interp_names of
                 Some (c, n) \<Rightarrow> n | None \<Rightarrow> ''Undefined''),
       GDALGetColorInterpretationByName =
         (\<lambda>s. case find (\<lambda>(c, n). EQUAL s n) demo_interp_names of
                 Some (c, n) \<Rightarrow> c | None \<Rightarrow> GCI_Undefined),
       RAT_Serialize = Some,
       RAT_XMLInit = (\<lambda>n. n),
       MDMD_Serialize = (\<lambda>md. md),
       MDMD_XMLInit =
         (\<lambda>psTree md. filter (\<lambda>c. eType c = CXT_Element \<and> EQUAL (pszValue c) ''Metadata'')
                          (psChild psTree)),
       GDALRasterBand_GetHistogram = demo_GetHistogram,
       new_PamInfo_ok = True,
       VSICalloc_ok = (\<lambda>n. True),
       VSIMalloc_ok = (\<lambda>n. True) \<rparr>"

text \<open>A band of type \<^verbatim>\<open>Byte\<close> in a dataset with overlay support, before its first use.\<close>

definition demo_band :: "(CPLXMLNode, CPLXMLNode list) GDALPamRasterBand" where
  "demo_band =
     \<lparr> psPam = None, eDataType = GDT_Byte, nBand = 1, sDescription = [], oMDMD = [],
       poDS = Some \<lparr> ds_PAM_CLASS = True, ds_is_GDALPamDataset = True, ds_psPam_ok = True,
                     ds_dirty = False \<rparr>,
       cpl_errors = [] \<rparr>"

text \<open>The record of the band once \<^verbatim>\<open>PamInitialize\<close> has created it.\<close>

definition demo_record :: "CPLXMLNode GDALRasterBandPamInfo" where
  "demo_record = (new_GDALRasterBandPamInfo demo_env)\<lparr>poParentDS := True\<rparr>"

text \<open>Bands of the concrete environment that the examples below start from.\<close>

definition demo_band_int64 :: "(CPLXMLNode, CPLXMLNode list) GDALPamRasterBand" where
  "demo_band_int64 =
     demo_band\<lparr>psPam := Some (demo_record\<lparr>bNoDataValueSetAsInt64 := True, nNoDataValueInt64 := 5\<rparr>),
                poDS := map_option (ds_dirty_update (\<lambda>_. True)) (poDS demo_band)\<rparr>"

definition demo_band_scaled :: "(CPLXMLNode, CPLXMLNode list) GDALPamRasterBand" where
  "demo_band_scaled =
     demo_band\<lparr>psPam := Some (demo_record\<lparr>dfOffset := 0x4004000000000000, bOffsetSet := True,
        dfScale := 0x4000000000000000, bScaleSet := True, pszUnitType := Some ''m''\<rparr>)\<rparr>"

text \<open>
  What \<^verbatim>\<open>SetUnitType\<close> stores for a new value: nothing for \<^verbatim>\<open>nullptr\<close> and for the
  empty string.
\<close>

definition unit_or_none :: "string option \<Rightarrow> string option" where
  "unit_or_none u = (if u = Some [] then None else u)"

section \<open>The histogram cache as the spec words it\<close>

text \<open>
  A histogram descriptor of the spec, without its counts, and the descriptor that
  \<^verbatim>\<open>PamFindMatchingHistogram\<close> reads from an item of the saved list.
\<close>

record HistogramDescriptor =
  hd_min :: double
  hd_max :: double
  hd_bucketCount :: int
  hd_includeOutOfRange :: bool
  hd_approximate :: bool

definition descriptor_of :: "('rat, 'md) env \<Rightarrow> CPLXMLNode \<Rightarrow> HistogramDescriptor" where
  "descriptor_of E h =
     \<lparr> hd_min = CPLAtofM E (CPLGetXMLValueD h [''HistMin''] ''0''),
       hd_max = CPLAtofM E (CPLGetXMLValueD h [''HistMax''] ''0''),
       hd_bucketCount = atoi (CPLGetXMLValueD h [''BucketCount''] ''0''),
       hd_includeOutOfRange = (atoi (CPLGetXMLValueD h [''IncludeOutOfRange''] ''0'') \<noteq> 0),
       hd_approximate = (atoi (CPLGetXMLValueD h [''Approximate''] ''0'') \<noteq> 0) \<rparr>"

text \<open>
  The match of the spec: min and max equal within the tolerance, the bucket count and the
  out-of-range flag equal, and an approximate candidate only for a caller that accepts
  approximate results.
\<close>

definition spec_histogram_matches :: "('rat, 'md) env \<Rightarrow> HistogramDescriptor \<Rightarrow> double \<Rightarrow> double
    \<Rightarrow> int \<Rightarrow> bool \<Rightarrow> bool \<Rightarrow> bool" where
  "spec_histogram_matches E d dMin dMax nBuckets includeOutOfRange approxOK \<longleftrightarrow>
     ARE_REAL_EQUAL E (hd_min d) dMin \<and> ARE_REAL_EQUAL E (hd_max d) dMax \<and>
     hd_bucketCount d = nBuckets \<and> hd_includeOutOfRange d = includeOutOfRange \<and>
     (hd_approximate d \<longrightarrow> approxOK)"

definition spec_candidate :: "('rat, 'md) env \<Rightarrow> double \<Rightarrow> double \<Rightarrow> int \<Rightarrow> bool \<Rightarrow> bool
    \<Rightarrow> CPLXMLNode \<Rightarrow> bool" where
  "spec_candidate E dMin dMax nBuckets includeOutOfRange approxOK c \<longleftrightarrow>
     is_HistItem c \<and>
     spec_histogram_matches E (descriptor_of E c) dMin dMax nBuckets includeOutOfRange approxOK"

text \<open>A list without the first of its elements that satisfies a predicate.\<close>

fun remove_first :: "('a \<Rightarrow> bool) \<Rightarrow> 'a list \<Rightarrow> 'a list" where
  "remove_first P [] = []"
| "remove_first P (x # xs) = (if P x then xs else x # remove_first P xs)"

text \<open>
  The item that \<^verbatim>\<open>PamHistogramToXMLTree\<close> builds, given the six texts it stores: one
  element with a text child for each.
\<close>

definition HistItem_node :: "string \<Rightarrow> string \<Rightarrow> string \<Rightarrow> string \<Rightarrow> string \<Rightarrow> string \<Rightarrow> CPLXMLNode" where
  "HistItem_node sMin sMax sBuckets sIncl sApprox sCounts =
     CPLXMLNode CXT_Element ''HistItem''
       [CPLCreateXMLElementAndValue ''HistMin'' sMin,
        CPLCreateXMLElementAndValue ''HistMax'' sMax,
        CPLCreateXMLElementAndValue ''BucketCount'' sBuckets,
        CPLCreateXMLElementAndValue ''IncludeOutOfRange'' sIncl,
        CPLCreateXMLElementAndValue ''Approximate'' sApprox,
        CPLCreateXMLElementAndValue ''HistCounts'' sCounts]"

text \<open>An environment without memory to allocate.\<close>

definition demo_env_no_memory :: "(CPLXMLNode, CPLXMLNode list) env" where
  "demo_env_no_memory = demo_env\<lparr>VSICalloc_ok := (\<lambda>n. False), VSIMalloc_ok := (\<lambda>n. False)\<rparr>"

text \<open>
  Bands whose record holds a list of saved histograms: two approximate ones for the range
  0 to 255 in two buckets, the first without and the second with the values out of range;
  one exact one without the values out of range; one whose counts are too short for its
  two buckets; one that announces two hundred million buckets.
\<close>

definition demo_band_hists :: "(CPLXMLNode, CPLXMLNode list) GDALPamRasterBand" where
  "demo_band_hists =
     demo_band\<lparr>psPam := Some (demo_record\<lparr>psSavedHistograms := Some
       (CPLXMLNode CXT_Element ''Histograms''
          [HistItem_node ''0'' ''255'' ''2'' ''0'' ''1'' ''3|4'',
           HistItem_node ''0'' ''255'' ''2'' ''1'' ''1'' ''5|6''])\<rparr>)\<rparr>"

definition demo_band_hist0 :: "(CPLXMLNode, CPLXMLNode list) GDALPamRasterBand" where
  "demo_band_hist0 =
     demo_band\<lparr>psPam := Some (demo_record\<lparr>psSavedHistograms := Some
       (CPLXMLNode CXT_Element ''Histograms''
          [HistItem_node ''0'' ''255'' ''2'' ''0'' ''0'' ''3|4''])\<rparr>)\<rparr>"

definition demo_band_short :: "(CPLXMLNode, CPLXMLNode list) GDALPamRasterBand" where
  "demo_band_short =
     demo_band\<lparr>psPam := Some (demo_record\<lparr>psSavedHistograms := Some
       (CPLXMLNode CXT_Element ''Histograms''
          [HistItem_node ''0'' ''255'' ''2'' ''1'' ''0'' ''34''])\<rparr>)\<rparr>"

definition demo_band_huge :: "(CPLXMLNode, CPLXMLNode list) GDALPamRasterBand" where
  "demo_band_huge =
     demo_band\<lparr>psPam := Some (demo_record\<lparr>psSavedHistograms := Some
       (CPLXMLNode CXT_Element ''Histograms''
          [HistItem_node ''0'' ''255'' ''200000000'' ''1'' ''0'' ''34''])\<rparr>)\<rparr>"

section \<open>Vocabulary for the deserialisation proofs\<close>

text \<open>
  Two bands have the same store when their datasets differ at most in the dirty flag. A
  band is initialised when it has a record that a further \<^verbatim>\<open>PamInitialize\<close> keeps. A
  band \<open>b'\<close> is \<open>b\<close> with the record \<open>q\<close> when it holds \<open>q\<close> and otherwise differs
  from \<open>b\<close> at most in the dirty flag and in the error log.
\<close>

definition same_store :: "('rat, 'md) GDALPamRasterBand \<Rightarrow> ('rat, 'md) GDALPamRasterBand \<Rightarrow> bool" where
  "same_store b' b \<longleftrightarrow>
     map_option (ds_dirty_update (\<lambda>_. True)) (poDS b') = map_option (ds_dirty_update (\<lambda>_. True)) (poDS b)"

definition initialised :: "('rat, 'md) env \<Rightarrow> ('rat, 'md) GDALPamRasterBand \<Rightarrow> bool" where
  "initialised E b \<longleftrightarrow> psPam b \<noteq> None \<and> psPam (PamInitialize E b) = psPam b"

definition with_record :: "('rat, 'md) GDALPamRasterBand \<Rightarrow> 'rat GDALRasterBandPamInfo
    \<Rightarrow> ('rat, 'md) GDALPamRasterBand \<Rightarrow> bool" where
  "with_record b q b' \<longleftrightarrow>
     psPam b' = Some q \<and> eDataType b' = eDataType b \<and> nBand b' = nBand b \<and>
     sDescription b' = sDescription b \<and> oMDMD b' = oMDMD b \<and> same_store b' b"

text \<open>
  What the setters and the blocks of \<^verbatim>\<open>XMLInit\<close> do to the record of an initialised
  band, as functions on records. The lemmas \<open>*_effect\<close> below relate them to the
  functions on bands.
\<close>

definition rec_SetNoDataValue :: "('rat, 'md) env \<Rightarrow> double \<Rightarrow> 'rat GDALRasterBandPamInfo
    \<Rightarrow> 'rat GDALRasterBandPamInfo" where
  "rec_SetNoDataValue E v q = (ResetNoDataValues E q)\<lparr>bNoDataValueSet := True, dfNoDataValue := v\<rparr>"

definition rec_SetNoDataValueAsInt64 :: "('rat, 'md) env \<Rightarrow> int64_t \<Rightarrow> 'rat GDALRasterBandPamInfo
    \<Rightarrow> 'rat GDALRasterBandPamInfo" where
  "rec_SetNoDataValueAsInt64 E v q =
     (ResetNoDataValues E q)\<lparr>bNoDataValueSetAsInt64 := True, nNoDataValueInt64 := v\<rparr>"

definition rec_SetNoDataValueAsUInt64 :: "('rat, 'md) env \<Rightarrow> uint64_t \<Rightarrow> 'rat GDALRasterBandPamInfo
    \<Rightarrow> 'rat GDALRasterBandPamInfo" where
  "rec_SetNoDataValueAsUInt64 E v q =
     (ResetNoDataValues E q)\<lparr>bNoDataValueSetAsUInt64 := True, nNoDataValueUInt64 := v\<rparr>"

definition rec_SetOffset :: "double \<Rightarrow> 'rat GDALRasterBandPamInfo \<Rightarrow> 'rat GDALRasterBandPamInfo" where
  "rec_SetOffset v q =
     (if \<not> bOffsetSet q \<or> d_ne (dfOffset q) v then q\<lparr>dfOffset := v, bOffsetSet := True\<rparr> else q)"

definition rec_SetScale :: "double \<Rightarrow> 'rat GDALRasterBandPamInfo \<Rightarrow> 'rat GDALRasterBandPamInfo" where
  "rec_SetScale v q =
     (if \<not> bScaleSet q \<or> d_ne v (dfScale q) then q\<lparr>dfScale := v, bScaleSet := True\<rparr> else q)"

definition rec_SetColorTable :: "GDALColorTable option \<Rightarrow> 'rat GDALRasterBandPamInfo
    \<Rightarrow> 'rat GDALRasterBandPamInfo" where
  "rec_SetColorTable t q =
     (case t of
        None \<Rightarrow> q\<lparr>poColorTable := None\<rparr>
      | Some tab \<Rightarrow> q\<lparr>poColorTable := Some tab, eColorInterp := GCI_PaletteIndex\<rparr>)"

definition rec_NoDataValue :: "('rat, 'md) env \<Rightarrow> CPLXMLNode \<Rightarrow> GDALDataType
    \<Rightarrow> 'rat GDALRasterBandPamInfo \<Rightarrow> 'rat GDALRasterBandPamInfo" where
  "rec_NoDataValue E psTree ty q =
     (case CPLGetXMLValue psTree [''NoDataValue''] None of
        None \<Rightarrow> q
      | Some pszNoDataValue \<Rightarrow>
          (case CPLGetXMLValue psTree [''NoDataValue'', ''le_hex_equiv''] None of
             Some pszLEHex \<Rightarrow>
               if length (CPLHexToBinary pszLEHex) = 8
               then rec_SetNoDataValue E (of_le_bytes (CPLHexToBinary pszLEHex)) q
               else rec_SetNoDataValue E (CPLAtof E pszNoDataValue) q
           | None \<Rightarrow>
               if ty = GDT_Int64
               then rec_SetNoDataValueAsInt64 E (word_of_int (strtoll pszNoDataValue)) q
               else if ty = GDT_UInt64
               then rec_SetNoDataValueAsUInt64 E (strtoull pszNoDataValue) q
               else rec_SetNoDataValue E (CPLAtof E pszNoDataValue) q))"

definition rec_OffsetScale :: "('rat, 'md) env \<Rightarrow> CPLXMLNode \<Rightarrow> 'rat GDALRasterBandPamInfo
    \<Rightarrow> 'rat GDALRasterBandPamInfo" where
  "rec_OffsetScale E psTree q =
     (if CPLGetXMLValue psTree [''Offset''] None \<noteq> None \<or>
         CPLGetXMLValue psTree [''Scale''] None \<noteq> None
      then rec_SetScale
             (case CPLGetXMLValue psTree [''Scale''] None of Some s \<Rightarrow> CPLAtof E s | None \<Rightarrow> d_1)
             (rec_SetOffset
                (case CPLGetXMLValue psTree [''Offset''] None of Some s \<Rightarrow> CPLAtof E s | None \<Rightarrow> d_0)
                q)
      else q)"

definition rec_UnitType :: "CPLXMLNode \<Rightarrow> 'rat GDALRasterBandPamInfo \<Rightarrow> 'rat GDALRasterBandPamInfo" where
  "rec_UnitType psTree q =
     (case CPLGetXMLValue psTree [''UnitType''] None of
        Some u \<Rightarrow> q\<lparr>pszUnitType := unit_or_none (Some u)\<rparr>
      | None \<Rightarrow> q)"

definition rec_ColorInterp :: "('rat, 'md) env \<Rightarrow> CPLXMLNode \<Rightarrow> 'rat GDALRasterBandPamInfo
    \<Rightarrow> 'rat GDALRasterBandPamInfo" where
  "rec_ColorInterp E psTree q =
     (case CPLGetXMLValue psTree [''ColorInterp''] None of
        Some s \<Rightarrow> q\<lparr>eColorInterp := GDALGetColorInterpretationByName E s\<rparr>
      | None \<Rightarrow> q)"

definition rec_CategoryNames :: "CPLXMLNode \<Rightarrow> 'rat GDALRasterBandPamInfo \<Rightarrow> 'rat GDALRasterBandPamInfo" where
  "rec_CategoryNames psTree q =
     (case CPLGetXMLNode psTree [''CategoryNames''] of
        Some psCategoryNames \<Rightarrow>
          q\<lparr>papszCategoryNames := CSLDuplicate
              (let names = map (\<lambda>psEntry. case psChild psEntry of [] \<Rightarrow> [] | c # _ \<Rightarrow> pszValue c)
                             (filter is_Category (psChild psCategoryNames))
               in if names = [] then None else Some names)\<rparr>
      | None \<Rightarrow> q)"

definition rec_ColorTable :: "CPLXMLNode \<Rightarrow> 'rat GDALRasterBandPamInfo \<Rightarrow> 'rat GDALRasterBandPamInfo" where
  "rec_ColorTable psTree q =
     (case CPLGetXMLNode psTree [''ColorTable''] of
        Some psColorTable \<Rightarrow>
          rec_SetColorTable
            (Some (map XMLInit_Entry
               (filter (\<lambda>psEntry. eType psEntry = CXT_Element \<and> EQUAL (pszValue psEntry) ''Entry'')
                  (psChild psColorTable)))) q
      | None \<Rightarrow> q)"

definition rec_MinMax :: "('rat, 'md) env \<Rightarrow> CPLXMLNode \<Rightarrow> 'rat GDALRasterBandPamInfo
    \<Rightarrow> 'rat GDALRasterBandPamInfo" where
  "rec_MinMax E psTree q =
     (case CPLGetXMLValue psTree [''Minimum''] None of
        Some pszMinimum \<Rightarrow>
          (case CPLGetXMLValue psTree [''Maximum''] None of
             Some pszMaximum \<Rightarrow>
               q\<lparr>bHaveMinMax := True, dfMin := CPLAtofM E pszMinimum, dfMax := CPLAtofM E pszMaximum\<rparr>
           | None \<Rightarrow> q)
      | None \<Rightarrow> q)"

definition rec_Stats :: "('rat, 'md) env \<Rightarrow> CPLXMLNode \<Rightarrow> 'rat GDALRasterBandPamInfo
    \<Rightarrow> 'rat GDALRasterBandPamInfo" where
  "rec_Stats E psTree q =
     (case CPLGetXMLValue psTree [''Mean''] None of
        Some pszMean \<Rightarrow>
          (case CPLGetXMLValue psTree [''StandardDeviation''] None of
             Some pszStandardDeviation \<Rightarrow>
               q\<lparr>bHaveStats := True, dfMean := CPLAtofM E pszMean,
                  dfStdDev := CPLAtofM E pszStandardDeviation\<rparr>
           | None \<Rightarrow> q)
      | None \<Rightarrow> q)"

definition rec_Histograms :: "CPLXMLNode \<Rightarrow> 'rat GDALRasterBandPamInfo \<Rightarrow> 'rat GDALRasterBandPamInfo" where
  "rec_Histograms psTree q =
     (case CPLGetXMLNode psTree [''Histograms''] of
        Some psHist \<Rightarrow> q\<lparr>psSavedHistograms := Some psHist\<rparr>
      | None \<Rightarrow> q)"

definition rec_RAT :: "('rat, 'md) env \<Rightarrow> CPLXMLNode \<Rightarrow> 'rat GDALRasterBandPamInfo
    \<Rightarrow> 'rat GDALRasterBandPamInfo" where
  "rec_RAT E psTree q =
     (case CPLGetXMLNode psTree [''GDALRasterAttributeTable''] of
        Some psRAT \<Rightarrow> q\<lparr>poDefaultRAT := Some (RAT_XMLInit E psRAT)\<rparr>
      | None \<Rightarrow> q)"

definition rec_XMLInit :: "('rat, 'md) env \<Rightarrow> CPLXMLNode \<Rightarrow> GDALDataType
    \<Rightarrow> 'rat GDALRasterBandPamInfo \<Rightarrow> 'rat GDALRasterBandPamInfo" where
  "rec_XMLInit E psTree ty q =
     rec_RAT E psTree (rec_Histograms psTree (rec_Stats E psTree (rec_MinMax E psTree
       (rec_ColorTable psTree (rec_CategoryNames psTree (rec_ColorInterp E psTree
         (rec_UnitType psTree (rec_OffsetScale E psTree (rec_NoDataValue E psTree ty q)))))))))"

section \<open>The serialised document\<close>

text \<open>
  The children of the document that \<^verbatim>\<open>SerializeToXML\<close> builds, written out as one list:
  what each block appends, in the order of the blocks. The lemma \<open>SerializeToXML_children\<close>
  below proves that the blocks build this list whenever the histogram list, the serialised
  attribute table and the nodes of the metadata store are no attributes.
\<close>

definition NoDataValue_nodes :: "('rat, 'md) env \<Rightarrow> 'rat GDALRasterBandPamInfo \<Rightarrow> CPLXMLNode list" where
  "NoDataValue_nodes E p =
     (if bNoDataValueSet p then
        [CPLXMLNode CXT_Element ''NoDataValue''
           ((if d_ne (dfNoDataValue p) (floor_double E (dfNoDataValue p)) \<or>
                d_ne (dfNoDataValue p) (CPLAtof E (Printf_14E E (dfNoDataValue p)))
             then [CPLXMLNode CXT_Attribute ''le_hex_equiv''
                     [CPLXMLNode CXT_Text (CPLBinaryToHex (le_bytes (dfNoDataValue p))) []]]
             else []) @
            [CPLXMLNode CXT_Text
               (if CPLIsNan (dfNoDataValue p) then ''nan'' else Printf_14E E (dfNoDataValue p)) []])]
      else if bNoDataValueSetAsInt64 p
        then [CPLCreateXMLElementAndValue ''NoDataValue'' (Printf_d (sint (nNoDataValueInt64 p)))]
      else if bNoDataValueSetAsUInt64 p
        then [CPLCreateXMLElementAndValue ''NoDataValue'' (Printf_u (unat (nNoDataValueUInt64 p)))]
      else [])"

definition PAMRasterBand_children :: "('rat, 'md) env \<Rightarrow> ('rat, 'md) GDALPamRasterBand
    \<Rightarrow> 'rat GDALRasterBandPamInfo \<Rightarrow> CPLXMLNode list" where
  "PAMRasterBand_children E b p =
     (if nBand b > 0
      then [CPLXMLNode CXT_Attribute ''band'' [CPLXMLNode CXT_Text (Printf_d (nBand b)) []]]
      else []) @
     (if sDescription b \<noteq> [] then [CPLCreateXMLElementAndValue ''Description'' (sDescription b)]
      else []) @
     NoDataValue_nodes E p @
     (case pszUnitType p of
        None \<Rightarrow> []
      | Some u \<Rightarrow> [CPLCreateXMLElementAndValue ''UnitType'' u]) @
     (if d_ne (dfOffset p) d_0
      then [CPLCreateXMLElementAndValue ''Offset'' (Printf_16g E (dfOffset p))] else []) @
     (if d_ne (dfScale p) d_1
      then [CPLCreateXMLElementAndValue ''Scale'' (Printf_16g E (dfScale p))] else []) @
     (if eColorInterp p \<noteq> GCI_Undefined
      then [CPLCreateXMLElementAndValue ''ColorInterp''
              (GDALGetColorInterpretationName E (eColorInterp p))]
      else []) @
     (case papszCategoryNames p of
        None \<Rightarrow> []
      | Some names \<Rightarrow>
          [CPLXMLNode CXT_Element ''CategoryNames''
             (map (CPLCreateXMLElementAndValue ''Category'') names)]) @
     (case poColorTable p of
        None \<Rightarrow> []
      | Some tab \<Rightarrow> [CPLXMLNode CXT_Element ''ColorTable'' (map Serialize_Entry tab)]) @
     (if bHaveMinMax p
      then [CPLCreateXMLElementAndValue ''Minimum'' (Printf_16g E (dfMin p)),
            CPLCreateXMLElementAndValue ''Maximum'' (Printf_16g E (dfMax p))]
      else []) @
     (if bHaveStats p
      then [CPLCreateXMLElementAndValue ''Mean'' (Printf_16g E (dfMean p)),
            CPLCreateXMLElementAndValue ''StandardDeviation'' (Printf_16g E (dfStdDev p))]
      else []) @
     (case psSavedHistograms p of None \<Rightarrow> [] | Some hs \<Rightarrow> [hs]) @
     (case poDefaultRAT p of
        None \<Rightarrow> []
      | Some rat \<Rightarrow> (case RAT_Serialize E rat of None \<Rightarrow> [] | Some n \<Rightarrow> [n])) @
     MDMD_Serialize E (oMDMD b)"

text \<open>
  The nodes that the band does not create itself carry the names under which \<^verbatim>\<open>XMLInit\<close>
  looks for them: the histogram list is an element \<^verbatim>\<open>Histograms\<close>, the serialised
  attribute table an element \<^verbatim>\<open>GDALRasterAttributeTable\<close>, and the metadata store
  serialises to elements \<^verbatim>\<open>Metadata\<close>.
\<close>

definition children_named :: "('rat, 'md) env \<Rightarrow> ('rat, 'md) GDALPamRasterBand
    \<Rightarrow> 'rat GDALRasterBandPamInfo \<Rightarrow> bool" where
  "children_named E b p \<longleftrightarrow>
     (\<forall>hs. psSavedHistograms p = Some hs \<longrightarrow>
        eType hs = CXT_Element \<and> EQUAL (pszValue hs) ''Histograms'') \<and>
     (\<forall>rat n. poDefaultRAT p = Some rat \<and> RAT_Serialize E rat = Some n \<longrightarrow>
        eType n = CXT_Element \<and> EQUAL (pszValue n) ''GDALRasterAttributeTable'') \<and>
     (\<forall>n \<in> set (MDMD_Serialize E (oMDMD b)).
        eType n = CXT_Element \<and> EQUAL (pszValue n) ''Metadata'')"

text \<open>The values of a C \<^verbatim>\<open>short\<close>, the type of the four channels of a colour entry.\<close>

definition short_range :: "int \<Rightarrow> bool" where
  "short_range c \<longleftrightarrow> - 32768 \<le> c \<and> c \<le> 32767"

text \<open>
  Bands for the round trip through the document: one whose colour table has been set and
  whose colour interpretation has then been set to grey, with the document it serialises
  to; and one with a value in every field.
\<close>

definition demo_band_gray :: "(CPLXMLNode, CPLXMLNode list) GDALPamRasterBand" where
  "demo_band_gray =
     snd (SetColorInterpretation demo_env GCI_GrayIndex
       (snd (SetColorTable demo_env (Some [\<lparr>c1 = 255, c2 = 0, c3 = 0, c4 = 255\<rparr>]) demo_band)))"

definition demo_doc_gray :: CPLXMLNode where
  "demo_doc_gray =
     CPLXMLNode CXT_Element ''PAMRasterBand''
       [CPLXMLNode CXT_Attribute ''band'' [CPLXMLNode CXT_Text ''1'' []],
        CPLXMLNode CXT_Element ''ColorInterp'' [CPLXMLNode CXT_Text ''Gray'' []],
        CPLXMLNode CXT_Element ''ColorTable''
          [CPLXMLNode CXT_Element ''Entry''
             [CPLXMLNode CXT_Attribute ''c1'' [CPLXMLNode CXT_Text ''255'' []],
              CPLXMLNode CXT_Attribute ''c2'' [CPLXMLNode CXT_Text ''0'' []],
              CPLXMLNode CXT_Attribute ''c3'' [CPLXMLNode CXT_Text ''0'' []],
              CPLXMLNode CXT_Attribute ''c4'' [CPLXMLNode CXT_Text ''255'' []]]]]"

definition demo_band_full :: "(CPLXMLNode, CPLXMLNode list) GDALPamRasterBand" where
  "demo_band_full =
     demo_band\<lparr>psPam := Some (demo_record\<lparr>
         bNoDataValueSet := True, dfNoDataValue := 0x4004000000000000,
         poColorTable := Some [\<lparr>c1 = 255, c2 = 0, c3 = 0, c4 = 255\<rparr>],
         dfOffset := 0x4004000000000000, dfScale := 0x4000000000000000,
         bOffsetSet := True, bScaleSet := True,
         pszUnitType := Some ''m'', papszCategoryNames := Some [''water'', ''land''],
         eColorInterp := GCI_PaletteIndex,
         poDefaultRAT := Some (CPLXMLNode CXT_Element ''GDALRasterAttributeTable'' []),
         bHaveMinMax := True, dfMin := 0, dfMax := 0x406FE00000000000,
         bHaveStats := True, dfMean := 0x4000000000000000, dfStdDev := 0x3FF0000000000000,
         psSavedHistograms := Some (CPLXMLNode CXT_Element ''Histograms''
           [HistItem_node ''0'' ''255'' ''2'' ''1'' ''0'' ''3|4''])\<rparr>),
       sDescription := ''elevation'',
       oMDMD := [CPLXMLNode CXT_Element ''Metadata'' []]\<rparr>"

text \<open>
  A document whose \<^verbatim>\<open>Offset\<close> element is empty; and a band whose offset and scale have
  been set to their defaults 0.0 and 1.0 and whose description has been set, with the
  document it serialises to.
\<close>

definition demo_doc_empty_offset :: CPLXMLNode where
  "demo_doc_empty_offset =
     CPLXMLNode CXT_Element ''PAMRasterBand'' [CPLXMLNode CXT_Element ''Offset'' []]"

definition demo_band_defaults :: "(CPLXMLNode, CPLXMLNode list) GDALPamRasterBand" where
  "demo_band_defaults =
     snd (SetScale demo_env d_1 (snd (SetOffset demo_env d_0 (SetDescription demo_env ''x'' demo_band))))"

definition demo_doc_defaults :: CPLXMLNode where
  "demo_doc_defaults =
     CPLXMLNode CXT_Element ''PAMRasterBand''
       [CPLXMLNode CXT_Attribute ''band'' [CPLXMLNode CXT_Text ''1'' []],
        CPLXMLNode CXT_Element ''Description'' [CPLXMLNode CXT_Text ''x'' []]]"

section \<open>Properties\<close>

subsection \<open>Auxiliary facts\<close>

lemma demo_init:
  "PamInitialize demo_env demo_band = demo_band\<lparr>psPam := Some demo_record\<rparr>"
  by (simp add: PamInitialize_def demo_band_def demo_env_def demo_record_def)

lemma psPam_MarkPamDirty [simp]: "psPam (MarkPamDirty b) = psPam b"
  by (simp add: MarkPamDirty_def split: option.splits)

subsection \<open>The nodata getters\<close>

text \<open>
  Claim C6. On a band with an overlay record whose pixel type is not \<^verbatim>\<open>Int64\<close>,
  \<^verbatim>\<open>GetNoDataValueAsInt64\<close> reports one error of class \<^verbatim>\<open>CPLE_AppDefined\<close>, writes
  \<^verbatim>\<open>FALSE\<close> to the success flag and returns the default constant; the band it leaves is
  the band it found, but for the error log. The same holds for
  \<^verbatim>\<open>GetNoDataValueAsUInt64\<close> on a band whose pixel type is not \<^verbatim>\<open>UInt64\<close>. Both
  calls return: the functions are total.
\<close>

theorem GetNoDataValueAs64_wrong_type:
  "psPam b = Some p \<Longrightarrow>
   (eDataType b \<noteq> GDT_Int64 \<longrightarrow>
      GetNoDataValueAsInt64 E b =
        (Pam (False, GDAL_PAM_DEFAULT_NODATA_VALUE_INT64 E),
         b\<lparr>cpl_errors := cpl_errors b @ [(CE_Failure, CPLE_AppDefined)]\<rparr>)) \<and>
   (eDataType b \<noteq> GDT_UInt64 \<longrightarrow>
      GetNoDataValueAsUInt64 E b =
        (Pam (False, GDAL_PAM_DEFAULT_NODATA_VALUE_UINT64 E),
         b\<lparr>cpl_errors := cpl_errors b @ [(CE_Failure, CPLE_AppDefined)]\<rparr>))"
  by (simp add: GetNoDataValueAsInt64_def GetNoDataValueAsUInt64_def CPLError_def)

theorem GetNoDataValueAs64_wrong_type_witness:
  "GetNoDataValueAsInt64 demo_env (demo_band\<lparr>psPam := Some demo_record\<rparr>) =
     (Pam (False, 0x8000000000000000),
      demo_band\<lparr>psPam := Some demo_record, cpl_errors := [(CE_Failure, CPLE_AppDefined)]\<rparr>) \<and>
   GetNoDataValueAsUInt64 demo_env (demo_band\<lparr>psPam := Some demo_record\<rparr>) =
     (Pam (False, 0xFFFFFFFFFFFFFFFF),
      demo_band\<lparr>psPam := Some demo_record, cpl_errors := [(CE_Failure, CPLE_AppDefined)]\<rparr>)"
  using GetNoDataValueAs64_wrong_type
    [of "demo_band\<lparr>psPam := Some demo_record\<rparr>" demo_record demo_env]
  by (simp add: demo_band_def demo_env_def)

text \<open>
  Claim C10. Once the nodata value of a band with an overlay record is set through the
  \<^verbatim>\<open>Int64\<close> or the \<^verbatim>\<open>UInt64\<close> setter, \<^verbatim>\<open>GetNoDataValue\<close> writes \<^verbatim>\<open>TRUE\<close> to the
  success flag and returns the stored integer cast to double; so it does on every record
  whose \<^verbatim>\<open>Int64\<close> flag, or whose \<^verbatim>\<open>UInt64\<close> flag alone, is set. The field
  \<^verbatim>\<open>dfNoDataValue\<close> is not what it returns.
\<close>

theorem GetNoDataValue_of_integer_nodata:
  "(psPam (PamInitialize E b0) \<noteq> None \<longrightarrow>
      fst (GetNoDataValue E (snd (SetNoDataValueAsInt64 E v b0)))
        = Pam (True, CastInt64ToDouble E v) \<and>
      fst (GetNoDataValue E (snd (SetNoDataValueAsUInt64 E u b0)))
        = Pam (True, CastUInt64ToDouble E u)) \<and>
   (psPam b = Some p \<and> bNoDataValueSetAsInt64 p \<longrightarrow>
      GetNoDataValue E b = (Pam (True, CastInt64ToDouble E (nNoDataValueInt64 p)), b)) \<and>
   (psPam b = Some p \<and> \<not> bNoDataValueSetAsInt64 p \<and> bNoDataValueSetAsUInt64 p \<longrightarrow>
      GetNoDataValue E b = (Pam (True, CastUInt64ToDouble E (nNoDataValueUInt64 p)), b))"
  by (auto simp: GetNoDataValue_def SetNoDataValueAsInt64_def SetNoDataValueAsUInt64_def
       ResetNoDataValues_def Let_def split: option.splits)

theorem GetNoDataValue_of_integer_nodata_witness:
  "fst (GetNoDataValue demo_env (snd (SetNoDataValueAsInt64 demo_env 255 demo_band)))
     = Pam (True, 0x406FE00000000000) \<and>
   fst (GetNoDataValue demo_env (snd (SetNoDataValueAsUInt64 demo_env 256 demo_band)))
     = Pam (True, 0x4070000000000000) \<and>
   fst (GetNoDataValue demo_env
     (demo_band\<lparr>psPam := Some (demo_record\<lparr>bNoDataValueSetAsInt64 := True,
        nNoDataValueInt64 := 255\<rparr>)\<rparr>)) = Pam (True, 0x406FE00000000000) \<and>
   fst (GetNoDataValue demo_env
     (demo_band\<lparr>psPam := Some (demo_record\<lparr>bNoDataValueSetAsUInt64 := True,
        nNoDataValueUInt64 := 256\<rparr>)\<rparr>)) = Pam (True, 0x4070000000000000)"
proof -
  have h: "psPam (PamInitialize demo_env demo_band) \<noteq> None" by (simp add: demo_init)
  have c1: "CastInt64ToDouble demo_env 255 = 0x406FE00000000000"
    by (simp add: demo_env_def demo_cast_def demo_doubles_def)
  have c2: "CastUInt64ToDouble demo_env 256 = 0x4070000000000000"
    by (simp add: demo_env_def demo_cast_def demo_doubles_def)
  have n: "\<not> bNoDataValueSetAsInt64 demo_record"
    by (simp add: demo_record_def new_GDALRasterBandPamInfo_def)
  show ?thesis
    using GetNoDataValue_of_integer_nodata
      [of demo_env demo_band 255 256
          "demo_band\<lparr>psPam := Some (demo_record\<lparr>bNoDataValueSetAsInt64 := True,
              nNoDataValueInt64 := 255\<rparr>)\<rparr>"
          "demo_record\<lparr>bNoDataValueSetAsInt64 := True, nNoDataValueInt64 := 255\<rparr>"]
      GetNoDataValue_of_integer_nodata
      [of demo_env demo_band 255 256
          "demo_band\<lparr>psPam := Some (demo_record\<lparr>bNoDataValueSetAsUInt64 := True,
              nNoDataValueUInt64 := 256\<rparr>)\<rparr>"
          "demo_record\<lparr>bNoDataValueSetAsUInt64 := True, nNoDataValueUInt64 := 256\<rparr>"]
      h n
    by (simp add: c1 c2)
qed

subsection \<open>The three nodata flags\<close>

lemma count_via_flags:
  "nodata_flag_count b = (case map_option nodata_flags (psPam b) of None \<Rightarrow> 0 | Some fl \<Rightarrow> length (filter id fl))"
  by (simp add: nodata_flag_count_def split: option.splits)

lemma flags_eq_count:
  "map_option nodata_flags (psPam b') = map_option nodata_flags (psPam b) \<Longrightarrow>
   nodata_flag_count b' = nodata_flag_count b"
  by (simp add: count_via_flags)

lemma flags_new [simp]:
  "nodata_flags (new_GDALRasterBandPamInfo E) = [False, False, False]"
  "nodata_flags (p\<lparr>poParentDS := x\<rparr>) = nodata_flags p"
  by (simp_all add: nodata_flags_def new_GDALRasterBandPamInfo_def)

lemma count_PamInitialize: "nodata_flag_count (PamInitialize E b) \<le> nodata_flag_count b"
  by (simp add: PamInitialize_def CPLError_def nodata_flag_count_def split: option.splits)

lemma count_PamInitialize_le:
  "nodata_flag_count b \<le> Suc 0 \<Longrightarrow> nodata_flag_count (PamInitialize E b) \<le> Suc 0"
  using count_PamInitialize [of E b] by simp

lemma flags_SetOffset:
  "map_option nodata_flags (psPam (snd (SetOffset E v b))) = map_option nodata_flags (psPam (PamInitialize E b))"
  by (simp add: SetOffset_def Let_def nodata_flags_def split: option.splits)

lemma flags_SetScale:
  "map_option nodata_flags (psPam (snd (SetScale E v b))) = map_option nodata_flags (psPam (PamInitialize E b))"
  by (simp add: SetScale_def Let_def nodata_flags_def split: option.splits)

lemma flags_SetUnitType:
  "map_option nodata_flags (psPam (snd (SetUnitType E v b))) = map_option nodata_flags (psPam (PamInitialize E b))"
  by (simp add: SetUnitType_def Let_def nodata_flags_def split: option.splits)

lemma flags_SetCategoryNames:
  "map_option nodata_flags (psPam (snd (SetCategoryNames E v b))) = map_option nodata_flags (psPam (PamInitialize E b))"
  by (simp add: SetCategoryNames_def Let_def nodata_flags_def split: option.splits)

lemma flags_SetColorTable:
  "map_option nodata_flags (psPam (snd (SetColorTable E v b))) = map_option nodata_flags (psPam (PamInitialize E b))"
  by (simp add: SetColorTable_def Let_def nodata_flags_def split: option.splits)

lemma flags_SetColorInterpretation:
  "map_option nodata_flags (psPam (snd (SetColorInterpretation E v b))) = map_option nodata_flags (psPam (PamInitialize E b))"
  by (simp add: SetColorInterpretation_def Let_def nodata_flags_def split: option.splits)

lemma flags_SetDefaultRAT:
  "map_option nodata_flags (psPam (snd (SetDefaultRAT E v b))) = map_option nodata_flags (psPam (PamInitialize E b))"
  by (simp add: SetDefaultRAT_def Let_def nodata_flags_def split: option.splits)

lemma flags_GetDefaultRAT:
  "map_option nodata_flags (psPam (snd (GetDefaultRAT E b))) = map_option nodata_flags (psPam (PamInitialize E b))"
  by (simp add: GetDefaultRAT_def Let_def nodata_flags_def split: option.splits)

lemma flags_SetDescription:
  "map_option nodata_flags (psPam (SetDescription E v b)) = map_option nodata_flags (psPam (PamInitialize E b))"
  by (simp add: SetDescription_def Let_def nodata_flags_def split: option.splits)

lemma flags_SetDefaultHistogram:
  "map_option nodata_flags (psPam (snd (SetDefaultHistogram E a c n h b))) = map_option nodata_flags (psPam (PamInitialize E b))"
  by (simp add: SetDefaultHistogram_def Let_def nodata_flags_def split: option.splits)


lemma flags_GetHistogram_native:
  "psPam b = Some p \<Longrightarrow>
   \<exists>q. psPam (snd (snd (GetHistogram_native E a c n i j p b))) = Some q \<and> nodata_flags q = nodata_flags p"
  by (simp add: GetHistogram_native_def Let_def nodata_flags_def split: option.split prod.split)

lemma flags_GetHistogram:
  "map_option nodata_flags (psPam (snd (snd (GetHistogram E a c n i j b)))) = map_option nodata_flags (psPam (PamInitialize E b))"
proof (cases "psPam (PamInitialize E b)")
  case None
  then show ?thesis by (simp add: GetHistogram_def Let_def)
next
  case (Some p)
  show ?thesis
    unfolding GetHistogram_def Let_def
    by (simp add: Some flags_GetHistogram_native split: option.split prod.split)
qed

lemma count_nodata_setters:
  "psPam (PamInitialize E b) \<noteq> None \<Longrightarrow>
     map_option nodata_flags (psPam (snd (SetNoDataValue E x b))) = Some [True, False, False] \<and>
     map_option nodata_flags (psPam (snd (SetNoDataValueAsInt64 E y b))) = Some [False, True, False] \<and>
     map_option nodata_flags (psPam (snd (SetNoDataValueAsUInt64 E z b))) = Some [False, False, True]"
  by (auto simp: SetNoDataValue_def SetNoDataValueAsInt64_def SetNoDataValueAsUInt64_def Let_def
      nodata_flags_def ResetNoDataValues_def)

lemma count_SetNoDataValue:
  "nodata_flag_count (snd (SetNoDataValue E x b)) \<le> Suc 0"
  "nodata_flag_count (snd (SetNoDataValueAsInt64 E y b)) \<le> Suc 0"
  "nodata_flag_count (snd (SetNoDataValueAsUInt64 E z b)) \<le> Suc 0"
  "nodata_flag_count (snd (DeleteNoDataValue E b)) \<le> Suc 0"
  by (cases "psPam (PamInitialize E b)";
      simp add: SetNoDataValue_def SetNoDataValueAsInt64_def SetNoDataValueAsUInt64_def
      DeleteNoDataValue_def Let_def nodata_flag_count_def
      nodata_flags_def ResetNoDataValues_def)+


lemma count_after_init:
  "map_option nodata_flags (psPam b') = map_option nodata_flags (psPam (PamInitialize E b)) \<Longrightarrow>
   nodata_flag_count b \<le> Suc 0 \<Longrightarrow> nodata_flag_count b' \<le> Suc 0"
  using count_PamInitialize_le [of b E] by (simp add: count_via_flags)

lemmas count_setters =
  count_after_init [OF flags_SetOffset] count_after_init [OF flags_SetScale]
  count_after_init [OF flags_SetUnitType] count_after_init [OF flags_SetCategoryNames]
  count_after_init [OF flags_SetColorTable] count_after_init [OF flags_SetColorInterpretation]
  count_after_init [OF flags_SetDefaultRAT] count_after_init [OF flags_GetDefaultRAT]
  count_after_init [OF flags_SetDescription] count_after_init [OF flags_SetDefaultHistogram]
  count_after_init [OF flags_GetHistogram]

lemma count_with_psPam:
  "with_psPam f b = Inr b' \<Longrightarrow> (\<And>p. nodata_flags (f p) = nodata_flags p) \<Longrightarrow>
   nodata_flag_count b' = nodata_flag_count b"
  by (auto simp: with_psPam_def nodata_flag_count_def split: option.splits)

lemma count_XMLInit_NoDataValue:
  "nodata_flag_count b \<le> Suc 0 \<Longrightarrow> nodata_flag_count (XMLInit_NoDataValue E t b) \<le> Suc 0"
  by (simp add: XMLInit_NoDataValue_def Let_def count_SetNoDataValue split: option.split)

lemma count_XMLInit_OffsetScale:
  "nodata_flag_count b \<le> Suc 0 \<Longrightarrow> nodata_flag_count (XMLInit_OffsetScale E t b) \<le> Suc 0"
  by (simp add: XMLInit_OffsetScale_def Let_def count_setters)

lemma count_XMLInit_UnitType:
  "nodata_flag_count b \<le> Suc 0 \<Longrightarrow> nodata_flag_count (XMLInit_UnitType E t b) \<le> Suc 0"
  by (simp add: XMLInit_UnitType_def count_setters split: option.split)

lemma count_XMLInit_ColorInterp:
  "nodata_flag_count b \<le> Suc 0 \<Longrightarrow> nodata_flag_count (XMLInit_ColorInterp E t b) \<le> Suc 0"
  by (simp add: XMLInit_ColorInterp_def count_setters split: option.split)

lemma count_XMLInit_CategoryNames:
  "nodata_flag_count b \<le> Suc 0 \<Longrightarrow> nodata_flag_count (XMLInit_CategoryNames E t b) \<le> Suc 0"
  by (simp add: XMLInit_CategoryNames_def Let_def count_setters split: option.split)

lemma count_XMLInit_ColorTable:
  "nodata_flag_count b \<le> Suc 0 \<Longrightarrow> nodata_flag_count (XMLInit_ColorTable E t b) \<le> Suc 0"
  by (simp add: XMLInit_ColorTable_def Let_def count_setters split: option.split)

lemma count_XMLInit_MinMax:
  "XMLInit_MinMax E t b = Inr b' \<Longrightarrow> nodata_flag_count b' = nodata_flag_count b"
  by (auto simp: XMLInit_MinMax_def nodata_flags_def split: option.splits dest!: count_with_psPam)

lemma count_XMLInit_Stats:
  "XMLInit_Stats E t b = Inr b' \<Longrightarrow> nodata_flag_count b' = nodata_flag_count b"
  by (auto simp: XMLInit_Stats_def nodata_flags_def split: option.splits dest!: count_with_psPam)

lemma count_XMLInit_Histograms:
  "XMLInit_Histograms t b = Inr b' \<Longrightarrow> nodata_flag_count b' = nodata_flag_count b"
  by (auto simp: XMLInit_Histograms_def nodata_flags_def split: option.splits dest!: count_with_psPam)

lemma count_XMLInit_RAT:
  "XMLInit_RAT E t b = Inr b' \<Longrightarrow> nodata_flag_count b' = nodata_flag_count b"
  by (auto simp: XMLInit_RAT_def nodata_flags_def split: option.splits dest!: count_with_psPam)

lemma bind_crash_Inr: "bind_crash m f = Inr y \<longleftrightarrow> (\<exists>x. m = Inr x \<and> f x = Inr y)"
  by (cases m) (simp_all add: bind_crash_def)

lemma count_fields [simp]:
  "nodata_flag_count (b\<lparr>sDescription := d\<rparr>) = nodata_flag_count b"
  "nodata_flag_count (b\<lparr>oMDMD := m\<rparr>) = nodata_flag_count b"
  by (simp_all add: nodata_flag_count_def)

lemma count_XMLInit:
  assumes "nodata_flag_count b \<le> Suc 0" and "XMLInit E t b = Inr b'"
  shows "nodata_flag_count b' \<le> Suc 0"
proof -
  define b9 where "b9 = XMLInit_ColorTable E t (XMLInit_CategoryNames E t (XMLInit_ColorInterp E t
     (XMLInit_UnitType E t (XMLInit_OffsetScale E t (XMLInit_NoDataValue E t
       ((PamInitialize E b)\<lparr>oMDMD := MDMD_XMLInit E t (oMDMD (PamInitialize E b)),
          sDescription := CPLGetXMLValueD t [''Description''] []\<rparr>))))))"
  have 9: "nodata_flag_count b9 \<le> Suc 0"
    unfolding b9_def
    by (intro count_XMLInit_ColorTable count_XMLInit_CategoryNames count_XMLInit_ColorInterp
        count_XMLInit_UnitType count_XMLInit_OffsetScale count_XMLInit_NoDataValue)
       (simp add: count_PamInitialize_le assms(1))
  from assms(2) obtain b10 b11 b12 where
    "XMLInit_MinMax E t b9 = Inr b10" "XMLInit_Stats E t b10 = Inr b11"
    "XMLInit_Histograms t b11 = Inr b12" "XMLInit_RAT E t b12 = Inr b'"
    unfolding XMLInit_def Let_def bind_crash_Inr b9_def by auto
  then have "nodata_flag_count b' = nodata_flag_count b9"
    by (simp add: count_XMLInit_MinMax count_XMLInit_Stats count_XMLInit_Histograms count_XMLInit_RAT)
  with 9 show ?thesis by simp
qed

lemma count_PamClear:
  "nodata_flag_count (PamClear b) \<le> Suc 0"
  "nodata_flag_count b \<le> Suc 0 \<Longrightarrow> nodata_flag_count (PamInitializeNoParent E b) \<le> Suc 0"
  by (simp_all add: PamClear_def PamInitializeNoParent_def nodata_flag_count_def)

lemma count_pam_step:
  "nodata_flag_count b \<le> Suc 0 \<Longrightarrow> pam_step E op b = Inr b' \<Longrightarrow> nodata_flag_count b' \<le> Suc 0"
  by (cases op)
     (auto simp: count_PamInitialize_le count_XMLInit count_SetNoDataValue count_setters
        count_PamClear)

lemma count_pam_run:
  "nodata_flag_count b \<le> Suc 0 \<Longrightarrow> pam_run E ops b = Inr b' \<Longrightarrow> nodata_flag_count b' \<le> Suc 0"
proof (induction ops arbitrary: b)
  case Nil
  then show ?case by simp
next
  case (Cons op ops)
  from Cons.prems(2) obtain b1 where s: "pam_step E op b = Inr b1" and r: "pam_run E ops b1 = Inr b'"
    by (auto simp: bind_crash_Inr)
  from count_pam_step [OF Cons.prems(1) s] have "nodata_flag_count b1 \<le> Suc 0" .
  from Cons.IH [OF this r] show ?case .
qed

lemma PamInitialize_again:
  assumes "psPam (PamInitialize E b) \<noteq> None"
    and "psPam b1 = Some q"
    and "poParentDS q = (case psPam (PamInitialize E b) of Some p \<Rightarrow> poParentDS p | None \<Rightarrow> False)"
    and "map_option (ds_dirty_update (\<lambda>_. True)) (poDS b1) = map_option (ds_dirty_update (\<lambda>_. True)) (poDS b)"
  shows "psPam (PamInitialize E b1) \<noteq> None"
proof (cases "poParentDS q")
  case True
  then show ?thesis by (simp add: PamInitialize_def assms(2))
next
  case False
  with assms(1,3) obtain p0 where p0: "psPam b = Some p0" "\<not> poParentDS p0"
    and stay: "poDS b = None \<or> (\<exists>ds. poDS b = Some ds \<and> (\<not> ds_PAM_CLASS ds \<or> \<not> ds_is_GDALPamDataset ds))"
    by (auto simp: PamInitialize_def CPLError_def split: option.splits if_splits)
  from stay assms(4) have "poDS b1 = None \<or> (\<exists>ds. poDS b1 = Some ds \<and> (\<not> ds_PAM_CLASS ds \<or> \<not> ds_is_GDALPamDataset ds))"
    by (cases "poDS b1"; cases "poDS b") (auto, (metis GDALDataset.select_convs GDALDataset.surjective GDALDataset.update_convs)+)
  then show ?thesis
    by (auto simp: PamInitialize_def CPLError_def assms(2) False)
qed

lemma SetNoDataValue_then_Int64:
  assumes h: "psPam (PamInitialize E b) \<noteq> None"
  shows "map_option nodata_flags (psPam (snd (SetNoDataValueAsInt64 E y (snd (SetNoDataValue E x b)))))
        = Some [False, True, False]"
proof -
  from h obtain p where p: "psPam (PamInitialize E b) = Some p" by auto
  let ?b1 = "snd (SetNoDataValue E x b)"
  have b1: "?b1 = MarkPamDirty ((PamInitialize E b)\<lparr>psPam := Some ((ResetNoDataValues E p)
             \<lparr>bNoDataValueSet := True, dfNoDataValue := x\<rparr>)\<rparr>)"
    by (simp add: SetNoDataValue_def Let_def p)
  have ds: "poDS (PamInitialize E b) = poDS b"
    by (simp add: PamInitialize_def CPLError_def split: option.splits)
  have "psPam (PamInitialize E ?b1) \<noteq> None"
  proof (rule PamInitialize_again [OF h])
    show "psPam ?b1 = Some ((ResetNoDataValues E p)\<lparr>bNoDataValueSet := True, dfNoDataValue := x\<rparr>)"
      by (simp add: b1)
    show "poParentDS ((ResetNoDataValues E p)\<lparr>bNoDataValueSet := True, dfNoDataValue := x\<rparr>) =
       (case psPam (PamInitialize E b) of Some p \<Rightarrow> poParentDS p | None \<Rightarrow> False)"
      by (simp add: p ResetNoDataValues_def)
    show "map_option (ds_dirty_update (\<lambda>_. True)) (poDS ?b1) = map_option (ds_dirty_update (\<lambda>_. True)) (poDS b)"
      by (simp add: b1 MarkPamDirty_def ds option.map_comp comp_def)
  qed
  from count_nodata_setters [OF this, of x y z] show ?thesis by simp
qed

lemma PamInitialize_linked: "psPam b = Some p \<Longrightarrow> poParentDS p \<Longrightarrow> PamInitialize E b = b"
  by (simp add: PamInitialize_def)

lemma demo_consts [simp]:
  "GDAL_PAM_DEFAULT_NODATA_VALUE demo_env = 0"
  "GDAL_PAM_DEFAULT_NODATA_VALUE_INT64 demo_env = 0x8000000000000000"
  "GDAL_PAM_DEFAULT_NODATA_VALUE_UINT64 demo_env = 0xFFFFFFFFFFFFFFFF"
  by (simp_all add: demo_env_def)

lemma demo_record_simps [simp]:
  "poParentDS demo_record"
  by (simp_all add: demo_record_def)

lemma demo_run:
  "pam_run demo_env [Op_SetNoDataValue 0x406FE00000000000, Op_SetNoDataValueAsInt64 5] demo_band
     = Inr demo_band_int64"
proof -
  let ?p1 = "(ResetNoDataValues demo_env demo_record)
               \<lparr>bNoDataValueSet := True, dfNoDataValue := 0x406FE00000000000\<rparr>"
  let ?b1 = "MarkPamDirty (demo_band\<lparr>psPam := Some ?p1\<rparr>)"
  have 1: "snd (SetNoDataValue demo_env 0x406FE00000000000 demo_band) = ?b1"
    by (simp add: SetNoDataValue_def Let_def demo_init)
  have i1: "PamInitialize demo_env ?b1 = ?b1"
    by (rule PamInitialize_linked [where p = ?p1]) (simp_all add: ResetNoDataValues_def)
  have 2: "snd (SetNoDataValueAsInt64 demo_env 5 ?b1) = demo_band_int64"
    unfolding SetNoDataValueAsInt64_def Let_def i1
    by (simp add: MarkPamDirty_def ResetNoDataValues_def demo_band_int64_def demo_band_def
        demo_record_def new_GDALRasterBandPamInfo_def)
  show ?thesis by (simp add: bind_crash_def 1 2)
qed

text \<open>
  Claim C2. On a band that has an overlay record once \<^verbatim>\<open>PamInitialize\<close> has run, each
  of \<^verbatim>\<open>SetNoDataValue\<close>, \<^verbatim>\<open>SetNoDataValueAsInt64\<close> and
  \<^verbatim>\<open>SetNoDataValueAsUInt64\<close> leaves exactly one of the three nodata flags set;
  \<^verbatim>\<open>SetNoDataValue\<close> followed by \<^verbatim>\<open>SetNoDataValueAsInt64\<close> leaves the
  \<^verbatim>\<open>Int64\<close> flag alone. And at most one flag is set at any time: from a band with at
  most one flag set, such as a band before its first use, every sequence of calls that
  runs to its end reaches a band with at most one flag set.
\<close>

theorem nodata_flags_exclusive:
  "(psPam (PamInitialize E b) \<noteq> None \<longrightarrow>
      nodata_flag_count (snd (SetNoDataValue E x b)) = 1 \<and>
      nodata_flag_count (snd (SetNoDataValueAsInt64 E y b)) = 1 \<and>
      nodata_flag_count (snd (SetNoDataValueAsUInt64 E z b)) = 1 \<and>
      map_option nodata_flags (psPam (snd (SetNoDataValueAsInt64 E y (snd (SetNoDataValue E x b)))))
        = Some [False, True, False]) \<and>
   (nodata_flag_count b \<le> 1 \<and> pam_run E ops b = Inr b' \<longrightarrow> nodata_flag_count b' \<le> 1)"
proof (intro conjI impI)
  assume h: "psPam (PamInitialize E b) \<noteq> None"
  from count_nodata_setters [OF h, of x y z]
  show "nodata_flag_count (snd (SetNoDataValue E x b)) = 1"
    and "nodata_flag_count (snd (SetNoDataValueAsInt64 E y b)) = 1"
    and "nodata_flag_count (snd (SetNoDataValueAsUInt64 E z b)) = 1"
    by (auto simp: count_via_flags)
  from SetNoDataValue_then_Int64 [OF h]
  show "map_option nodata_flags (psPam (snd (SetNoDataValueAsInt64 E y (snd (SetNoDataValue E x b))))) = Some [False, True, False]" .
next
  assume "nodata_flag_count b \<le> 1 \<and> pam_run E ops b = Inr b'"
  then show "nodata_flag_count b' \<le> 1" using count_pam_run [of b E ops b'] by simp
qed

theorem nodata_flags_exclusive_witness:
  "nodata_flag_count (snd (SetNoDataValue demo_env 0x406FE00000000000 demo_band)) = 1 \<and>
   nodata_flag_count (snd (SetNoDataValueAsInt64 demo_env 5 demo_band)) = 1 \<and>
   nodata_flag_count (snd (SetNoDataValueAsUInt64 demo_env 6 demo_band)) = 1 \<and>
   map_option nodata_flags (psPam (snd (SetNoDataValueAsInt64 demo_env 5
       (snd (SetNoDataValue demo_env 0x406FE00000000000 demo_band))))) = Some [False, True, False] \<and>
   nodata_flag_count demo_band \<le> 1 \<and>
   pam_run demo_env [Op_SetNoDataValue 0x406FE00000000000, Op_SetNoDataValueAsInt64 5] demo_band
     = Inr demo_band_int64 \<and>
   nodata_flag_count demo_band_int64 \<le> 1"
proof -
  have h: "psPam (PamInitialize demo_env demo_band) \<noteq> None" by (simp add: demo_init)
  have c: "nodata_flag_count demo_band \<le> 1" by (simp add: nodata_flag_count_def demo_band_def)
  show ?thesis
    using nodata_flags_exclusive [of demo_env demo_band "0x406FE00000000000" 5 6
        "[Op_SetNoDataValue 0x406FE00000000000, Op_SetNoDataValueAsInt64 5]" demo_band_int64]
      h c demo_run
    by simp
qed


subsection \<open>The dirty flag\<close>

lemma d_ne_demo: "\<not> d_ne 0x4004000000000000 0x4004000000000000" "\<not> d_ne 0x4000000000000000 0x4000000000000000"
  by (simp_all add: d_ne_def d_eq_def CPLIsNan_def)

text \<open>
  Claim C5, amended. On a band whose overlay record is linked to a parent store:
  \<^verbatim>\<open>SetOffset\<close> and \<^verbatim>\<open>SetScale\<close> mark the store dirty exactly when the value was
  not set before or the new value differs from the stored one (by the \<^verbatim>\<open>!=\<close> of C);
  \<^verbatim>\<open>SetUnitType\<close> marks it dirty exactly when the unit it stores (none, for a null or
  empty string) differs from the stored one; in these three a set to the stored value
  leaves the dirty flag as it was. \<^verbatim>\<open>SetColorInterpretation\<close>,
  \<^verbatim>\<open>SetCategoryNames\<close>, \<^verbatim>\<open>SetColorTable\<close> and \<^verbatim>\<open>SetDefaultRAT\<close> mark the store
  dirty on every call.
\<close>

theorem mutators_mark_dirty:
  "psPam b = Some p \<and> poParentDS p \<and> poDS b \<noteq> None \<longrightarrow>
     pam_dirty (snd (SetOffset E v b)) = (pam_dirty b \<or> \<not> bOffsetSet p \<or> d_ne (dfOffset p) v) \<and>
     pam_dirty (snd (SetScale E v b)) = (pam_dirty b \<or> \<not> bScaleSet p \<or> d_ne v (dfScale p)) \<and>
     pam_dirty (snd (SetUnitType E u b)) = (pam_dirty b \<or> pszUnitType p \<noteq> unit_or_none u) \<and>
     pam_dirty (snd (SetColorInterpretation E ci b)) \<and>
     pam_dirty (snd (SetCategoryNames E names b)) \<and>
     pam_dirty (snd (SetColorTable E tab b)) \<and>
     pam_dirty (snd (SetDefaultRAT E rat b))"
proof (intro impI, elim conjE)
  assume p: "psPam b = Some p" and par: "poParentDS p" and ds: "poDS b \<noteq> None"
  have init: "PamInitialize E b = b" by (simp add: PamInitialize_def p par)
  from ds obtain d where d: "poDS b = Some d" by auto
  show "pam_dirty (snd (SetOffset E v b)) = (pam_dirty b \<or> \<not> bOffsetSet p \<or> d_ne (dfOffset p) v) \<and>
     pam_dirty (snd (SetScale E v b)) = (pam_dirty b \<or> \<not> bScaleSet p \<or> d_ne v (dfScale p)) \<and>
     pam_dirty (snd (SetUnitType E u b)) = (pam_dirty b \<or> pszUnitType p \<noteq> unit_or_none u) \<and>
     pam_dirty (snd (SetColorInterpretation E ci b)) \<and>
     pam_dirty (snd (SetCategoryNames E names b)) \<and>
     pam_dirty (snd (SetColorTable E tab b)) \<and>
     pam_dirty (snd (SetDefaultRAT E rat b))"
    by (auto simp: SetOffset_def SetScale_def SetUnitType_def SetColorInterpretation_def
        SetCategoryNames_def SetColorTable_def SetDefaultRAT_def Let_def init p par d
        MarkPamDirty_def pam_dirty_def unit_or_none_def split: option.splits)
qed


theorem mutators_mark_dirty_witness:
  "\<not> pam_dirty demo_band_scaled \<and>
   \<not> pam_dirty (snd (SetOffset demo_env 0x4004000000000000 demo_band_scaled)) \<and>
   \<not> pam_dirty (snd (SetScale demo_env 0x4000000000000000 demo_band_scaled)) \<and>
   \<not> pam_dirty (snd (SetUnitType demo_env (Some ''m'') demo_band_scaled)) \<and>
   pam_dirty (snd (SetOffset demo_env 0x4000000000000000 demo_band_scaled)) \<and>
   pam_dirty (snd (SetUnitType demo_env (Some ''ft'') demo_band_scaled)) \<and>
   pam_dirty (snd (SetColorInterpretation demo_env GCI_Undefined demo_band_scaled)) \<and>
   pam_dirty (snd (SetCategoryNames demo_env None demo_band_scaled)) \<and>
   pam_dirty (snd (SetColorTable demo_env None demo_band_scaled)) \<and>
   pam_dirty (snd (SetDefaultRAT demo_env None demo_band_scaled))"
proof -
  let ?p = "demo_record\<lparr>dfOffset := 0x4004000000000000, bOffsetSet := True,
        dfScale := 0x4000000000000000, bScaleSet := True, pszUnitType := Some ''m''\<rparr>"
  have h: "psPam demo_band_scaled = Some ?p \<and> poParentDS ?p \<and> poDS demo_band_scaled \<noteq> None"
    by (simp add: demo_band_scaled_def demo_band_def)
  have nd: "\<not> pam_dirty demo_band_scaled"
    by (simp add: pam_dirty_def demo_band_scaled_def demo_band_def)
  have ne: "d_ne 0x4004000000000000 0x4000000000000000"
    by (simp add: d_ne_def d_eq_def CPLIsNan_def d_is_zero_def)
  show ?thesis
    using mutators_mark_dirty [of demo_band_scaled ?p demo_env "0x4004000000000000" "Some ''m''"
        GCI_Undefined None None None]
      mutators_mark_dirty [of demo_band_scaled ?p demo_env "0x4000000000000000" "Some ''ft''"
        GCI_Undefined None None None]
      h nd ne d_ne_demo
    by (simp add: unit_or_none_def)
qed

text \<open>
  The claim as stated fails for the colour interpretation: setting the interpretation that
  is already stored marks a clean store dirty.
\<close>

theorem mutators_mark_dirty_counterexample:
  "psPam (demo_band\<lparr>psPam := Some (demo_record\<lparr>eColorInterp := GCI_GrayIndex\<rparr>)\<rparr>) \<noteq> None \<and>
   map_option eColorInterp (psPam (demo_band\<lparr>psPam := Some (demo_record\<lparr>eColorInterp := GCI_GrayIndex\<rparr>)\<rparr>))
     = Some GCI_GrayIndex \<and>
   \<not> pam_dirty (demo_band\<lparr>psPam := Some (demo_record\<lparr>eColorInterp := GCI_GrayIndex\<rparr>)\<rparr>) \<and>
   pam_dirty (snd (SetColorInterpretation demo_env GCI_GrayIndex
      (demo_band\<lparr>psPam := Some (demo_record\<lparr>eColorInterp := GCI_GrayIndex\<rparr>)\<rparr>)))"
  by (simp add: SetColorInterpretation_def PamInitialize_def Let_def MarkPamDirty_def pam_dirty_def
      demo_band_def demo_record_def)

subsection \<open>The histogram cache lookup\<close>

lemma toupper_c_simps [simp]:
  "toupper_c CHR ''a'' = CHR ''A''"
  "toupper_c CHR ''b'' = CHR ''B''"
  "toupper_c CHR ''c'' = CHR ''C''"
  "toupper_c CHR ''d'' = CHR ''D''"
  "toupper_c CHR ''e'' = CHR ''E''"
  "toupper_c CHR ''f'' = CHR ''F''"
  "toupper_c CHR ''g'' = CHR ''G''"
  "toupper_c CHR ''h'' = CHR ''H''"
  "toupper_c CHR ''i'' = CHR ''I''"
  "toupper_c CHR ''j'' = CHR ''J''"
  "toupper_c CHR ''k'' = CHR ''K''"
  "toupper_c CHR ''l'' = CHR ''L''"
  "toupper_c CHR ''m'' = CHR ''M''"
  "toupper_c CHR ''n'' = CHR ''N''"
  "toupper_c CHR ''o'' = CHR ''O''"
  "toupper_c CHR ''p'' = CHR ''P''"
  "toupper_c CHR ''q'' = CHR ''Q''"
  "toupper_c CHR ''r'' = CHR ''R''"
  "toupper_c CHR ''s'' = CHR ''S''"
  "toupper_c CHR ''t'' = CHR ''T''"
  "toupper_c CHR ''u'' = CHR ''U''"
  "toupper_c CHR ''v'' = CHR ''V''"
  "toupper_c CHR ''w'' = CHR ''W''"
  "toupper_c CHR ''x'' = CHR ''X''"
  "toupper_c CHR ''y'' = CHR ''Y''"
  "toupper_c CHR ''z'' = CHR ''Z''"
  "toupper_c CHR ''A'' = CHR ''A''"
  "toupper_c CHR ''B'' = CHR ''B''"
  "toupper_c CHR ''C'' = CHR ''C''"
  "toupper_c CHR ''D'' = CHR ''D''"
  "toupper_c CHR ''E'' = CHR ''E''"
  "toupper_c CHR ''F'' = CHR ''F''"
  "toupper_c CHR ''G'' = CHR ''G''"
  "toupper_c CHR ''H'' = CHR ''H''"
  "toupper_c CHR ''I'' = CHR ''I''"
  "toupper_c CHR ''J'' = CHR ''J''"
  "toupper_c CHR ''K'' = CHR ''K''"
  "toupper_c CHR ''L'' = CHR ''L''"
  "toupper_c CHR ''M'' = CHR ''M''"
  "toupper_c CHR ''N'' = CHR ''N''"
  "toupper_c CHR ''O'' = CHR ''O''"
  "toupper_c CHR ''P'' = CHR ''P''"
  "toupper_c CHR ''Q'' = CHR ''Q''"
  "toupper_c CHR ''R'' = CHR ''R''"
  "toupper_c CHR ''S'' = CHR ''S''"
  "toupper_c CHR ''T'' = CHR ''T''"
  "toupper_c CHR ''U'' = CHR ''U''"
  "toupper_c CHR ''V'' = CHR ''V''"
  "toupper_c CHR ''W'' = CHR ''W''"
  "toupper_c CHR ''X'' = CHR ''X''"
  "toupper_c CHR ''Y'' = CHR ''Y''"
  "toupper_c CHR ''Z'' = CHR ''Z''"
  "toupper_c CHR ''0'' = CHR ''0''"
  "toupper_c CHR ''1'' = CHR ''1''"
  "toupper_c CHR ''2'' = CHR ''2''"
  "toupper_c CHR ''3'' = CHR ''3''"
  "toupper_c CHR ''4'' = CHR ''4''"
  "toupper_c CHR ''5'' = CHR ''5''"
  "toupper_c CHR ''6'' = CHR ''6''"
  "toupper_c CHR ''7'' = CHR ''7''"
  "toupper_c CHR ''8'' = CHR ''8''"
  "toupper_c CHR ''9'' = CHR ''9''"
  "toupper_c CHR ''_'' = CHR ''_''"
  "toupper_c CHR ''#'' = CHR ''#''"
  "toupper_c CHR ''.'' = CHR ''.''"
  "toupper_c CHR ''-'' = CHR ''-''"
  "toupper_c CHR '' '' = CHR '' ''"
  by code_simp+

lemma hist_mismatch_iff:
  "\<not> hist_mismatch E c dMin dMax n bIncl bApprox \<longleftrightarrow>
   spec_histogram_matches E (descriptor_of E c) dMin dMax n (bIncl \<noteq> 0) (bApprox \<noteq> 0)"
  by (auto simp: hist_mismatch_def spec_histogram_matches_def descriptor_of_def Let_def)

lemma find_hist_Some:
  "find_hist E kids k dMin dMax n bIncl bApprox = Some i \<longleftrightarrow>
   k \<le> i \<and> i - k < length kids \<and>
   spec_candidate E dMin dMax n (bIncl \<noteq> 0) (bApprox \<noteq> 0) (kids ! (i - k)) \<and>
   (\<forall>j < i - k. \<not> spec_candidate E dMin dMax n (bIncl \<noteq> 0) (bApprox \<noteq> 0) (kids ! j))"
proof (induction kids arbitrary: k)
  case Nil
  then show ?case by simp
next
  case (Cons c kids)
  show ?case
  proof (cases "spec_candidate E dMin dMax n (bIncl \<noteq> 0) (bApprox \<noteq> 0) c")
    case True
    then have "find_hist E (c # kids) k dMin dMax n bIncl bApprox = Some k"
      by (simp add: spec_candidate_def hist_mismatch_iff [symmetric])
    moreover have "(k \<le> i \<and> i - k < length (c # kids) \<and>
       spec_candidate E dMin dMax n (bIncl \<noteq> 0) (bApprox \<noteq> 0) ((c # kids) ! (i - k)) \<and>
       (\<forall>j < i - k. \<not> spec_candidate E dMin dMax n (bIncl \<noteq> 0) (bApprox \<noteq> 0) ((c # kids) ! j)))
       \<longleftrightarrow> i = k"
      using True by (cases "i - k") auto
    ultimately show ?thesis by auto
  next
    case False
    then have eq: "find_hist E (c # kids) k dMin dMax n bIncl bApprox =
        find_hist E kids (Suc k) dMin dMax n bIncl bApprox"
      by (auto simp: spec_candidate_def hist_mismatch_iff [symmetric])
    show ?thesis
      unfolding eq Cons.IH
    proof (intro iffI; elim conjE; intro conjI)
      assume a: "Suc k \<le> i" "i - Suc k < length kids"
        "spec_candidate E dMin dMax n (bIncl \<noteq> 0) (bApprox \<noteq> 0) (kids ! (i - Suc k))"
        "\<forall>j<i - Suc k. \<not> spec_candidate E dMin dMax n (bIncl \<noteq> 0) (bApprox \<noteq> 0) (kids ! j)"
      have s: "i - k = Suc (i - Suc k)" using a(1) by simp
      show "k \<le> i" using a(1) by simp
      show "i - k < length (c # kids)" using a(2) s by simp
      show "spec_candidate E dMin dMax n (bIncl \<noteq> 0) (bApprox \<noteq> 0) ((c # kids) ! (i - k))"
        using a(3) s by simp
      show "\<forall>j<i - k. \<not> spec_candidate E dMin dMax n (bIncl \<noteq> 0) (bApprox \<noteq> 0) ((c # kids) ! j)"
        using a(4) False s by (auto simp: nth_Cons split: nat.splits)
    next
      assume a: "k \<le> i" "i - k < length (c # kids)"
        "spec_candidate E dMin dMax n (bIncl \<noteq> 0) (bApprox \<noteq> 0) ((c # kids) ! (i - k))"
        "\<forall>j<i - k. \<not> spec_candidate E dMin dMax n (bIncl \<noteq> 0) (bApprox \<noteq> 0) ((c # kids) ! j)"
      have ne: "i - k \<noteq> 0" using a(3) False by (cases "i - k") auto
      then obtain m where m: "i - k = Suc m" by (cases "i - k") auto
      then have s: "i - Suc k = m" by simp
      show "Suc k \<le> i" using ne by simp
      show "i - Suc k < length kids" using a(2) m s by simp
      show "spec_candidate E dMin dMax n (bIncl \<noteq> 0) (bApprox \<noteq> 0) (kids ! (i - Suc k))"
        using a(3) m s by simp
      show "\<forall>j<i - Suc k. \<not> spec_candidate E dMin dMax n (bIncl \<noteq> 0) (bApprox \<noteq> 0) (kids ! j)"
      proof (intro allI impI)
        fix j assume "j < i - Suc k"
        then have "Suc j < i - k" using m s by simp
        with a(4) have "\<not> spec_candidate E dMin dMax n (bIncl \<noteq> 0) (bApprox \<noteq> 0) ((c # kids) ! Suc j)"
          by blast
        then show "\<not> spec_candidate E dMin dMax n (bIncl \<noteq> 0) (bApprox \<noteq> 0) (kids ! j)" by simp
      qed
    qed
  qed
qed

lemma find_hist_None:
  "find_hist E kids k dMin dMax n bIncl bApprox = None \<longleftrightarrow>
   (\<forall>c \<in> set kids. \<not> spec_candidate E dMin dMax n (bIncl \<noteq> 0) (bApprox \<noteq> 0) c)"
  by (induction kids arbitrary: k) (auto simp: spec_candidate_def hist_mismatch_iff [symmetric])

text \<open>
  Claim C4. In \<^verbatim>\<open>PamFindMatchingHistogram\<close> a candidate matches exactly when it is an
  item of the list (an element \<^verbatim>\<open>HistItem\<close>) whose min and max equal the query's within
  the tolerance of \<^verbatim>\<open>ARE_REAL_EQUAL\<close>, whose bucket count is the query's, whose
  out-of-range flag has the truth value of the query's, and which is not flagged
  approximate unless the caller accepts approximate results. The result is the position
  of the first match in document order; it is absent when no candidate matches, and when
  there is no list.
\<close>

theorem PamFindMatchingHistogram_first_match:
  "PamFindMatchingHistogram E None dMin dMax n bIncl bApprox = None \<and>
   (PamFindMatchingHistogram E (Some hs) dMin dMax n bIncl bApprox = Some i \<longleftrightarrow>
      i < length (psChild hs) \<and>
      is_HistItem (psChild hs ! i) \<and>
      spec_histogram_matches E (descriptor_of E (psChild hs ! i)) dMin dMax n (bIncl \<noteq> 0) (bApprox \<noteq> 0) \<and>
      (\<forall>j < i. \<not> (is_HistItem (psChild hs ! j) \<and>
         spec_histogram_matches E (descriptor_of E (psChild hs ! j)) dMin dMax n
           (bIncl \<noteq> 0) (bApprox \<noteq> 0)))) \<and>
   (PamFindMatchingHistogram E (Some hs) dMin dMax n bIncl bApprox = None \<longleftrightarrow>
      (\<forall>c \<in> set (psChild hs). \<not> (is_HistItem c \<and>
         spec_histogram_matches E (descriptor_of E c) dMin dMax n (bIncl \<noteq> 0) (bApprox \<noteq> 0))))"
  using find_hist_Some [of E "psChild hs" 0 dMin dMax n bIncl bApprox i]
        find_hist_None [of E "psChild hs" 0 dMin dMax n bIncl bApprox]
  by (simp add: PamFindMatchingHistogram_def spec_candidate_def)

lemma link_after_end: "eType n \<noteq> CXT_Attribute \<Longrightarrow> link_after n kids = kids @ [n]"
  by (induction kids) simp_all

lemma link_child_end: "eType n \<noteq> CXT_Attribute \<Longrightarrow> link_child n kids = kids @ [n]"
proof (cases kids)
  case Nil
  then show ?thesis by simp
next
  case (Cons c cs)
  assume "eType n \<noteq> CXT_Attribute"
  then show ?thesis by (cases cs) (simp_all add: Cons link_after_end)
qed

lemma split_first_None: "split_first P xs = None \<longleftrightarrow> (\<forall>x \<in> set xs. \<not> P x)"
  by (induction xs) (auto split: option.splits)

lemma SetXMLValue_new_element:
  assumes "\<forall>c \<in> set kids. \<not> named tok c" and "case tok of [] \<Rightarrow> True | c # _ \<Rightarrow> c \<noteq> CHR ''#''"
  shows "SetXMLValue (CPLXMLNode CXT_Element nm kids) [tok] v =
         CPLXMLNode CXT_Element nm (kids @ [CPLCreateXMLElementAndValue tok v])"
proof -
  have 1: "split_first (named tok) kids = None" using assms(1) by (simp add: split_first_None)
  have 2: "(case tok of [] \<Rightarrow> False | c # _ \<Rightarrow> c = CHR ''#'') = False"
    using assms(2) by (cases tok) simp_all
  show ?thesis
    by (simp add: SetXMLValue_def Let_def 1 2 link_child_end CPLCreateXMLElementAndValue_def)
qed

lemma named_element [simp]:
  "named tok (CPLCreateXMLElementAndValue nm v) \<longleftrightarrow> EQUAL tok nm"
  by (simp add: named_def CPLCreateXMLElementAndValue_def)

lemma PamHistogramToXMLTree_eq:
  "PamHistogramToXMLTree E dMin dMax n h bIncl bApprox =
     (if n > 178956969 \<or> \<not> VSIMalloc_ok E (nat ((22 * (n mod 2 ^ 64) + 10) mod 2 ^ 64)) then None
      else Some (HistItem_node (Printf_16g E dMin) (Printf_16g E dMax) (Printf_d n)
                   (Printf_d bIncl) (Printf_d bApprox) (join_counts (take (nat n) h))))"
  by (simp add: PamHistogramToXMLTree_def INT_MAX_def Let_def SetXMLValue_new_element EQUAL_def
      HistItem_node_def)

lemma GetXMLValueD_element:
  "find (named tok) kids = Some (CPLCreateXMLElementAndValue nm v) \<Longrightarrow>
   CPLGetXMLValueD (CPLXMLNode ty x kids) [tok] d = v"
  by (simp add: CPLGetXMLValueD_def CPLGetXMLValue_def CPLCreateXMLElementAndValue_def)

lemma HistItem_node_values:
  "CPLGetXMLValueD (HistItem_node a b c d e f) [''HistMin''] x = a"
  "CPLGetXMLValueD (HistItem_node a b c d e f) [''HistMax''] x = b"
  "CPLGetXMLValueD (HistItem_node a b c d e f) [''BucketCount''] x = c"
  "CPLGetXMLValueD (HistItem_node a b c d e f) [''IncludeOutOfRange''] x = d"
  "CPLGetXMLValueD (HistItem_node a b c d e f) [''Approximate''] x = e"
  "CPLGetXMLValueD (HistItem_node a b c d e f) [''HistCounts''] x = f"
  unfolding HistItem_node_def
  by (rule GetXMLValueD_element, simp add: EQUAL_def)+

lemma is_HistItem_node [simp]: "is_HistItem (HistItem_node a b c d e f)"
  by (simp add: is_HistItem_def HistItem_node_def EQUAL_def)

lemma descriptor_of_HistItem_node:
  "descriptor_of E (HistItem_node a b c d e f) =
     \<lparr> hd_min = CPLAtofM E a, hd_max = CPLAtofM E b, hd_bucketCount = atoi c,
       hd_includeOutOfRange = (atoi d \<noteq> 0), hd_approximate = (atoi e \<noteq> 0) \<rparr>"
  by (simp add: descriptor_of_def HistItem_node_values)

lemma length_parse_counts [simp]: "length (parse_counts n s) = n"
  by (induction n s rule: parse_counts.induct) simp_all

lemma of_char_digit_char: "d < 10 \<Longrightarrow> (of_char (digit_char d) :: nat) = 48 + d"
  by (simp add: digit_char_def)

lemma isdigit_digit_char: "d < 10 \<Longrightarrow> isdigit_c (digit_char d)"
  by (simp add: isdigit_c_def of_char_digit_char)

lemma digits_value_Printf_u:
  "digits_value acc (Printf_u n @ t) = digits_value (acc * 10 ^ length (Printf_u n) + n) t"
proof (induction n arbitrary: acc t rule: Printf_u.induct)
  case (1 n)
  show ?case
  proof (cases "n < 10")
    case True
    then show ?thesis
      by (simp add: Printf_u.simps [of n] isdigit_digit_char of_char_digit_char)
  next
    case False
    have d: "n mod 10 < 10" by simp
    have "digits_value acc (Printf_u n @ t)
        = digits_value acc (Printf_u (n div 10) @ (digit_char (n mod 10) # t))"
      using False by (simp add: Printf_u.simps [of n])
    also have "\<dots> = digits_value (acc * 10 ^ length (Printf_u (n div 10)) + n div 10)
        (digit_char (n mod 10) # t)"
      using "1.IH" [OF False] by simp
    also have "\<dots> = digits_value ((acc * 10 ^ length (Printf_u (n div 10)) + n div 10) * 10 + n mod 10) t"
      using d by (simp add: isdigit_digit_char of_char_digit_char del: mod_less_divisor)
    also have "(acc * 10 ^ length (Printf_u (n div 10)) + n div 10) * 10 + n mod 10
        = acc * 10 ^ length (Printf_u n) + n"
      using False by (simp add: Printf_u.simps [of n] algebra_simps)
    finally show ?thesis .
  qed
qed

lemma digits_value_Printf_u_0 [simp]: "digits_value 0 (Printf_u n) = n"
  using digits_value_Printf_u [of 0 n "[]"] by simp

lemma Printf_u_hd: "\<exists>c cs. Printf_u n = c # cs \<and> isdigit_c c"
proof (induction n rule: Printf_u.induct)
  case (1 n)
  show ?case
  proof (cases "n < 10")
    case True
    then show ?thesis by (simp add: Printf_u.simps [of n] isdigit_digit_char)
  next
    case False
    with "1.IH" obtain c cs where "Printf_u (n div 10) = c # cs" "isdigit_c c" by auto
    then show ?thesis using False by (simp add: Printf_u.simps [of n])
  qed
qed

lemma isdigit_not_space: "isdigit_c c \<Longrightarrow> \<not> isspace_c c \<and> c \<noteq> CHR ''-'' \<and> c \<noteq> CHR ''+''"
  by (auto simp: isdigit_c_def isspace_c_def)

lemma strto_parse_Printf_u [simp]: "strto_parse (Printf_u n) = (False, n)"
proof -
  obtain c cs where p: "Printf_u n = c # cs" and d: "isdigit_c c" using Printf_u_hd by blast
  have "digits_value 0 (c # cs) = n" using p digits_value_Printf_u_0 [of n] by simp
  then show ?thesis using isdigit_not_space [OF d] by (simp add: strto_parse_def p)
qed

lemma strto_parse_minus [simp]: "strto_parse (CHR ''-'' # Printf_u n) = (True, n)"
  by (simp add: strto_parse_def isspace_c_def)

lemma strtoll_Printf_d: "- (2 ^ 63) \<le> i \<Longrightarrow> i < 2 ^ 63 \<Longrightarrow> strtoll (Printf_d i) = i"
  by (simp add: strtoll_def Printf_d_def)

lemma atoi_Printf_d: "- (2 ^ 31) \<le> i \<Longrightarrow> i < 2 ^ 31 \<Longrightarrow> atoi (Printf_d i) = i"
  by (simp add: atoi_def strtoll_Printf_d signed_take_bit_int_eq_self)

lemma strtoull_Printf_u: "n < 2 ^ 64 \<Longrightarrow> strtoull (Printf_u n) = word_of_nat n"
  by (simp add: strtoull_def)

lemma atoi_01 [simp]: "atoi ''0'' = 0" "atoi ''1'' = 1"
  by (simp_all add: atoi_def strtoll_def strto_parse_def isspace_c_def isdigit_c_def)

lemma Printf_d_01 [simp]: "Printf_d 0 = ''0''" "Printf_d 1 = ''1''"
  by code_simp+

subsection \<open>Decoding a histogram\<close>

text \<open>
  Claim C7, amended. \<^verbatim>\<open>PamParseHistogram\<close> rejects, without reporting an error, a
  bucket count that is not positive or exceeds \<^verbatim>\<open>INT_MAX / 2\<close>. For a bucket count
  \<open>n\<close> in that range: a caller that does not ask for the counts gets success, and the
  counts are not looked at; for a caller that asks for them the decode fails with a
  reported error of class \<^verbatim>\<open>CPLE_AppDefined\<close> whenever the count string has fewer than
  \<open>2 * n - 1\<close> characters, fails with a reported \<^verbatim>\<open>CPLE_OutOfMemory\<close> when the
  allocation of the \<open>n\<close> buckets fails, and otherwise succeeds with exactly \<open>n\<close>
  buckets.
\<close>

theorem PamParseHistogram_checks:
  assumes "n = atoi (CPLGetXMLValueD h [''BucketCount''] ''2'')"
    and "s = CPLGetXMLValueD h [''HistCounts''] []"
    and "r = PamParseHistogram E (Some h) want"
  shows
   "(n \<le> 0 \<or> INT_MAX div 2 < n \<longrightarrow>
       \<not> fst r \<and> fst (snd (snd r)) = None \<and> snd (snd (snd r)) = []) \<and>
    (0 < n \<and> n \<le> INT_MAX div 2 \<and> \<not> want \<longrightarrow>
       fst r \<and> fst (snd (snd r)) = None \<and> snd (snd (snd r)) = []) \<and>
    (0 < n \<and> n \<le> INT_MAX div 2 \<and> want \<and> int (length s) < 2 * n - 1 \<longrightarrow>
       \<not> fst r \<and> fst (snd (snd r)) = None \<and> snd (snd (snd r)) = [(CE_Failure, CPLE_AppDefined)]) \<and>
    (0 < n \<and> n \<le> INT_MAX div 2 \<and> want \<and> 2 * n - 1 \<le> int (length s) \<and> \<not> VSICalloc_ok E (nat n) \<longrightarrow>
       \<not> fst r \<and> fst (snd (snd r)) = None \<and> snd (snd (snd r)) = [(CE_Failure, CPLE_OutOfMemory)]) \<and>
    (0 < n \<and> n \<le> INT_MAX div 2 \<and> want \<and> 2 * n - 1 \<le> int (length s) \<and> VSICalloc_ok E (nat n) \<longrightarrow>
       fst r \<and> snd (snd (snd r)) = [] \<and>
       (\<exists>hist. fst (snd (snd r)) = Some hist \<and> int (length hist) = n)) \<and>
    (fst r \<and> want \<longrightarrow>
       VSICalloc_ok E (nat n) \<and> (\<exists>hist. fst (snd (snd r)) = Some hist \<and> int (length hist) = n))"
  unfolding assms PamParseHistogram_def
  by (simp add: Let_def)

lemma atoi_2 [simp]: "atoi ''2'' = 2"
  by (simp_all add: atoi_def strtoll_def strto_parse_def isspace_c_def isdigit_c_def)

lemma demo_env_simps [simp]:
  "VSICalloc_ok demo_env n" "VSIMalloc_ok demo_env n" "\<not> VSICalloc_ok demo_env_no_memory n"
  "\<not> VSIMalloc_ok demo_env_no_memory n"
  "CPLAtofM demo_env = demo_Atof" "CPLAtof demo_env = demo_Atof" "Printf_16g demo_env = demo_Printf_16g"
  "Printf_14E demo_env = demo_Printf_14E" "ARE_REAL_EQUAL demo_env = d_eq"
  "CPLAtofM demo_env_no_memory = demo_Atof" "Printf_16g demo_env_no_memory = demo_Printf_16g"
  "ARE_REAL_EQUAL demo_env_no_memory = d_eq"
  by (simp_all add: demo_env_def demo_env_no_memory_def)

lemma demo_Atof_simps [simp]:
  "demo_Atof ''0'' = 0" "demo_Atof ''255'' = 0x406FE00000000000" "demo_Atof ''2.5'' = 0x4004000000000000"
  by (simp_all add: demo_Atof_def demo_doubles_def)

lemma demo_Printf_simps [simp]:
  "demo_Printf_16g 0 = ''0''" "demo_Printf_16g 0x406FE00000000000 = ''255''"
  by (simp_all add: demo_Printf_16g_def demo_doubles_def)

lemma CPLAtoGIntBig_demo [simp]:
  "CPLAtoGIntBig ''3|4'' = 3" "CPLAtoGIntBig ''4'' = 4"
  by (simp_all add: CPLAtoGIntBig_def strtoll_def strto_parse_def isspace_c_def isdigit_c_def)

lemma skip_count_demo [simp]: "skip_count ''3|4'' = ''4''"
  by (simp add: skip_count_def)

theorem PamParseHistogram_checks_witness:
  "PamParseHistogram demo_env (Some (HistItem_node ''0'' ''255'' ''2'' ''1'' ''0'' ''3|4'')) True
     = (True, Some (0, 0x406FE00000000000, 2), Some [3, 4], []) \<and>
   PamParseHistogram demo_env (Some (HistItem_node ''0'' ''255'' ''2'' ''1'' ''0'' ''34'')) True
     = (False, Some (0, 0x406FE00000000000, 2), None, [(CE_Failure, CPLE_AppDefined)]) \<and>
   PamParseHistogram demo_env_no_memory (Some (HistItem_node ''0'' ''255'' ''2'' ''1'' ''0'' ''3|4'')) True
     = (False, Some (0, 0x406FE00000000000, 2), None, [(CE_Failure, CPLE_OutOfMemory)]) \<and>
   PamParseHistogram demo_env (Some (HistItem_node ''0'' ''255'' ''0'' ''1'' ''0'' ''3|4'')) True
     = (False, Some (0, 0x406FE00000000000, 0), None, []) \<and>
   PamParseHistogram demo_env (Some (HistItem_node ''0'' ''255'' ''2'' ''1'' ''0'' ''34'')) False
     = (True, Some (0, 0x406FE00000000000, 2), None, [])"
proof -
  have n2: "\<And>a b d e f. atoi (CPLGetXMLValueD (HistItem_node a b ''2'' d e f) [''BucketCount''] ''2'') = 2"
    by (simp add: HistItem_node_values)
  have n0: "\<And>a b d e f. atoi (CPLGetXMLValueD (HistItem_node a b ''0'' d e f) [''BucketCount''] ''2'') = 0"
    by (simp add: HistItem_node_values)
  have out: "\<And>E h w. fst (snd (PamParseHistogram E (Some h) w)) =
      Some (CPLAtofM E (CPLGetXMLValueD h [''HistMin''] ''0''), CPLAtofM E (CPLGetXMLValueD h [''HistMax''] ''1''),
            atoi (CPLGetXMLValueD h [''BucketCount''] ''2''))"
    by (simp add: PamParseHistogram_def Let_def)
  have hist: "fst (snd (snd (PamParseHistogram demo_env (Some (HistItem_node ''0'' ''255'' ''2'' ''1'' ''0'' ''3|4'')) True)))
     = Some [3, 4]"
    by (simp add: PamParseHistogram_def Let_def HistItem_node_values INT_MAX_def numeral_2_eq_2)
  note t = PamParseHistogram_checks [OF refl refl refl]
  have 1: "PamParseHistogram demo_env (Some (HistItem_node ''0'' ''255'' ''2'' ''1'' ''0'' ''3|4'')) True
     = (True, Some (0, 0x406FE00000000000, 2), Some [3, 4], [])"
    using t [of "HistItem_node ''0'' ''255'' ''2'' ''1'' ''0'' ''3|4''" demo_env True]
      out [of demo_env "HistItem_node ''0'' ''255'' ''2'' ''1'' ''0'' ''3|4''" True] hist
    by (simp add: n2 HistItem_node_values INT_MAX_def prod_eq_iff)
  have 2: "PamParseHistogram demo_env (Some (HistItem_node ''0'' ''255'' ''2'' ''1'' ''0'' ''34'')) True
     = (False, Some (0, 0x406FE00000000000, 2), None, [(CE_Failure, CPLE_AppDefined)])"
    using t [of "HistItem_node ''0'' ''255'' ''2'' ''1'' ''0'' ''34''" demo_env True]
      out [of demo_env "HistItem_node ''0'' ''255'' ''2'' ''1'' ''0'' ''34''" True]
    by (simp add: n2 HistItem_node_values INT_MAX_def prod_eq_iff)
  have 3: "PamParseHistogram demo_env_no_memory (Some (HistItem_node ''0'' ''255'' ''2'' ''1'' ''0'' ''3|4'')) True
     = (False, Some (0, 0x406FE00000000000, 2), None, [(CE_Failure, CPLE_OutOfMemory)])"
    using t [of "HistItem_node ''0'' ''255'' ''2'' ''1'' ''0'' ''3|4''" demo_env_no_memory True]
      out [of demo_env_no_memory "HistItem_node ''0'' ''255'' ''2'' ''1'' ''0'' ''3|4''" True]
    by (simp add: n2 HistItem_node_values INT_MAX_def prod_eq_iff)
  have 4: "PamParseHistogram demo_env (Some (HistItem_node ''0'' ''255'' ''0'' ''1'' ''0'' ''3|4'')) True
     = (False, Some (0, 0x406FE00000000000, 0), None, [])"
    using t [of "HistItem_node ''0'' ''255'' ''0'' ''1'' ''0'' ''3|4''" demo_env True]
      out [of demo_env "HistItem_node ''0'' ''255'' ''0'' ''1'' ''0'' ''3|4''" True]
    by (simp add: n0 HistItem_node_values INT_MAX_def prod_eq_iff)
  have 5: "PamParseHistogram demo_env (Some (HistItem_node ''0'' ''255'' ''2'' ''1'' ''0'' ''34'')) False
     = (True, Some (0, 0x406FE00000000000, 2), None, [])"
    using t [of "HistItem_node ''0'' ''255'' ''2'' ''1'' ''0'' ''34''" demo_env False]
      out [of demo_env "HistItem_node ''0'' ''255'' ''2'' ''1'' ''0'' ''34''" False]
    by (simp add: n2 HistItem_node_values INT_MAX_def prod_eq_iff)
  from 1 2 3 4 5 show ?thesis by simp
qed

lemma atoi_2000000000 [simp]: "atoi ''2000000000'' = 2000000000"
  by (simp add: atoi_def strtoll_def strto_parse_def isspace_c_def isdigit_c_def
      signed_take_bit_int_eq_self)

text \<open>
  The claim as stated fails on a count string shorter than \<open>2 * n - 1\<close> in two ways: for
  a caller that does not ask for the counts the call succeeds, without an error; and for a
  bucket count above \<^verbatim>\<open>INT_MAX / 2\<close> the call fails, for a caller that asks for the
  counts too, without reporting an error.
\<close>

theorem PamParseHistogram_checks_counterexample:
  "int (length (CPLGetXMLValueD (HistItem_node ''0'' ''255'' ''2'' ''1'' ''0'' ''34'') [''HistCounts''] []))
     < 2 * atoi (CPLGetXMLValueD (HistItem_node ''0'' ''255'' ''2'' ''1'' ''0'' ''34'') [''BucketCount''] ''2'') - 1 \<and>
   PamParseHistogram demo_env (Some (HistItem_node ''0'' ''255'' ''2'' ''1'' ''0'' ''34'')) False
     = (True, Some (0, 0x406FE00000000000, 2), None, []) \<and>
   int (length (CPLGetXMLValueD (HistItem_node ''0'' ''255'' ''2000000000'' ''1'' ''0'' ''34'')
       [''HistCounts''] []))
     < 2 * atoi (CPLGetXMLValueD (HistItem_node ''0'' ''255'' ''2000000000'' ''1'' ''0'' ''34'')
         [''BucketCount''] ''2'') - 1 \<and>
   PamParseHistogram demo_env (Some (HistItem_node ''0'' ''255'' ''2000000000'' ''1'' ''0'' ''34'')) True
     = (False, Some (0, 0x406FE00000000000, 2000000000), None, [])"
  by (simp add: PamParseHistogram_def Let_def HistItem_node_values INT_MAX_def)

lemma remove_first_at:
  "i < length xs \<Longrightarrow> P (xs ! i) \<Longrightarrow> \<forall>j<i. \<not> P (xs ! j) \<Longrightarrow>
   take i xs @ drop (Suc i) xs = remove_first P xs"
proof (induction xs arbitrary: i)
  case Nil
  then show ?case by simp
next
  case (Cons x xs)
  show ?case
  proof (cases i)
    case 0
    with Cons.prems show ?thesis by simp
  next
    case (Suc k)
    with Cons.prems have nx: "\<not> P x" by auto
    from Cons.prems Suc have "k < length xs" "P (xs ! k)" "\<forall>j<k. \<not> P (xs ! j)" by auto
    from Cons.IH [OF this] show ?thesis using nx Suc by simp
  qed
qed

lemma remove_first_none: "\<forall>x \<in> set xs. \<not> P x \<Longrightarrow> remove_first P xs = xs"
  by (induction xs) simp_all

lemma removed_by_find:
  "(case find_hist E kids 0 dMin dMax n bIncl bApprox of
      None \<Rightarrow> kids | Some i \<Rightarrow> take i kids @ drop (Suc i) kids)
   = remove_first (spec_candidate E dMin dMax n (bIncl \<noteq> 0) (bApprox \<noteq> 0)) kids"
proof (cases "find_hist E kids 0 dMin dMax n bIncl bApprox")
  case None
  from find_hist_None [THEN iffD1, OF None]
  have "remove_first (spec_candidate E dMin dMax n (bIncl \<noteq> 0) (bApprox \<noteq> 0)) kids = kids"
    by (rule remove_first_none)
  then show ?thesis by (simp add: None)
next
  case (Some i)
  from find_hist_Some [THEN iffD1, OF Some]
  have "take i kids @ drop (Suc i) kids
      = remove_first (spec_candidate E dMin dMax n (bIncl \<noteq> 0) (bApprox \<noteq> 0)) kids"
    by (intro remove_first_at) simp_all
  then show ?thesis by (simp add: Some)
qed

lemma PamInitialize_again_eq:
  assumes "psPam (PamInitialize E b) = Some p"
    and "psPam b1 = Some q"
    and "poParentDS q = poParentDS p"
    and "map_option (ds_dirty_update (\<lambda>_. True)) (poDS b1) = map_option (ds_dirty_update (\<lambda>_. True)) (poDS b)"
  shows "psPam (PamInitialize E b1) = Some q"
proof (cases "poParentDS q")
  case True
  then show ?thesis by (simp add: PamInitialize_def assms(2))
next
  case False
  with assms(1,3) obtain p0 where p0: "psPam b = Some p0" "\<not> poParentDS p0"
    and stay: "poDS b = None \<or> (\<exists>ds. poDS b = Some ds \<and> (\<not> ds_PAM_CLASS ds \<or> \<not> ds_is_GDALPamDataset ds))"
    by (auto simp: PamInitialize_def CPLError_def split: option.splits if_splits)
  from stay assms(4) have "poDS b1 = None \<or> (\<exists>ds. poDS b1 = Some ds \<and> (\<not> ds_PAM_CLASS ds \<or> \<not> ds_is_GDALPamDataset ds))"
    by (cases "poDS b1"; cases "poDS b") (auto, (metis GDALDataset.select_convs GDALDataset.surjective GDALDataset.update_convs)+)
  then show ?thesis
    by (auto simp: PamInitialize_def CPLError_def assms(2) False)
qed

lemma poDS_PamInitialize [simp]: "poDS (PamInitialize E b) = poDS b"
  by (simp add: PamInitialize_def CPLError_def split: option.splits)

lemma poDS_MarkPamDirty_dirty:
  "map_option (ds_dirty_update (\<lambda>_. True)) (poDS (MarkPamDirty b)) = map_option (ds_dirty_update (\<lambda>_. True)) (poDS b)"
  by (simp add: MarkPamDirty_def option.map_comp comp_def split: option.splits)

lemma SetDefaultHistogram_result:
  assumes init: "psPam (PamInitialize E b) = Some p"
  shows "SetDefaultHistogram E dMin dMax n h b =
    (let rest = remove_first (spec_candidate E dMin dMax n True True)
                  (case psSavedHistograms p of None \<Rightarrow> [] | Some hs \<Rightarrow> psChild hs);
         b1 = (PamInitialize E b)\<lparr>psPam := Some (p\<lparr>psSavedHistograms :=
                 map_option (\<lambda>hs. CPLXMLNode (eType hs) (pszValue hs) rest) (psSavedHistograms p)\<rparr>)\<rparr>
     in if n > 178956969 \<or> \<not> VSIMalloc_ok E (nat ((22 * (n mod 2 ^ 64) + 10) mod 2 ^ 64))
        then (Pam CE_Failure, b1)
        else (Pam CE_None,
              MarkPamDirty ((PamInitialize E b)\<lparr>psPam := Some (p\<lparr>psSavedHistograms := Some
                (CPLXMLNode
                   (case psSavedHistograms p of None \<Rightarrow> CXT_Element | Some hs \<Rightarrow> eType hs)
                   (case psSavedHistograms p of None \<Rightarrow> ''Histograms'' | Some hs \<Rightarrow> pszValue hs)
                   (HistItem_node (Printf_16g E dMin) (Printf_16g E dMax) (Printf_d n) ''1'' ''0''
                      (join_counts (take (nat n) h)) # rest))\<rparr>)\<rparr>)))"
proof (cases "psSavedHistograms p")
  case None
  then show ?thesis
    by (simp add: SetDefaultHistogram_def Let_def init PamFindMatchingHistogram_def
        PamHistogramToXMLTree_eq MarkPamDirty_def split: option.splits)
next
  case (Some hs)
  have rm: "(case find_hist E (psChild hs) 0 dMin dMax n 1 1 of
      None \<Rightarrow> psChild hs | Some i \<Rightarrow> take i (psChild hs) @ drop (Suc i) (psChild hs))
   = remove_first (spec_candidate E dMin dMax n True True) (psChild hs)"
    using removed_by_find [where E = E and kids = "psChild hs" and dMin = dMin and dMax = dMax
        and n = n and bIncl = 1 and bApprox = 1] by simp
  show ?thesis
  proof (cases "find_hist E (psChild hs) 0 dMin dMax n 1 1")
    case None
    with rm have r: "remove_first (spec_candidate E dMin dMax n True True) (psChild hs) = psChild hs"
      by simp
    show ?thesis
      by (simp add: SetDefaultHistogram_def Let_def init PamFindMatchingHistogram_def Some None r
        PamHistogramToXMLTree_eq MarkPamDirty_def)
  next
    case (Some i)
    with rm have r: "remove_first (spec_candidate E dMin dMax n True True) (psChild hs)
        = take i (psChild hs) @ drop (Suc i) (psChild hs)"
      by simp
    show ?thesis
      by (simp add: SetDefaultHistogram_def Let_def init PamFindMatchingHistogram_def \<open>psSavedHistograms p = Some hs\<close> Some r
        PamHistogramToXMLTree_eq MarkPamDirty_def CPLRemoveXMLChild_def)
  qed
qed


subsection \<open>The default histogram\<close>

text \<open>
  Claim C3, amended. On a band with an overlay record, \<^verbatim>\<open>SetDefaultHistogram\<close> first
  removes the first item of the list that matches min, max and bucket count and whose
  out-of-range flag is set, whatever its approximate flag; an item stored without the
  values out of range is kept. Then, when the descriptor can be built (a bucket count of
  at most \<^verbatim>\<open>(INT_MAX - 10) / 12\<close> and memory for the text buffer), it builds a
  descriptor with the out-of-range flag set and the approximate flag clear, puts it in
  front of the list, so that it is the first element, marks the store dirty and returns
  success; when the descriptor cannot be built it returns failure, and leaves the list
  without the item it removed, nothing put in front and the store not marked dirty by the
  call. Hence a second call
  with the same min, max and bucket count, whose 16-digit texts read back equal within the
  tolerance, and other counts replaces the entry of the first call: the list is the new
  entry in front of the same remaining entries.
\<close>

theorem SetDefaultHistogram_replaces:
  assumes "psPam (PamInitialize E b) = Some p"
    and "kids = (case psSavedHistograms p of None \<Rightarrow> [] | Some hs \<Rightarrow> psChild hs)"
    and "rest = remove_first (spec_candidate E dMin dMax n True True) kids"
    and "ty = (case psSavedHistograms p of None \<Rightarrow> CXT_Element | Some hs \<Rightarrow> eType hs)"
    and "nm = (case psSavedHistograms p of None \<Rightarrow> ''Histograms'' | Some hs \<Rightarrow> pszValue hs)"
    and "item = (\<lambda>counts. HistItem_node (Printf_16g E dMin) (Printf_16g E dMax) (Printf_d n)
                   ''1'' ''0'' (join_counts (take (nat n) counts)))"
    and "built \<longleftrightarrow> n \<le> 178956969 \<and> VSIMalloc_ok E (nat ((22 * (n mod 2 ^ 64) + 10) mod 2 ^ 64))"
  shows
   "(built \<longrightarrow>
       SetDefaultHistogram E dMin dMax n h b =
         (Pam CE_None,
          MarkPamDirty ((PamInitialize E b)\<lparr>psPam := Some (p\<lparr>psSavedHistograms :=
             Some (CPLXMLNode ty nm (item h # rest))\<rparr>)\<rparr>))) \<and>
    (built \<and> poParentDS p \<and> poDS b \<noteq> None \<longrightarrow>
       pam_dirty (snd (SetDefaultHistogram E dMin dMax n h b))) \<and>
    (\<not> built \<longrightarrow>
       SetDefaultHistogram E dMin dMax n h b =
         (Pam CE_Failure,
          (PamInitialize E b)\<lparr>psPam := Some (p\<lparr>psSavedHistograms :=
             map_option (\<lambda>hs. CPLXMLNode (eType hs) (pszValue hs) rest) (psSavedHistograms p)\<rparr>)\<rparr>)) \<and>
    hd_includeOutOfRange (descriptor_of E (item h)) \<and>
    \<not> hd_approximate (descriptor_of E (item h)) \<and>
    (built \<and> - (2 ^ 31) \<le> n \<and>
     ARE_REAL_EQUAL E (CPLAtofM E (Printf_16g E dMin)) dMin \<and>
     ARE_REAL_EQUAL E (CPLAtofM E (Printf_16g E dMax)) dMax \<longrightarrow>
       map_option psSavedHistograms
         (psPam (snd (SetDefaultHistogram E dMin dMax n h2
                   (snd (SetDefaultHistogram E dMin dMax n h b)))))
       = Some (Some (CPLXMLNode ty nm (item h2 # rest))))"
proof -
  note r = SetDefaultHistogram_result [OF assms(1), of dMin dMax n, unfolded Let_def,
      folded assms(2), folded assms(3), folded assms(4) assms(5)]
  have one: "built \<Longrightarrow> SetDefaultHistogram E dMin dMax n h b =
         (Pam CE_None,
          MarkPamDirty ((PamInitialize E b)\<lparr>psPam := Some (p\<lparr>psSavedHistograms :=
             Some (CPLXMLNode ty nm (item h # rest))\<rparr>)\<rparr>))" for h
    using r [of h] by (simp add: assms(6,7))
  have dirty: "pam_dirty (snd (SetDefaultHistogram E dMin dMax n h b))"
    if "built" "poParentDS p" "poDS b \<noteq> None"
    using that by (auto simp: one MarkPamDirty_def pam_dirty_def)
  have fail: "\<not> built \<Longrightarrow> SetDefaultHistogram E dMin dMax n h b =
         (Pam CE_Failure,
          (PamInitialize E b)\<lparr>psPam := Some (p\<lparr>psSavedHistograms :=
             map_option (\<lambda>hs. CPLXMLNode (eType hs) (pszValue hs) rest) (psSavedHistograms p)\<rparr>)\<rparr>)"
    using r [of h] by (auto simp: assms(7))
  have d: "hd_includeOutOfRange (descriptor_of E (item h))" "\<not> hd_approximate (descriptor_of E (item h))"
    by (simp_all add: assms(6) descriptor_of_HistItem_node)
  have twice: "map_option psSavedHistograms
         (psPam (snd (SetDefaultHistogram E dMin dMax n h2
                   (snd (SetDefaultHistogram E dMin dMax n h b)))))
       = Some (Some (CPLXMLNode ty nm (item h2 # rest)))"
    if b: "built" and n: "- (2 ^ 31) \<le> n"
      and m1: "ARE_REAL_EQUAL E (CPLAtofM E (Printf_16g E dMin)) dMin"
      and m2: "ARE_REAL_EQUAL E (CPLAtofM E (Printf_16g E dMax)) dMax"
  proof -
    let ?p1 = "p\<lparr>psSavedHistograms := Some (CPLXMLNode ty nm (item h # rest))\<rparr>"
    let ?b1 = "snd (SetDefaultHistogram E dMin dMax n h b)"
    have b1: "?b1 = MarkPamDirty ((PamInitialize E b)\<lparr>psPam := Some ?p1\<rparr>)"
      by (simp add: one [OF b])
    have init1: "psPam (PamInitialize E ?b1) = Some ?p1"
      by (rule PamInitialize_again_eq [OF assms(1)])
         (simp_all add: b1 poDS_MarkPamDirty_dirty)
    have n2: "n < 2 ^ 31" using b by (simp add: assms(7))
    have cand: "spec_candidate E dMin dMax n True True (item h)"
      by (simp add: spec_candidate_def spec_histogram_matches_def assms(6)
          descriptor_of_HistItem_node m1 m2 atoi_Printf_d [OF n n2])
    from SetDefaultHistogram_result [OF init1, of dMin dMax n h2] b
    show ?thesis
      by (simp add: Let_def assms(6,7) cand [unfolded assms(6)])
  qed
  from one dirty fail d twice show ?thesis by blast
qed

lemma add_after_end: "eType n \<noteq> CXT_Attribute \<Longrightarrow> add_after n kids = kids @ [n]"
  by (induction kids) simp_all

lemma eType_HistItem_node [simp]: "eType (HistItem_node a b c d e f) = CXT_Element"
  by (simp add: HistItem_node_def)

lemma PamParseHistogram_out:
  "fst (snd (PamParseHistogram E (Some h) w)) =
      Some (CPLAtofM E (CPLGetXMLValueD h [''HistMin''] ''0''),
            CPLAtofM E (CPLGetXMLValueD h [''HistMax''] ''1''),
            atoi (CPLGetXMLValueD h [''BucketCount''] ''2''))"
  by (simp add: PamParseHistogram_def Let_def)

lemma GetHistogram_native_eq:
  assumes "GDALRasterBand_GetHistogram E dMin dMax n (bIncl \<noteq> 0) (bApprox \<noteq> 0) = (eErr, hist)"
    and "psSavedHistograms p = Some hs"
  shows "GetHistogram_native E dMin dMax n bIncl bApprox p b =
     (if eErr \<noteq> CE_None \<or> n > 178956969 \<or> \<not> VSIMalloc_ok E (nat ((22 * (n mod 2 ^ 64) + 10) mod 2 ^ 64))
      then (Pam eErr, Some hist, b)
      else (Pam CE_None, Some hist,
            (MarkPamDirty b)\<lparr>psPam := Some (p\<lparr>psSavedHistograms := Some
              (CPLXMLNode (eType hs) (pszValue hs)
                 (psChild hs @ [HistItem_node (Printf_16g E dMin) (Printf_16g E dMax) (Printf_d n)
                    (Printf_d bIncl) (Printf_d bApprox) (join_counts (take (nat n) hist))]))\<rparr>)\<rparr>))"
  by (auto simp: GetHistogram_native_def assms PamHistogramToXMLTree_eq Let_def CPLAddXMLChild_def add_after_end)

lemma GetHistogram_decode_failure:
  assumes init: "psPam (PamInitialize E b) = Some p"
    and hs: "psSavedHistograms p = Some hs"
    and found: "PamFindMatchingHistogram E (Some hs) dMin dMax n bIncl bApprox = Some i"
    and fail: "\<not> fst (PamParseHistogram E (Some (psChild hs ! i)) True)"
  shows "GetHistogram E dMin dMax n bIncl bApprox b =
     GetHistogram_native E
       (CPLAtofM E (CPLGetXMLValueD (psChild hs ! i) [''HistMin''] ''0''))
       (CPLAtofM E (CPLGetXMLValueD (psChild hs ! i) [''HistMax''] ''1''))
       (atoi (CPLGetXMLValueD (psChild hs ! i) [''BucketCount''] ''2''))
       bIncl bApprox p
       ((PamInitialize E b)\<lparr>cpl_errors := cpl_errors (PamInitialize E b) @
           snd (snd (snd (PamParseHistogram E (Some (psChild hs ! i)) True)))\<rparr>)"
proof -
  obtain ok out ph errs where pp: "PamParseHistogram E (Some (psChild hs ! i)) True = (ok, out, ph, errs)"
    by (metis prod_cases4)
  from fail pp have ok: "\<not> ok" by simp
  from PamParseHistogram_out [of E "psChild hs ! i" True] pp
  have out: "out = Some (CPLAtofM E (CPLGetXMLValueD (psChild hs ! i) [''HistMin''] ''0''),
            CPLAtofM E (CPLGetXMLValueD (psChild hs ! i) [''HistMax''] ''1''),
            atoi (CPLGetXMLValueD (psChild hs ! i) [''BucketCount''] ''2''))" by simp
  show ?thesis
    using found by (simp add: GetHistogram_def Let_def init hs pp ok out)
qed

subsection \<open>A cached histogram that does not decode\<close>

text \<open>
  Claim C9, amended. When \<^verbatim>\<open>GetHistogram\<close>, on a band with an overlay record, finds a
  cached item that matches the query and the decoding of that item fails, it does not
  return that failure: it calls the native computation, with the min, the max and the
  bucket count read from the item, and returns the status of that computation. On native
  success it stores the fresh histogram as a new descriptor at the end of the list and
  marks the store dirty, provided the descriptor can be built (a bucket count of at most
  \<^verbatim>\<open>(INT_MAX - 10) / 12\<close> and memory for the text buffer); when it cannot be built,
  and when the native computation fails, the record stays as it was.
\<close>

theorem GetHistogram_decode_failure_falls_through:
  assumes "psPam (PamInitialize E b) = Some p"
    and "psSavedHistograms p = Some hs"
    and "PamFindMatchingHistogram E (Some hs) dMin dMax n bIncl bApprox = Some i"
    and "item = psChild hs ! i"
    and "\<not> fst (PamParseHistogram E (Some item) True)"
    and "dMin' = CPLAtofM E (CPLGetXMLValueD item [''HistMin''] ''0'')"
    and "dMax' = CPLAtofM E (CPLGetXMLValueD item [''HistMax''] ''1'')"
    and "n' = atoi (CPLGetXMLValueD item [''BucketCount''] ''2'')"
    and "GDALRasterBand_GetHistogram E dMin' dMax' n' (bIncl \<noteq> 0) (bApprox \<noteq> 0) = (eErr, hist)"
    and "built \<longleftrightarrow> n' \<le> 178956969 \<and> VSIMalloc_ok E (nat ((22 * (n' mod 2 ^ 64) + 10) mod 2 ^ 64))"
    and "r = GetHistogram E dMin dMax n bIncl bApprox b"
  shows
   "fst r = Pam eErr \<and> fst (snd r) = Some hist \<and>
    (eErr = CE_None \<and> built \<longrightarrow>
       psPam (snd (snd r)) = Some (p\<lparr>psSavedHistograms := Some
         (CPLXMLNode (eType hs) (pszValue hs)
            (psChild hs @ [HistItem_node (Printf_16g E dMin') (Printf_16g E dMax') (Printf_d n')
               (Printf_d bIncl) (Printf_d bApprox) (join_counts (take (nat n') hist))]))\<rparr>) \<and>
       (poParentDS p \<and> poDS b \<noteq> None \<longrightarrow> pam_dirty (snd (snd r)))) \<and>
    (eErr \<noteq> CE_None \<or> \<not> built \<longrightarrow> psPam (snd (snd r)) = Some p)"
proof -
  have r: "r = GetHistogram_native E dMin' dMax' n' bIncl bApprox p
       ((PamInitialize E b)\<lparr>cpl_errors := cpl_errors (PamInitialize E b) @
           snd (snd (snd (PamParseHistogram E (Some item) True)))\<rparr>)"
    unfolding assms(11) assms(6,7,8) assms(4)
    by (rule GetHistogram_decode_failure [OF assms(1,2,3) assms(5) [unfolded assms(4)]])
  show ?thesis
    unfolding r GetHistogram_native_eq [OF assms(9) assms(2)]
    using assms(1) by (auto simp: assms(10) MarkPamDirty_def pam_dirty_def)
qed

lemma d_eq_demo [simp]:
  "d_eq 0 0" "d_eq 0x406FE00000000000 0x406FE00000000000"
  by (simp_all add: d_eq_def CPLIsNan_def)

lemma demo_Printf_u [simp]:
  "Printf_u 7 = ''7''" "Printf_u 8 = ''8''" "Printf_u 9 = ''9''" "Printf_u 10 = ''10''"
  "Printf_u 11 = ''11''" "Printf_d 2 = ''2''"
  by code_simp+

lemma demo_replicate [simp]: "replicate 2 x = [x, x]"
  by (simp add: numeral_2_eq_2)

lemma demo_linked [simp]:
  "PamInitialize E (demo_band\<lparr>psPam := Some (demo_record\<lparr>psSavedHistograms := x\<rparr>)\<rparr>)
     = demo_band\<lparr>psPam := Some (demo_record\<lparr>psSavedHistograms := x\<rparr>)\<rparr>"
  by (rule PamInitialize_linked [where p = "demo_record\<lparr>psSavedHistograms := x\<rparr>"]) simp_all

lemma demo_candidates [simp]:
  "\<not> spec_candidate demo_env 0 0x406FE00000000000 2 True a (HistItem_node ''0'' ''255'' ''2'' ''0'' f c)"
  "spec_candidate demo_env 0 0x406FE00000000000 2 True True (HistItem_node ''0'' ''255'' ''2'' ''1'' ''1'' c)"
  "\<not> spec_candidate demo_env 0 0x406FE00000000000 2 True False (HistItem_node ''0'' ''255'' ''2'' ''1'' ''1'' c)"
  "spec_candidate demo_env 0 0x406FE00000000000 2 True False (HistItem_node ''0'' ''255'' ''2'' ''1'' ''0'' c)"
  by (simp_all add: spec_candidate_def spec_histogram_matches_def descriptor_of_HistItem_node)

theorem SetDefaultHistogram_replaces_witness:
  "fst (SetDefaultHistogram demo_env 0 0x406FE00000000000 2 [8, 9] demo_band_hists) = Pam CE_None \<and>
   map_option psSavedHistograms
     (psPam (snd (SetDefaultHistogram demo_env 0 0x406FE00000000000 2 [8, 9] demo_band_hists)))
     = Some (Some (CPLXMLNode CXT_Element ''Histograms''
         [HistItem_node ''0'' ''255'' ''2'' ''1'' ''0'' ''8|9'',
          HistItem_node ''0'' ''255'' ''2'' ''0'' ''1'' ''3|4''])) \<and>
   pam_dirty (snd (SetDefaultHistogram demo_env 0 0x406FE00000000000 2 [8, 9] demo_band_hists)) \<and>
   map_option psSavedHistograms
     (psPam (snd (SetDefaultHistogram demo_env 0 0x406FE00000000000 2 [10, 11]
        (snd (SetDefaultHistogram demo_env 0 0x406FE00000000000 2 [8, 9] demo_band_hists)))))
     = Some (Some (CPLXMLNode CXT_Element ''Histograms''
         [HistItem_node ''0'' ''255'' ''2'' ''1'' ''0'' ''10|11'',
          HistItem_node ''0'' ''255'' ''2'' ''0'' ''1'' ''3|4''])) \<and>
   SetDefaultHistogram demo_env_no_memory 0 0x406FE00000000000 2 [8, 9] demo_band_hists =
     (Pam CE_Failure,
      demo_band\<lparr>psPam := Some (demo_record\<lparr>psSavedHistograms := Some
        (CPLXMLNode CXT_Element ''Histograms''
           [HistItem_node ''0'' ''255'' ''2'' ''0'' ''1'' ''3|4''])\<rparr>)\<rparr>)"
proof -
  let ?hs = "CPLXMLNode CXT_Element ''Histograms''
          [HistItem_node ''0'' ''255'' ''2'' ''0'' ''1'' ''3|4'',
           HistItem_node ''0'' ''255'' ''2'' ''1'' ''1'' ''5|6'']"
  let ?p = "demo_record\<lparr>psSavedHistograms := Some ?hs\<rparr>"
  have init: "psPam (PamInitialize demo_env demo_band_hists) = Some ?p"
    by (simp add: demo_band_hists_def)
  have ds: "poParentDS ?p \<and> poDS demo_band_hists \<noteq> None"
    by (simp add: demo_band_hists_def demo_band_def)
  note t = SetDefaultHistogram_replaces [OF init refl refl refl refl refl refl,
      where dMin = 0 and dMax = "0x406FE00000000000" and n = 2 and h = "[8, 9]" and ?h2.0 = "[10, 11]"]
  have built: "(2::int) \<le> 178956969 \<and>
      VSIMalloc_ok demo_env (nat ((22 * (2 mod 2 ^ 64) + 10) mod 2 ^ 64))" by simp
  have m: "- (2 ^ 31) \<le> (2::int) \<and>
     ARE_REAL_EQUAL demo_env (CPLAtofM demo_env (Printf_16g demo_env 0)) 0 \<and>
     ARE_REAL_EQUAL demo_env (CPLAtofM demo_env (Printf_16g demo_env 0x406FE00000000000))
       0x406FE00000000000" by simp
  from t [THEN conjunct1, rule_format, OF built]
  have 1: "fst (SetDefaultHistogram demo_env 0 0x406FE00000000000 2 [8, 9] demo_band_hists) = Pam CE_None"
    and 2: "map_option psSavedHistograms
     (psPam (snd (SetDefaultHistogram demo_env 0 0x406FE00000000000 2 [8, 9] demo_band_hists)))
     = Some (Some (CPLXMLNode CXT_Element ''Histograms''
         [HistItem_node ''0'' ''255'' ''2'' ''1'' ''0'' ''8|9'',
          HistItem_node ''0'' ''255'' ''2'' ''0'' ''1'' ''3|4'']))"
    by simp_all
  from t [THEN conjunct2, THEN conjunct1, rule_format, OF conjI [OF built ds]]
  have 3: "pam_dirty (snd (SetDefaultHistogram demo_env 0 0x406FE00000000000 2 [8, 9] demo_band_hists))" .
  from t [THEN conjunct2, THEN conjunct2, THEN conjunct2, THEN conjunct2, THEN conjunct2,
      rule_format, OF conjI [OF built m]]
  have 4: "map_option psSavedHistograms
     (psPam (snd (SetDefaultHistogram demo_env 0 0x406FE00000000000 2 [10, 11]
        (snd (SetDefaultHistogram demo_env 0 0x406FE00000000000 2 [8, 9] demo_band_hists)))))
     = Some (Some (CPLXMLNode CXT_Element ''Histograms''
         [HistItem_node ''0'' ''255'' ''2'' ''1'' ''0'' ''10|11'',
          HistItem_node ''0'' ''255'' ''2'' ''0'' ''1'' ''3|4'']))"
    by simp
  have init': "psPam (PamInitialize demo_env_no_memory demo_band_hists) = Some ?p"
    by (simp add: demo_band_hists_def PamInitialize_def)
  have nb: "\<not> ((2::int) \<le> 178956969 \<and>
      VSIMalloc_ok demo_env_no_memory (nat ((22 * (2 mod 2 ^ 64) + 10) mod 2 ^ 64)))" by simp
  have c: "\<not> spec_candidate demo_env_no_memory 0 0x406FE00000000000 2 True True
        (HistItem_node ''0'' ''255'' ''2'' ''0'' ''1'' ''3|4'')"
    "spec_candidate demo_env_no_memory 0 0x406FE00000000000 2 True True
        (HistItem_node ''0'' ''255'' ''2'' ''1'' ''1'' ''5|6'')"
    by (simp_all add: spec_candidate_def spec_histogram_matches_def descriptor_of_HistItem_node)
  from SetDefaultHistogram_replaces [OF init' refl refl refl refl refl refl,
      where dMin = 0 and dMax = "0x406FE00000000000" and n = 2 and h = "[8, 9]",
      THEN conjunct2, THEN conjunct2, THEN conjunct1, rule_format, OF nb]
  have 5: "SetDefaultHistogram demo_env_no_memory 0 0x406FE00000000000 2 [8, 9] demo_band_hists =
     (Pam CE_Failure,
      demo_band\<lparr>psPam := Some (demo_record\<lparr>psSavedHistograms := Some
        (CPLXMLNode CXT_Element ''Histograms''
           [HistItem_node ''0'' ''255'' ''2'' ''0'' ''1'' ''3|4''])\<rparr>)\<rparr>)"
    by (simp add: c PamInitialize_def demo_band_hists_def)
  from 1 2 3 4 5 show ?thesis by blast
qed

text \<open>
  The claim as stated fails for a candidate stored without the values out of range: it
  matches min, max and bucket count, and stays in the list behind the new entry.
\<close>

theorem SetDefaultHistogram_replaces_counterexample:
  "ARE_REAL_EQUAL demo_env
     (hd_min (descriptor_of demo_env (HistItem_node ''0'' ''255'' ''2'' ''0'' ''0'' ''3|4''))) 0 \<and>
   ARE_REAL_EQUAL demo_env
     (hd_max (descriptor_of demo_env (HistItem_node ''0'' ''255'' ''2'' ''0'' ''0'' ''3|4'')))
     0x406FE00000000000 \<and>
   hd_bucketCount (descriptor_of demo_env (HistItem_node ''0'' ''255'' ''2'' ''0'' ''0'' ''3|4'')) = 2 \<and>
   map_option psSavedHistograms
     (psPam (snd (SetDefaultHistogram demo_env 0 0x406FE00000000000 2 [8, 9] demo_band_hist0)))
     = Some (Some (CPLXMLNode CXT_Element ''Histograms''
         [HistItem_node ''0'' ''255'' ''2'' ''1'' ''0'' ''8|9'',
          HistItem_node ''0'' ''255'' ''2'' ''0'' ''0'' ''3|4'']))"
proof -
  let ?hs = "CPLXMLNode CXT_Element ''Histograms'' [HistItem_node ''0'' ''255'' ''2'' ''0'' ''0'' ''3|4'']"
  let ?p = "demo_record\<lparr>psSavedHistograms := Some ?hs\<rparr>"
  have init: "psPam (PamInitialize demo_env demo_band_hist0) = Some ?p"
    by (simp add: demo_band_hist0_def)
  from SetDefaultHistogram_result [OF init, where dMin = 0 and dMax = "0x406FE00000000000"
      and n = 2 and h = "[8, 9]"]
  show ?thesis by (simp add: Let_def descriptor_of_HistItem_node)
qed

theorem PamFindMatchingHistogram_first_match_witness:
  "PamFindMatchingHistogram demo_env
     (Some (CPLXMLNode CXT_Element ''Histograms''
          [HistItem_node ''0'' ''255'' ''2'' ''0'' ''1'' ''3|4'',
           HistItem_node ''0'' ''255'' ''2'' ''1'' ''1'' ''5|6'']))
     0 0x406FE00000000000 2 1 1 = Some 1 \<and>
   PamFindMatchingHistogram demo_env
     (Some (CPLXMLNode CXT_Element ''Histograms''
          [HistItem_node ''0'' ''255'' ''2'' ''0'' ''1'' ''3|4'',
           HistItem_node ''0'' ''255'' ''2'' ''1'' ''1'' ''5|6'']))
     0 0x406FE00000000000 2 1 0 = None"
proof -
  let ?hs = "CPLXMLNode CXT_Element ''Histograms''
          [HistItem_node ''0'' ''255'' ''2'' ''0'' ''1'' ''3|4'',
           HistItem_node ''0'' ''255'' ''2'' ''1'' ''1'' ''5|6'']"
  note c = demo_candidates [unfolded spec_candidate_def, simplified]
  have 1: "PamFindMatchingHistogram demo_env (Some ?hs) 0 0x406FE00000000000 2 1 1 = Some 1"
    using PamFindMatchingHistogram_first_match [of demo_env 0 "0x406FE00000000000" 2 1 1 ?hs 1] c
    by simp
  have 2: "PamFindMatchingHistogram demo_env (Some ?hs) 0 0x406FE00000000000 2 1 0 = None"
    using PamFindMatchingHistogram_first_match [of demo_env 0 "0x406FE00000000000" 2 1 0 ?hs 0] c
    by simp
  from 1 2 show ?thesis by simp
qed

lemma atoi_200000000 [simp]: "atoi ''200000000'' = 200000000"
  by (simp add: atoi_def strtoll_def strto_parse_def isspace_c_def isdigit_c_def
      signed_take_bit_int_eq_self)

lemma demo_native [simp]:
  "GDALRasterBand_GetHistogram demo_env a c n i j = (CE_None, replicate (nat n) 7)"
  by (simp add: demo_env_def demo_GetHistogram_def)

lemma demo_found_short:
  "PamFindMatchingHistogram demo_env
     (Some (CPLXMLNode CXT_Element ''Histograms'' [HistItem_node ''0'' ''255'' ''2'' ''1'' ''0'' ''34'']))
     0 0x406FE00000000000 2 1 0 = Some 0"
  by (simp add: PamFindMatchingHistogram_def hist_mismatch_def Let_def HistItem_node_values)

lemma demo_found_huge:
  "PamFindMatchingHistogram demo_env
     (Some (CPLXMLNode CXT_Element ''Histograms'' [HistItem_node ''0'' ''255'' ''200000000'' ''1'' ''0'' ''34'']))
     0 0x406FE00000000000 200000000 1 0 = Some 0"
  by (simp add: PamFindMatchingHistogram_def hist_mismatch_def Let_def HistItem_node_values)

lemma demo_parse_short:
  "PamParseHistogram demo_env (Some (HistItem_node ''0'' ''255'' ''2'' ''1'' ''0'' ''34'')) True
     = (False, Some (0, 0x406FE00000000000, 2), None, [(CE_Failure, CPLE_AppDefined)])"
  by (simp add: PamParseHistogram_def Let_def HistItem_node_values INT_MAX_def)

lemma demo_parse_huge:
  "PamParseHistogram demo_env (Some (HistItem_node ''0'' ''255'' ''200000000'' ''1'' ''0'' ''34'')) True
     = (False, Some (0, 0x406FE00000000000, 200000000), None, [(CE_Failure, CPLE_AppDefined)])"
  by (simp add: PamParseHistogram_def Let_def HistItem_node_values INT_MAX_def)

theorem GetHistogram_decode_failure_falls_through_witness:
  "PamFindMatchingHistogram demo_env
     (Some (CPLXMLNode CXT_Element ''Histograms'' [HistItem_node ''0'' ''255'' ''2'' ''1'' ''0'' ''34'']))
     0 0x406FE00000000000 2 1 0 = Some 0 \<and>
   \<not> fst (PamParseHistogram demo_env (Some (HistItem_node ''0'' ''255'' ''2'' ''1'' ''0'' ''34'')) True) \<and>
   fst (GetHistogram demo_env 0 0x406FE00000000000 2 1 0 demo_band_short) = Pam CE_None \<and>
   fst (snd (GetHistogram demo_env 0 0x406FE00000000000 2 1 0 demo_band_short)) = Some [7, 7] \<and>
   map_option psSavedHistograms
     (psPam (snd (snd (GetHistogram demo_env 0 0x406FE00000000000 2 1 0 demo_band_short))))
     = Some (Some (CPLXMLNode CXT_Element ''Histograms''
         [HistItem_node ''0'' ''255'' ''2'' ''1'' ''0'' ''34'',
          HistItem_node ''0'' ''255'' ''2'' ''1'' ''0'' ''7|7''])) \<and>
   pam_dirty (snd (snd (GetHistogram demo_env 0 0x406FE00000000000 2 1 0 demo_band_short)))"
proof -
  let ?item = "HistItem_node ''0'' ''255'' ''2'' ''1'' ''0'' ''34''"
  let ?hs = "CPLXMLNode CXT_Element ''Histograms'' [?item]"
  let ?p = "demo_record\<lparr>psSavedHistograms := Some ?hs\<rparr>"
  have init: "psPam (PamInitialize demo_env demo_band_short) = Some ?p"
    by (simp add: demo_band_short_def)
  have hs: "psSavedHistograms ?p = Some ?hs" by simp
  have item: "?item = psChild ?hs ! 0" by simp
  have fail: "\<not> fst (PamParseHistogram demo_env (Some ?item) True)"
    by (simp add: demo_parse_short)
  have nat: "GDALRasterBand_GetHistogram demo_env
      (CPLAtofM demo_env (CPLGetXMLValueD ?item [''HistMin''] ''0''))
      (CPLAtofM demo_env (CPLGetXMLValueD ?item [''HistMax''] ''1''))
      (atoi (CPLGetXMLValueD ?item [''BucketCount''] ''2'')) (1 \<noteq> (0::int)) (0 \<noteq> (0::int))
      = (CE_None, [7, 7])"
    by (simp add: HistItem_node_values)
  have ds: "poParentDS ?p \<and> poDS demo_band_short \<noteq> None"
    by (simp add: demo_band_short_def demo_band_def)
  note t = GetHistogram_decode_failure_falls_through
    [OF init hs demo_found_short item fail refl refl refl nat refl refl]
  have built: "CE_None = CE_None \<and> (atoi (CPLGetXMLValueD ?item [''BucketCount''] ''2'') \<le> 178956969 \<and>
      VSIMalloc_ok demo_env (nat ((22 * (atoi (CPLGetXMLValueD ?item [''BucketCount''] ''2'') mod 2 ^ 64) + 10) mod 2 ^ 64)))"
    by (simp add: HistItem_node_values)
  from t [THEN conjunct1]
  have 1: "fst (GetHistogram demo_env 0 0x406FE00000000000 2 1 0 demo_band_short) = Pam CE_None" .
  from t [THEN conjunct2, THEN conjunct1]
  have 2: "fst (snd (GetHistogram demo_env 0 0x406FE00000000000 2 1 0 demo_band_short)) = Some [7, 7]" .
  from t [THEN conjunct2, THEN conjunct2, THEN conjunct1, rule_format, OF built]
  have 3: "map_option psSavedHistograms
     (psPam (snd (snd (GetHistogram demo_env 0 0x406FE00000000000 2 1 0 demo_band_short))))
     = Some (Some (CPLXMLNode CXT_Element ''Histograms''
         [?item, HistItem_node ''0'' ''255'' ''2'' ''1'' ''0'' ''7|7'']))"
    and 4: "pam_dirty (snd (snd (GetHistogram demo_env 0 0x406FE00000000000 2 1 0 demo_band_short)))"
    using ds by (simp_all add: HistItem_node_values)
  from demo_found_short fail 1 2 3 4 show ?thesis by blast
qed

text \<open>
  The claim as stated fails for a cached item of two hundred million buckets: the native
  computation succeeds, \<^verbatim>\<open>GetHistogram\<close> returns success, and nothing is stored.
\<close>

theorem GetHistogram_decode_failure_falls_through_counterexample:
  "PamFindMatchingHistogram demo_env
     (Some (CPLXMLNode CXT_Element ''Histograms''
        [HistItem_node ''0'' ''255'' ''200000000'' ''1'' ''0'' ''34'']))
     0 0x406FE00000000000 200000000 1 0 = Some 0 \<and>
   \<not> fst (PamParseHistogram demo_env
       (Some (HistItem_node ''0'' ''255'' ''200000000'' ''1'' ''0'' ''34'')) True) \<and>
   fst (GDALRasterBand_GetHistogram demo_env 0 0x406FE00000000000 200000000 True False) = CE_None \<and>
   fst (GetHistogram demo_env 0 0x406FE00000000000 200000000 1 0 demo_band_huge) = Pam CE_None \<and>
   map_option psSavedHistograms
     (psPam (snd (snd (GetHistogram demo_env 0 0x406FE00000000000 200000000 1 0 demo_band_huge))))
     = Some (Some (CPLXMLNode CXT_Element ''Histograms''
         [HistItem_node ''0'' ''255'' ''200000000'' ''1'' ''0'' ''34'']))"
proof -
  let ?item = "HistItem_node ''0'' ''255'' ''200000000'' ''1'' ''0'' ''34''"
  let ?hs = "CPLXMLNode CXT_Element ''Histograms'' [?item]"
  let ?p = "demo_record\<lparr>psSavedHistograms := Some ?hs\<rparr>"
  have init: "psPam (PamInitialize demo_env demo_band_huge) = Some ?p"
    by (simp add: demo_band_huge_def)
  have hs: "psSavedHistograms ?p = Some ?hs" by simp
  have fail: "\<not> fst (PamParseHistogram demo_env (Some (psChild ?hs ! 0)) True)"
    by (simp add: demo_parse_huge)
  have nat: "GDALRasterBand_GetHistogram demo_env a c 200000000 (1 \<noteq> (0::int)) (0 \<noteq> (0::int))
      = (CE_None, snd (demo_GetHistogram a c 200000000 True False))" for a c
    by (simp add: demo_env_def demo_GetHistogram_def del: demo_native)
  have g: "GetHistogram demo_env 0 0x406FE00000000000 200000000 1 0 demo_band_huge
     = (Pam CE_None, Some (snd (demo_GetHistogram 0 0x406FE00000000000 200000000 True False)),
        (PamInitialize demo_env demo_band_huge)\<lparr>cpl_errors :=
           cpl_errors (PamInitialize demo_env demo_band_huge) @ [(CE_Failure, CPLE_AppDefined)]\<rparr>)"
    unfolding GetHistogram_decode_failure [OF init hs demo_found_huge fail]
    by (simp add: GetHistogram_native_eq [OF nat hs] HistItem_node_values demo_parse_huge
        del: demo_native)
  have n: "fst (GDALRasterBand_GetHistogram demo_env 0 0x406FE00000000000 200000000 True False) = CE_None"
    by (simp add: demo_env_def demo_GetHistogram_def del: demo_native)
  from fail have f: "\<not> fst (PamParseHistogram demo_env (Some ?item) True)" by simp
  show ?thesis
    unfolding g using demo_found_huge f n by (simp add: init del: demo_native)
qed

subsection \<open>Deserialisation, call by call\<close>

text \<open>
  Every setter, on a band that has an overlay record, changes that record by a function
  of the record alone, and leaves the rest of the band as it was; \<^verbatim>\<open>XMLInit\<close> is the
  composition of these functions, block by block.
\<close>

lemma same_store_refl [simp]: "same_store b b"
  by (simp add: same_store_def)

lemma same_store_trans: "same_store b'' b' \<Longrightarrow> same_store b' b \<Longrightarrow> same_store b'' b"
  by (simp add: same_store_def)

lemma same_store_PamInitialize [simp]: "same_store (PamInitialize E b') b = same_store b' b"
  by (simp add: same_store_def)

lemma same_store_MarkPamDirty [simp]: "same_store (MarkPamDirty b') b = same_store b' b"
  by (simp add: same_store_def poDS_MarkPamDirty_dirty)

lemma same_store_updates [simp]:
  "same_store (b'\<lparr>psPam := x\<rparr>) b = same_store b' b"
  "same_store (b'\<lparr>cpl_errors := e\<rparr>) b = same_store b' b"
  "same_store (b'\<lparr>sDescription := d\<rparr>) b = same_store b' b"
  "same_store (b'\<lparr>oMDMD := m\<rparr>) b = same_store b' b"
  by (simp_all add: same_store_def)

lemma same_store_right [simp]:
  "same_store b' (PamInitialize E b) = same_store b' b"
  "same_store b' (MarkPamDirty b) = same_store b' b"
  "same_store b' (b\<lparr>psPam := x\<rparr>) = same_store b' b"
  "same_store b' (b\<lparr>cpl_errors := e\<rparr>) = same_store b' b"
  "same_store b' (b\<lparr>sDescription := d\<rparr>) = same_store b' b"
  "same_store b' (b\<lparr>oMDMD := m\<rparr>) = same_store b' b"
  by (simp_all add: same_store_def poDS_MarkPamDirty_dirty)

lemma initialised_PamInitialize:
  assumes "psPam (PamInitialize E b) \<noteq> None"
  shows "initialised E (PamInitialize E b)"
proof -
  from assms obtain p where p: "psPam (PamInitialize E b) = Some p" by auto
  have "psPam (PamInitialize E (PamInitialize E b)) = Some p"
    by (rule PamInitialize_again_eq [OF p p]) simp_all
  then show ?thesis by (simp add: initialised_def p)
qed

lemma initialised_step:
  assumes i: "initialised E b" and q: "psPam b = Some q" and q': "psPam b' = Some q'"
    and par: "poParentDS q' = poParentDS q" and st: "same_store b' b"
  shows "initialised E b'"
proof -
  from i q have p: "psPam (PamInitialize E b) = Some q" by (simp add: initialised_def)
  have "psPam (PamInitialize E b') = Some q'"
    by (rule PamInitialize_again_eq [OF p q' par]) (use st in \<open>simp add: same_store_def\<close>)
  then show ?thesis by (simp add: initialised_def q')
qed

lemma with_record_refl: "psPam b = Some q \<Longrightarrow> with_record b q b"
  by (simp add: with_record_def)

lemma PamInitialize_fields [simp]:
  "eDataType (PamInitialize E b) = eDataType b"
  "nBand (PamInitialize E b) = nBand b"
  "sDescription (PamInitialize E b) = sDescription b"
  "oMDMD (PamInitialize E b) = oMDMD b"
  by (simp_all add: PamInitialize_def CPLError_def split: option.splits)

lemma MarkPamDirty_fields [simp]:
  "eDataType (MarkPamDirty b) = eDataType b"
  "nBand (MarkPamDirty b) = nBand b"
  "sDescription (MarkPamDirty b) = sDescription b"
  "oMDMD (MarkPamDirty b) = oMDMD b"
  by (simp_all add: MarkPamDirty_def split: option.splits)

text \<open>the effect of a setter on an initialised band\<close>

lemma initialised_init:
  "initialised E b \<Longrightarrow> psPam b = Some q \<Longrightarrow> psPam (PamInitialize E b) = Some q"
  by (simp add: initialised_def)

lemma setter_frame:
  assumes i: "initialised E b" and q: "psPam b = Some q"
    and b': "psPam b' = Some q'" "poParentDS q' = poParentDS q"
      "eDataType b' = eDataType b" "nBand b' = nBand b" "sDescription b' = sDescription b"
      "oMDMD b' = oMDMD b" "same_store b' b"
  shows "with_record b q' b' \<and> initialised E b'"
  using initialised_step [OF i q b'(1,2) b'(7)] b' by (simp add: with_record_def)

lemma SetOffset_effect:
  assumes i: "initialised E b" and q: "psPam b = Some q"
  shows "with_record b (rec_SetOffset v q) (snd (SetOffset E v b))
         \<and> initialised E (snd (SetOffset E v b))"
  by (rule setter_frame [OF i q])
     (simp_all add: SetOffset_def Let_def initialised_init [OF i q] rec_SetOffset_def)

lemma SetScale_effect:
  assumes i: "initialised E b" and q: "psPam b = Some q"
  shows "with_record b (rec_SetScale v q) (snd (SetScale E v b))
         \<and> initialised E (snd (SetScale E v b))"
  by (rule setter_frame [OF i q])
     (simp_all add: SetScale_def Let_def initialised_init [OF i q] rec_SetScale_def)


lemma SetNoDataValue_effect:
  assumes i: "initialised E b" and q: "psPam b = Some q"
  shows "with_record b (rec_SetNoDataValue E v q) (snd (SetNoDataValue E v b))
         \<and> initialised E (snd (SetNoDataValue E v b))"
  by (rule setter_frame [OF i q])
     (auto simp: SetNoDataValue_def Let_def initialised_init [OF i q] ResetNoDataValues_def rec_SetNoDataValue_def rec_SetNoDataValueAsInt64_def rec_SetNoDataValueAsUInt64_def split: option.splits)

lemma SetNoDataValueAsInt64_effect:
  assumes i: "initialised E b" and q: "psPam b = Some q"
  shows "with_record b (rec_SetNoDataValueAsInt64 E v q) (snd (SetNoDataValueAsInt64 E v b))
         \<and> initialised E (snd (SetNoDataValueAsInt64 E v b))"
  by (rule setter_frame [OF i q])
     (auto simp: SetNoDataValueAsInt64_def Let_def initialised_init [OF i q] ResetNoDataValues_def rec_SetNoDataValue_def rec_SetNoDataValueAsInt64_def rec_SetNoDataValueAsUInt64_def split: option.splits)

lemma SetNoDataValueAsUInt64_effect:
  assumes i: "initialised E b" and q: "psPam b = Some q"
  shows "with_record b (rec_SetNoDataValueAsUInt64 E v q) (snd (SetNoDataValueAsUInt64 E v b))
         \<and> initialised E (snd (SetNoDataValueAsUInt64 E v b))"
  by (rule setter_frame [OF i q])
     (auto simp: SetNoDataValueAsUInt64_def Let_def initialised_init [OF i q] ResetNoDataValues_def rec_SetNoDataValue_def rec_SetNoDataValueAsInt64_def rec_SetNoDataValueAsUInt64_def split: option.splits)

lemma SetUnitType_effect:
  assumes i: "initialised E b" and q: "psPam b = Some q"
  shows "with_record b (q\<lparr>pszUnitType := unit_or_none u\<rparr>) (snd (SetUnitType E u b))
         \<and> initialised E (snd (SetUnitType E u b))"
  by (rule setter_frame [OF i q])
     (auto simp: SetUnitType_def Let_def initialised_init [OF i q] unit_or_none_def split: option.splits)

lemma SetColorInterpretation_effect:
  assumes i: "initialised E b" and q: "psPam b = Some q"
  shows "with_record b (q\<lparr>eColorInterp := ci\<rparr>) (snd (SetColorInterpretation E ci b))
         \<and> initialised E (snd (SetColorInterpretation E ci b))"
  by (rule setter_frame [OF i q])
     (auto simp: SetColorInterpretation_def Let_def initialised_init [OF i q]  split: option.splits)

lemma SetCategoryNames_effect:
  assumes i: "initialised E b" and q: "psPam b = Some q"
  shows "with_record b (q\<lparr>papszCategoryNames := CSLDuplicate ns\<rparr>) (snd (SetCategoryNames E ns b))
         \<and> initialised E (snd (SetCategoryNames E ns b))"
  by (rule setter_frame [OF i q])
     (auto simp: SetCategoryNames_def Let_def initialised_init [OF i q]  split: option.splits)

lemma SetColorTable_effect:
  assumes i: "initialised E b" and q: "psPam b = Some q"
  shows "with_record b (rec_SetColorTable t q) (snd (SetColorTable E t b))
         \<and> initialised E (snd (SetColorTable E t b))"
  by (rule setter_frame [OF i q])
     (auto simp: SetColorTable_def Let_def initialised_init [OF i q] rec_SetColorTable_def split: option.splits)

lemma with_record_trans:
  "with_record b q1 b1 \<Longrightarrow> with_record b1 q2 b2 \<Longrightarrow> with_record b q2 b2"
  by (auto simp: with_record_def intro: same_store_trans)

lemma with_record_psPam: "with_record b q b' \<Longrightarrow> psPam b' = Some q"
  by (simp add: with_record_def)

lemma with_psPam_effect:
  assumes i: "initialised E b" and q: "psPam b = Some q" and par: "poParentDS (f q) = poParentDS q"
  shows "\<exists>b'. with_psPam f b = Inr b' \<and> with_record b (f q) b' \<and> initialised E b'"
proof -
  have w: "with_psPam f b = Inr (b\<lparr>psPam := Some (f q)\<rparr>)" by (simp add: with_psPam_def q)
  have "with_record b (f q) (b\<lparr>psPam := Some (f q)\<rparr>) \<and> initialised E (b\<lparr>psPam := Some (f q)\<rparr>)"
    by (rule setter_frame [OF i q]) (simp_all add: par)
  with w show ?thesis by simp
qed

lemma keep_effect:
  "initialised E b \<Longrightarrow> psPam b = Some q \<Longrightarrow> with_record b q b \<and> initialised E b"
  by (simp add: with_record_refl)

lemma XMLInit_NoDataValue_effect:
  assumes i: "initialised E b" and q: "psPam b = Some q"
  shows "with_record b (rec_NoDataValue E t (eDataType b) q) (XMLInit_NoDataValue E t b)
         \<and> initialised E (XMLInit_NoDataValue E t b)"
  unfolding XMLInit_NoDataValue_def rec_NoDataValue_def Let_def
  by (simp add: keep_effect [OF i q] SetNoDataValue_effect [OF i q]
      SetNoDataValueAsInt64_effect [OF i q] SetNoDataValueAsUInt64_effect [OF i q]
      split: option.split)

lemma XMLInit_OffsetScale_effect:
  assumes i: "initialised E b" and q: "psPam b = Some q"
  shows "with_record b (rec_OffsetScale E t q) (XMLInit_OffsetScale E t b)
         \<and> initialised E (XMLInit_OffsetScale E t b)"
proof (cases "CPLGetXMLValue t [''Offset''] None \<noteq> None \<or> CPLGetXMLValue t [''Scale''] None \<noteq> None")
  case False
  then show ?thesis
    by (simp add: XMLInit_OffsetScale_def rec_OffsetScale_def keep_effect [OF i q])
next
  case True
  let ?vo = "case CPLGetXMLValue t [''Offset''] None of Some s \<Rightarrow> CPLAtof E s | None \<Rightarrow> d_0"
  let ?vs = "case CPLGetXMLValue t [''Scale''] None of Some s \<Rightarrow> CPLAtof E s | None \<Rightarrow> d_1"
  let ?b1 = "snd (SetOffset E ?vo b)"
  note 1 = SetOffset_effect [OF i q, of ?vo]
  note 2 = SetScale_effect [OF 1 [THEN conjunct2] with_record_psPam [OF 1 [THEN conjunct1]], of ?vs]
  have "with_record b (rec_SetScale ?vs (rec_SetOffset ?vo q)) (snd (SetScale E ?vs ?b1))"
    by (rule with_record_trans [OF 1 [THEN conjunct1] 2 [THEN conjunct1]])
  with 2 True show ?thesis
    by (simp add: XMLInit_OffsetScale_def rec_OffsetScale_def Let_def)
qed

lemma XMLInit_UnitType_effect:
  assumes i: "initialised E b" and q: "psPam b = Some q"
  shows "with_record b (rec_UnitType t q) (XMLInit_UnitType E t b)
         \<and> initialised E (XMLInit_UnitType E t b)"
  unfolding XMLInit_UnitType_def rec_UnitType_def
  by (simp add: keep_effect [OF i q] SetUnitType_effect [OF i q] split: option.split)

lemma XMLInit_ColorInterp_effect:
  assumes i: "initialised E b" and q: "psPam b = Some q"
  shows "with_record b (rec_ColorInterp E t q) (XMLInit_ColorInterp E t b)
         \<and> initialised E (XMLInit_ColorInterp E t b)"
  unfolding XMLInit_ColorInterp_def rec_ColorInterp_def
  by (simp add: keep_effect [OF i q] SetColorInterpretation_effect [OF i q] split: option.split)

lemma XMLInit_CategoryNames_effect:
  assumes i: "initialised E b" and q: "psPam b = Some q"
  shows "with_record b (rec_CategoryNames t q) (XMLInit_CategoryNames E t b)
         \<and> initialised E (XMLInit_CategoryNames E t b)"
  unfolding XMLInit_CategoryNames_def rec_CategoryNames_def Let_def
  by (simp add: keep_effect [OF i q] SetCategoryNames_effect [OF i q] split: option.split)

lemma XMLInit_ColorTable_effect:
  assumes i: "initialised E b" and q: "psPam b = Some q"
  shows "with_record b (rec_ColorTable t q) (XMLInit_ColorTable E t b)
         \<and> initialised E (XMLInit_ColorTable E t b)"
  unfolding XMLInit_ColorTable_def rec_ColorTable_def Let_def
  by (simp add: keep_effect [OF i q] SetColorTable_effect [OF i q] split: option.split)

lemma XMLInit_MinMax_effect:
  assumes i: "initialised E b" and q: "psPam b = Some q"
  shows "\<exists>b'. XMLInit_MinMax E t b = Inr b' \<and> with_record b (rec_MinMax E t q) b' \<and> initialised E b'"
proof (cases "CPLGetXMLValue t [''Minimum''] None")
  case None
  then show ?thesis by (simp add: XMLInit_MinMax_def rec_MinMax_def keep_effect [OF i q])
next
  case (Some mn)
  show ?thesis
  proof (cases "CPLGetXMLValue t [''Maximum''] None")
    case None
    then show ?thesis by (simp add: XMLInit_MinMax_def rec_MinMax_def Some keep_effect [OF i q])
  next
    case (Some mx)
    from with_psPam_effect [OF i q, of "\<lambda>p. p\<lparr>bHaveMinMax := True, dfMin := CPLAtofM E mn,
        dfMax := CPLAtofM E mx\<rparr>"]
    show ?thesis by (simp add: XMLInit_MinMax_def rec_MinMax_def Some \<open>CPLGetXMLValue t [''Minimum''] None = Some mn\<close>)
  qed
qed

lemma XMLInit_Stats_effect:
  assumes i: "initialised E b" and q: "psPam b = Some q"
  shows "\<exists>b'. XMLInit_Stats E t b = Inr b' \<and> with_record b (rec_Stats E t q) b' \<and> initialised E b'"
proof (cases "CPLGetXMLValue t [''Mean''] None")
  case None
  then show ?thesis by (simp add: XMLInit_Stats_def rec_Stats_def keep_effect [OF i q])
next
  case (Some mn)
  show ?thesis
  proof (cases "CPLGetXMLValue t [''StandardDeviation''] None")
    case None
    then show ?thesis by (simp add: XMLInit_Stats_def rec_Stats_def Some keep_effect [OF i q])
  next
    case (Some sd)
    from with_psPam_effect [OF i q, of "\<lambda>p. p\<lparr>bHaveStats := True, dfMean := CPLAtofM E mn,
        dfStdDev := CPLAtofM E sd\<rparr>"]
    show ?thesis by (simp add: XMLInit_Stats_def rec_Stats_def Some \<open>CPLGetXMLValue t [''Mean''] None = Some mn\<close>)
  qed
qed

lemma XMLInit_Histograms_effect:
  assumes i: "initialised E b" and q: "psPam b = Some q"
  shows "\<exists>b'. XMLInit_Histograms t b = Inr b' \<and> with_record b (rec_Histograms t q) b' \<and> initialised E b'"
proof (cases "CPLGetXMLNode t [''Histograms'']")
  case None
  then show ?thesis by (simp only: XMLInit_Histograms_def rec_Histograms_def option.case)
    (simp add: keep_effect [OF i q])
next
  case (Some h)
  from with_psPam_effect [OF i q, of "\<lambda>p. p\<lparr>psSavedHistograms := Some h\<rparr>"]
  show ?thesis by (simp only: XMLInit_Histograms_def rec_Histograms_def Some option.case) simp
qed

lemma XMLInit_RAT_effect:
  assumes i: "initialised E b" and q: "psPam b = Some q"
  shows "\<exists>b'. XMLInit_RAT E t b = Inr b' \<and> with_record b (rec_RAT E t q) b' \<and> initialised E b'"
proof (cases "CPLGetXMLNode t [''GDALRasterAttributeTable'']")
  case None
  then show ?thesis by (simp only: XMLInit_RAT_def rec_RAT_def option.case)
    (simp add: keep_effect [OF i q])
next
  case (Some h)
  from with_psPam_effect [OF i q, of "\<lambda>p. p\<lparr>poDefaultRAT := Some (RAT_XMLInit E h)\<rparr>"]
  show ?thesis by (simp only: XMLInit_RAT_def rec_RAT_def Some option.case) simp
qed

lemma PamInitialize_other_fields:
  "PamInitialize E (b\<lparr>oMDMD := m\<rparr>) = (PamInitialize E b)\<lparr>oMDMD := m\<rparr>"
  "PamInitialize E (b\<lparr>sDescription := d\<rparr>) = (PamInitialize E b)\<lparr>sDescription := d\<rparr>"
  by (simp_all add: PamInitialize_def CPLError_def split: option.splits)

lemma initialised_other_fields [simp]:
  "initialised E (b\<lparr>oMDMD := m\<rparr>) = initialised E b"
  "initialised E (b\<lparr>sDescription := d\<rparr>) = initialised E b"
  by (simp_all add: initialised_def PamInitialize_other_fields)

lemma XMLInit_record:
  assumes q0: "psPam (PamInitialize E b) = Some q0"
  shows "\<exists>b'. XMLInit E t b = Inr b' \<and>
           psPam b' = Some (rec_XMLInit E t (eDataType b) q0) \<and>
           sDescription b' = CPLGetXMLValueD t [''Description''] [] \<and>
           oMDMD b' = MDMD_XMLInit E t (oMDMD b) \<and>
           eDataType b' = eDataType b \<and> nBand b' = nBand b \<and> same_store b' b"
proof -
  let ?b3 = "(PamInitialize E b)\<lparr>oMDMD := MDMD_XMLInit E t (oMDMD b),
       sDescription := CPLGetXMLValueD t [''Description''] []\<rparr>"
  have i3: "initialised E ?b3" using initialised_PamInitialize [of E b] q0 by simp
  have q3: "psPam ?b3 = Some q0" using q0 by simp
  let ?b4 = "XMLInit_NoDataValue E t ?b3"
  note e4 = XMLInit_NoDataValue_effect [OF i3 q3, of t]
  let ?b5 = "XMLInit_OffsetScale E t ?b4"
  note e5 = XMLInit_OffsetScale_effect [OF e4 [THEN conjunct2] with_record_psPam [OF e4 [THEN conjunct1]], of t]
  let ?b6 = "XMLInit_UnitType E t ?b5"
  note e6 = XMLInit_UnitType_effect [OF e5 [THEN conjunct2] with_record_psPam [OF e5 [THEN conjunct1]], of t]
  let ?b7 = "XMLInit_ColorInterp E t ?b6"
  note e7 = XMLInit_ColorInterp_effect [OF e6 [THEN conjunct2] with_record_psPam [OF e6 [THEN conjunct1]], of t]
  let ?b8 = "XMLInit_CategoryNames E t ?b7"
  note e8 = XMLInit_CategoryNames_effect [OF e7 [THEN conjunct2] with_record_psPam [OF e7 [THEN conjunct1]], of t]
  let ?b9 = "XMLInit_ColorTable E t ?b8"
  note e9 = XMLInit_ColorTable_effect [OF e8 [THEN conjunct2] with_record_psPam [OF e8 [THEN conjunct1]], of t]
  from XMLInit_MinMax_effect [OF e9 [THEN conjunct2] with_record_psPam [OF e9 [THEN conjunct1]], of t]
  obtain b10 where e10: "XMLInit_MinMax E t ?b9 = Inr b10"
    "with_record ?b9 (rec_MinMax E t (rec_ColorTable t (rec_CategoryNames t (rec_ColorInterp E t
        (rec_UnitType t (rec_OffsetScale E t (rec_NoDataValue E t (eDataType ?b3) q0))))))) b10"
    "initialised E b10" by blast
  from XMLInit_Stats_effect [OF e10(3) with_record_psPam [OF e10(2)], of t]
  obtain b11 where e11: "XMLInit_Stats E t b10 = Inr b11"
    "with_record b10 (rec_Stats E t (rec_MinMax E t (rec_ColorTable t (rec_CategoryNames t (rec_ColorInterp E t
        (rec_UnitType t (rec_OffsetScale E t (rec_NoDataValue E t (eDataType ?b3) q0)))))))) b11"
    "initialised E b11" by blast
  from XMLInit_Histograms_effect [OF e11(3) with_record_psPam [OF e11(2)], of t]
  obtain b12 where e12: "XMLInit_Histograms t b11 = Inr b12"
    "with_record b11 (rec_Histograms t (rec_Stats E t (rec_MinMax E t (rec_ColorTable t (rec_CategoryNames t (rec_ColorInterp E t
        (rec_UnitType t (rec_OffsetScale E t (rec_NoDataValue E t (eDataType ?b3) q0))))))))) b12"
    "initialised E b12" by blast
  from XMLInit_RAT_effect [OF e12(3) with_record_psPam [OF e12(2)], of t]
  obtain b13 where e13: "XMLInit_RAT E t b12 = Inr b13"
    "with_record b12 (rec_RAT E t (rec_Histograms t (rec_Stats E t (rec_MinMax E t (rec_ColorTable t (rec_CategoryNames t (rec_ColorInterp E t
        (rec_UnitType t (rec_OffsetScale E t (rec_NoDataValue E t (eDataType ?b3) q0)))))))))) b13"
    "initialised E b13" by blast
  have x: "XMLInit E t b = Inr b13"
    using e10(1) e11(1) e12(1) e13(1) by (simp add: XMLInit_def Let_def bind_crash_def)
  note w4 = e4 [THEN conjunct1]
  note w5 = with_record_trans [OF w4 e5 [THEN conjunct1]]
  note w6 = with_record_trans [OF w5 e6 [THEN conjunct1]]
  note w7 = with_record_trans [OF w6 e7 [THEN conjunct1]]
  note w8 = with_record_trans [OF w7 e8 [THEN conjunct1]]
  note w9 = with_record_trans [OF w8 e9 [THEN conjunct1]]
  note w10 = with_record_trans [OF w9 e10(2)]
  note w11 = with_record_trans [OF w10 e11(2)]
  note w12 = with_record_trans [OF w11 e12(2)]
  note w13 = with_record_trans [OF w12 e13(2)]
  have w: "with_record ?b3 (rec_XMLInit E t (eDataType b) q0) b13"
    using w13 by (simp add: rec_XMLInit_def)
  from x w show ?thesis by (simp add: with_record_def)
qed

lemma offset_frame [simp]:
  "bOffsetSet (rec_UnitType t q) = bOffsetSet q" "bScaleSet (rec_UnitType t q) = bScaleSet q"
  "dfOffset (rec_UnitType t q) = dfOffset q" "dfScale (rec_UnitType t q) = dfScale q"
  "bOffsetSet (rec_ColorInterp E t q) = bOffsetSet q" "bScaleSet (rec_ColorInterp E t q) = bScaleSet q"
  "dfOffset (rec_ColorInterp E t q) = dfOffset q" "dfScale (rec_ColorInterp E t q) = dfScale q"
  "bOffsetSet (rec_CategoryNames t q) = bOffsetSet q" "bScaleSet (rec_CategoryNames t q) = bScaleSet q"
  "dfOffset (rec_CategoryNames t q) = dfOffset q" "dfScale (rec_CategoryNames t q) = dfScale q"
  "bOffsetSet (rec_ColorTable t q) = bOffsetSet q" "bScaleSet (rec_ColorTable t q) = bScaleSet q"
  "dfOffset (rec_ColorTable t q) = dfOffset q" "dfScale (rec_ColorTable t q) = dfScale q"
  "bOffsetSet (rec_MinMax E t q) = bOffsetSet q" "bScaleSet (rec_MinMax E t q) = bScaleSet q"
  "dfOffset (rec_MinMax E t q) = dfOffset q" "dfScale (rec_MinMax E t q) = dfScale q"
  "bOffsetSet (rec_Stats E t q) = bOffsetSet q" "bScaleSet (rec_Stats E t q) = bScaleSet q"
  "dfOffset (rec_Stats E t q) = dfOffset q" "dfScale (rec_Stats E t q) = dfScale q"
  "bOffsetSet (rec_Histograms t q) = bOffsetSet q" "bScaleSet (rec_Histograms t q) = bScaleSet q"
  "dfOffset (rec_Histograms t q) = dfOffset q" "dfScale (rec_Histograms t q) = dfScale q"
  "bOffsetSet (rec_RAT E t q) = bOffsetSet q" "bScaleSet (rec_RAT E t q) = bScaleSet q"
  "dfOffset (rec_RAT E t q) = dfOffset q" "dfScale (rec_RAT E t q) = dfScale q"
  by (simp_all add: rec_UnitType_def rec_ColorInterp_def rec_CategoryNames_def rec_ColorTable_def
      rec_SetColorTable_def rec_MinMax_def rec_Stats_def rec_Histograms_def rec_RAT_def
      split: option.split)

lemma offset_frame_nodata [simp]:
  "bOffsetSet (rec_NoDataValue E t ty q) = bOffsetSet q" "bScaleSet (rec_NoDataValue E t ty q) = bScaleSet q"
  "dfOffset (rec_NoDataValue E t ty q) = dfOffset q" "dfScale (rec_NoDataValue E t ty q) = dfScale q"
  by (simp_all add: rec_NoDataValue_def rec_SetNoDataValue_def rec_SetNoDataValueAsInt64_def
      rec_SetNoDataValueAsUInt64_def ResetNoDataValues_def split: option.split)

lemma rec_SetOffset_fields:
  "bOffsetSet (rec_SetOffset v q)" "bScaleSet (rec_SetOffset v q) = bScaleSet q"
  "dfScale (rec_SetOffset v q) = dfScale q"
  "dfOffset (rec_SetOffset v q) = v \<or> d_eq (dfOffset (rec_SetOffset v q)) v"
  "\<not> bOffsetSet q \<Longrightarrow> dfOffset (rec_SetOffset v q) = v"
  by (auto simp: rec_SetOffset_def d_ne_def)

lemma d_eq_sym: "d_eq a b = d_eq b a"
  by (auto simp: d_eq_def)

lemma rec_SetScale_fields:
  "bScaleSet (rec_SetScale v q)" "bOffsetSet (rec_SetScale v q) = bOffsetSet q"
  "dfOffset (rec_SetScale v q) = dfOffset q"
  "dfScale (rec_SetScale v q) = v \<or> d_eq (dfScale (rec_SetScale v q)) v"
  "\<not> bScaleSet q \<Longrightarrow> dfScale (rec_SetScale v q) = v"
  by (auto simp: rec_SetScale_def d_ne_def d_eq_sym)

lemma demo_scale_doc:
  "CPLGetXMLValue (CPLXMLNode CXT_Element ''PAMRasterBand''
      [CPLCreateXMLElementAndValue ''Scale'' ''2.5'']) [''Offset''] None = None"
  "CPLGetXMLValue (CPLXMLNode CXT_Element ''PAMRasterBand''
      [CPLCreateXMLElementAndValue ''Scale'' ''2.5'']) [''Scale''] None = Some ''2.5''"
  by (simp_all add: CPLGetXMLValue_def CPLCreateXMLElementAndValue_def named_def EQUAL_def)

subsection \<open>Offset and scale are read together\<close>

text \<open>
  Claim C8, amended. When the document gives a value to \<^verbatim>\<open>Offset\<close> or to \<^verbatim>\<open>Scale\<close> (an element
  of that name whose value \<^verbatim>\<open>CPLGetXMLValue\<close> finds), \<^verbatim>\<open>XMLInit\<close> on a band that can have
  an overlay record returns normally and sets both the offset and the scale: the offset
  to the number read from \<^verbatim>\<open>Offset\<close>, or to 0.0 when only \<^verbatim>\<open>Scale\<close> is given, the scale to
  the number read from \<^verbatim>\<open>Scale\<close>, or to 1.0 when only \<^verbatim>\<open>Offset\<close> is given, and both
  flags to true. The value stored is that number, bit for bit, when the flag was not set
  before (so on every fresh record); when it was set, the setter skips the store if the
  old value already compares equal to the number (C's \<^verbatim>\<open>==\<close>), so the stored value then
  equals it in that sense.
\<close>

theorem XMLInit_offset_scale_coupled:
  assumes "psPam (PamInitialize E b) = Some q0"
    and "pszOffset = CPLGetXMLValue psTree [''Offset''] None"
    and "pszScale = CPLGetXMLValue psTree [''Scale''] None"
    and "pszOffset \<noteq> None \<or> pszScale \<noteq> None"
    and "vOffset = (case pszOffset of Some s \<Rightarrow> CPLAtof E s | None \<Rightarrow> d_0)"
    and "vScale = (case pszScale of Some s \<Rightarrow> CPLAtof E s | None \<Rightarrow> d_1)"
  shows "case XMLInit E psTree b of
           Inl crash \<Rightarrow> False
         | Inr b' \<Rightarrow>
             (case psPam b' of
                None \<Rightarrow> False
              | Some p' \<Rightarrow>
                  bOffsetSet p' \<and> bScaleSet p' \<and>
                  (dfOffset p' = vOffset \<or> d_eq (dfOffset p') vOffset) \<and>
                  (dfScale p' = vScale \<or> d_eq (dfScale p') vScale) \<and>
                  (\<not> bOffsetSet q0 \<longrightarrow> dfOffset p' = vOffset) \<and>
                  (\<not> bScaleSet q0 \<longrightarrow> dfScale p' = vScale))"
proof -
  from XMLInit_record [OF assms(1), of psTree]
  obtain b' where x: "XMLInit E psTree b = Inr b'"
    and p: "psPam b' = Some (rec_XMLInit E psTree (eDataType b) q0)" by blast
  let ?q = "rec_NoDataValue E psTree (eDataType b) q0"
  have os: "rec_OffsetScale E psTree ?q = rec_SetScale vScale (rec_SetOffset vOffset ?q)"
    using assms(4) by (simp add: rec_OffsetScale_def assms(2,3,5,6))
  show ?thesis
    using rec_SetScale_fields(4) [of vScale "rec_SetOffset vOffset ?q"]
      rec_SetOffset_fields(4) [of vOffset ?q]
    by (simp add: x p rec_XMLInit_def os rec_SetScale_fields rec_SetOffset_fields)
qed

theorem XMLInit_offset_scale_coupled_witness:
  "case XMLInit demo_env (CPLXMLNode CXT_Element ''PAMRasterBand''
          [CPLCreateXMLElementAndValue ''Scale'' ''2.5'']) demo_band of
     Inl crash \<Rightarrow> False
   | Inr b' \<Rightarrow>
       (case psPam b' of
          None \<Rightarrow> False
        | Some p' \<Rightarrow>
            bOffsetSet p' \<and> bScaleSet p' \<and> dfOffset p' = 0 \<and> dfScale p' = 0x4004000000000000)"
  using XMLInit_offset_scale_coupled [of demo_env demo_band demo_record None
      "CPLXMLNode CXT_Element ''PAMRasterBand'' [CPLCreateXMLElementAndValue ''Scale'' ''2.5'']"
      "Some ''2.5''" 0 "0x4004000000000000"]
  by (simp add: demo_init demo_scale_doc d_0_def d_1_def demo_record_def new_GDALRasterBandPamInfo_def
      split: sum.splits option.splits)

text \<open>
  The claim as stated fails for an element that is present without a text: \<^verbatim>\<open>XMLInit\<close>
  tests the values that \<^verbatim>\<open>CPLGetXMLValue\<close> returns, not the elements, and an empty
  \<^verbatim>\<open>Offset\<close> element has none, so neither the offset nor the scale is set.
\<close>

theorem XMLInit_offset_scale_coupled_counterexample:
  "CPLGetXMLNode demo_doc_empty_offset [''Offset''] = Some (CPLXMLNode CXT_Element ''Offset'' []) \<and>
   \<not> isl (XMLInit demo_env demo_doc_empty_offset demo_band) \<and>
   map_option bOffsetSet (psPam (projr (XMLInit demo_env demo_doc_empty_offset demo_band)))
     = Some False \<and>
   map_option bScaleSet (psPam (projr (XMLInit demo_env demo_doc_empty_offset demo_band)))
     = Some False"
proof -
  have i: "psPam (PamInitialize demo_env demo_band) = Some demo_record" by (simp add: demo_init)
  from XMLInit_record [OF i, of demo_doc_empty_offset]
  obtain b' where x: "XMLInit demo_env demo_doc_empty_offset demo_band = Inr b'"
    and p': "psPam b' = Some (rec_XMLInit demo_env demo_doc_empty_offset (eDataType demo_band) demo_record)"
    by blast
  have v: "CPLGetXMLValue demo_doc_empty_offset [''Offset''] None = None"
    "CPLGetXMLValue demo_doc_empty_offset [''Scale''] None = None"
    by (simp_all add: CPLGetXMLValue_def demo_doc_empty_offset_def EQUAL_def)
  have f: "\<not> bOffsetSet (rec_XMLInit demo_env demo_doc_empty_offset ty demo_record)"
    "\<not> bScaleSet (rec_XMLInit demo_env demo_doc_empty_offset ty demo_record)" for ty
    by (simp_all add: rec_XMLInit_def rec_OffsetScale_def v demo_record_def
        new_GDALRasterBandPamInfo_def)
  show ?thesis
    by (simp add: x p' f) (simp add: demo_doc_empty_offset_def EQUAL_def named_def)
qed

subsection \<open>The document that serialisation builds\<close>

lemma find_if_None: "find P xs = None \<Longrightarrow> find P (if c then xs else []) = None"
  by simp

lemma find_case_None:
  "\<forall>u. find P (f u) = None \<Longrightarrow> find P (case x of None \<Rightarrow> [] | Some u \<Rightarrow> f u) = None"
  by (cases x) simp_all

lemma named_node [simp]:
  "named tok (CPLXMLNode ty nm kids) \<longleftrightarrow> ty \<noteq> CXT_Text \<and> EQUAL tok nm"
  by (simp add: named_def)

lemma SetXMLValue_append:
  assumes "find (named tok) K = None" and "case tok of [] \<Rightarrow> True | c # _ \<Rightarrow> c \<noteq> CHR ''#''"
  shows "SetXMLValue (CPLXMLNode CXT_Element nm K) [tok] v =
         CPLXMLNode CXT_Element nm (K @ [CPLCreateXMLElementAndValue tok v])"
  using assms by (intro SetXMLValue_new_element) (simp_all add: find_None_iff)

lemma split_first_last:
  "find P K = None \<Longrightarrow> P n \<Longrightarrow> split_first P (K @ [n]) = Some (K, n, [])"
  by (induction K) (simp_all split: if_splits)

lemma Serialize_Band_children:
  "Serialize_Band b (CPLXMLNode CXT_Element nm []) =
     CPLXMLNode CXT_Element nm
       (if nBand b > 0
        then [CPLXMLNode CXT_Attribute ''band'' [CPLXMLNode CXT_Text (Printf_d (nBand b)) []]]
        else [])"
  by (simp add: Serialize_Band_def SetXMLValue_def)

lemma Serialize_Description_children:
  "find (named ''Description'') K = None \<Longrightarrow>
   Serialize_Description b (CPLXMLNode CXT_Element nm K) =
     CPLXMLNode CXT_Element nm
       (K @ (if sDescription b \<noteq> [] then [CPLCreateXMLElementAndValue ''Description'' (sDescription b)]
             else []))"
  by (simp add: Serialize_Description_def SetXMLValue_append)

lemma SetXMLValue_hex:
  assumes "find (named ''NoDataValue'') K = None"
  shows "SetXMLValue (CPLXMLNode CXT_Element nm (K @ [CPLCreateXMLElementAndValue ''NoDataValue'' txt]))
           [''NoDataValue'', ''#le_hex_equiv''] hex =
         CPLXMLNode CXT_Element nm
           (K @ [CPLXMLNode CXT_Element ''NoDataValue''
                   [CPLXMLNode CXT_Attribute ''le_hex_equiv'' [CPLXMLNode CXT_Text hex []],
                    CPLXMLNode CXT_Text txt []]])"
proof -
  have 1: "split_first (named ''NoDataValue'') (K @ [CPLCreateXMLElementAndValue ''NoDataValue'' txt])
        = Some (K, CPLCreateXMLElementAndValue ''NoDataValue'' txt, [])"
    using assms by (intro split_first_last) (simp_all add: EQUAL_def)
  show ?thesis
    by (simp add: SetXMLValue_def 1 Let_def) (simp add: CPLCreateXMLElementAndValue_def)
qed

lemma Serialize_NoDataValue_children:
  assumes "find (named ''NoDataValue'') K = None"
  shows "Serialize_NoDataValue E p (CPLXMLNode CXT_Element nm K) =
         CPLXMLNode CXT_Element nm (K @ NoDataValue_nodes E p)"
  using assms
  by (simp add: Serialize_NoDataValue_def NoDataValue_nodes_def SetXMLValue_append SetXMLValue_hex Let_def)
     (simp add: CPLCreateXMLElementAndValue_def)

lemma find_app:
  "find P (xs @ ys) = (case find P xs of None \<Rightarrow> find P ys | Some x \<Rightarrow> Some x)"
  by (induction xs) simp_all

lemma Serialize_UnitType_children:
  "find (named ''UnitType'') K = None \<Longrightarrow>
   Serialize_UnitType p (CPLXMLNode CXT_Element nm K) =
     CPLXMLNode CXT_Element nm
       (K @ (case pszUnitType p of
               None \<Rightarrow> []
             | Some u \<Rightarrow> [CPLCreateXMLElementAndValue ''UnitType'' u]))"
  by (simp add: Serialize_UnitType_def SetXMLValue_append split: option.split)

lemma Serialize_Offset_children:
  "find (named ''Offset'') K = None \<Longrightarrow>
   Serialize_Offset E p (CPLXMLNode CXT_Element nm K) =
     CPLXMLNode CXT_Element nm
       (K @ (if d_ne (dfOffset p) d_0
             then [CPLCreateXMLElementAndValue ''Offset'' (Printf_16g E (dfOffset p))] else []))"
  by (simp add: Serialize_Offset_def SetXMLValue_append)

lemma Serialize_Scale_children:
  "find (named ''Scale'') K = None \<Longrightarrow>
   Serialize_Scale E p (CPLXMLNode CXT_Element nm K) =
     CPLXMLNode CXT_Element nm
       (K @ (if d_ne (dfScale p) d_1
             then [CPLCreateXMLElementAndValue ''Scale'' (Printf_16g E (dfScale p))] else []))"
  by (simp add: Serialize_Scale_def SetXMLValue_append)

lemma Serialize_ColorInterp_children:
  "find (named ''ColorInterp'') K = None \<Longrightarrow>
   Serialize_ColorInterp E p (CPLXMLNode CXT_Element nm K) =
     CPLXMLNode CXT_Element nm
       (K @ (if eColorInterp p \<noteq> GCI_Undefined
             then [CPLCreateXMLElementAndValue ''ColorInterp''
                     (GDALGetColorInterpretationName E (eColorInterp p))]
             else []))"
  by (simp add: Serialize_ColorInterp_def SetXMLValue_append)

lemma Serialize_CategoryNames_children:
  "Serialize_CategoryNames p (CPLXMLNode CXT_Element nm K) =
     CPLXMLNode CXT_Element nm
       (K @ (case papszCategoryNames p of
               None \<Rightarrow> []
             | Some names \<Rightarrow>
                 [CPLXMLNode CXT_Element ''CategoryNames''
                    (map (CPLCreateXMLElementAndValue ''Category'') names)]))"
  by (simp add: Serialize_CategoryNames_def add_element_def link_child_end split: option.split)

lemma Serialize_ColorTable_children:
  "Serialize_ColorTable p (CPLXMLNode CXT_Element nm K) =
     CPLXMLNode CXT_Element nm
       (K @ (case poColorTable p of
               None \<Rightarrow> []
             | Some tab \<Rightarrow> [CPLXMLNode CXT_Element ''ColorTable'' (map Serialize_Entry tab)]))"
  by (simp add: Serialize_ColorTable_def add_element_def link_child_end split: option.split)

lemma Serialize_MinMax_children:
  "find (named ''Minimum'') K = None \<Longrightarrow> find (named ''Maximum'') K = None \<Longrightarrow>
   Serialize_MinMax E p (CPLXMLNode CXT_Element nm K) =
     CPLXMLNode CXT_Element nm
       (K @ (if bHaveMinMax p
             then [CPLCreateXMLElementAndValue ''Minimum'' (Printf_16g E (dfMin p)),
                   CPLCreateXMLElementAndValue ''Maximum'' (Printf_16g E (dfMax p))]
             else []))"
  by (simp add: Serialize_MinMax_def SetXMLValue_append EQUAL_def find_app)

lemma Serialize_Stats_children:
  "find (named ''Mean'') K = None \<Longrightarrow> find (named ''StandardDeviation'') K = None \<Longrightarrow>
   Serialize_Stats E p (CPLXMLNode CXT_Element nm K) =
     CPLXMLNode CXT_Element nm
       (K @ (if bHaveStats p
             then [CPLCreateXMLElementAndValue ''Mean'' (Printf_16g E (dfMean p)),
                   CPLCreateXMLElementAndValue ''StandardDeviation'' (Printf_16g E (dfStdDev p))]
             else []))"
  by (simp add: Serialize_Stats_def SetXMLValue_append EQUAL_def find_app)

lemma Serialize_Histograms_children:
  "\<forall>hs. psSavedHistograms p = Some hs \<longrightarrow> eType hs \<noteq> CXT_Attribute \<Longrightarrow>
   Serialize_Histograms p (CPLXMLNode CXT_Element nm K) =
     CPLXMLNode CXT_Element nm (K @ (case psSavedHistograms p of None \<Rightarrow> [] | Some hs \<Rightarrow> [hs]))"
  by (simp add: Serialize_Histograms_def CPLAddXMLChild_def add_after_end split: option.split)

lemma Serialize_RAT_children:
  "\<forall>rat n. poDefaultRAT p = Some rat \<and> RAT_Serialize E rat = Some n \<longrightarrow> eType n \<noteq> CXT_Attribute \<Longrightarrow>
   Serialize_RAT E p (CPLXMLNode CXT_Element nm K) =
     CPLXMLNode CXT_Element nm
       (K @ (case poDefaultRAT p of
               None \<Rightarrow> []
             | Some rat \<Rightarrow> (case RAT_Serialize E rat of None \<Rightarrow> [] | Some n \<Rightarrow> [n])))"
  by (simp add: Serialize_RAT_def CPLAddXMLChild_def add_after_end split: option.split)

lemma add_chain_after_end:
  "eType n \<noteq> CXT_Attribute \<Longrightarrow> add_chain_after n rest K = K @ n # rest"
  by (induction K) simp_all

lemma Serialize_Metadata_children:
  "\<forall>n \<in> set (MDMD_Serialize E (oMDMD b)). eType n \<noteq> CXT_Attribute \<Longrightarrow>
   Serialize_Metadata E b (CPLXMLNode CXT_Element nm K) =
     CPLXMLNode CXT_Element nm (K @ MDMD_Serialize E (oMDMD b))"
  by (cases "MDMD_Serialize E (oMDMD b)")
     (simp_all add: Serialize_Metadata_def CPLAddXMLChildren_def add_chain_after_end)

lemma find_named_NoDataValue_nodes:
  "\<not> EQUAL tok ''NoDataValue'' \<Longrightarrow> find (named tok) (NoDataValue_nodes E p) = None"
  by (simp add: NoDataValue_nodes_def)

lemmas Serialize_children =
  Serialize_Band_children Serialize_Description_children Serialize_NoDataValue_children
  Serialize_UnitType_children Serialize_Offset_children Serialize_Scale_children
  Serialize_ColorInterp_children Serialize_CategoryNames_children Serialize_ColorTable_children
  Serialize_MinMax_children Serialize_Stats_children

lemmas find_named = find_app find_if_None find_case_None find_named_NoDataValue_nodes EQUAL_def

lemma SerializeToXML_children:
  assumes "psPam b = Some p"
    and "\<forall>hs. psSavedHistograms p = Some hs \<longrightarrow> eType hs \<noteq> CXT_Attribute"
    and "\<forall>rat n. poDefaultRAT p = Some rat \<and> RAT_Serialize E rat = Some n \<longrightarrow> eType n \<noteq> CXT_Attribute"
    and "\<forall>n \<in> set (MDMD_Serialize E (oMDMD b)). eType n \<noteq> CXT_Attribute"
  shows "SerializeToXML E b =
           (case PAMRasterBand_children E b p of
              [] \<Rightarrow> None
            | [c] \<Rightarrow> None
            | _ \<Rightarrow> Some (CPLXMLNode CXT_Element ''PAMRasterBand'' (PAMRasterBand_children E b p)))"
proof -
  let ?t0 = "CPLXMLNode CXT_Element ''PAMRasterBand'' []"
  let ?t11 = "Serialize_Stats E p (Serialize_MinMax E p (Serialize_ColorTable p
      (Serialize_CategoryNames p (Serialize_ColorInterp E p (Serialize_Scale E p
      (Serialize_Offset E p (Serialize_UnitType p (Serialize_NoDataValue E p
      (Serialize_Description b (Serialize_Band b ?t0))))))))))"
  have 1: "Serialize_Metadata E b (Serialize_RAT E p (Serialize_Histograms p ?t11)) =
        CPLXMLNode CXT_Element ''PAMRasterBand'' (PAMRasterBand_children E b p)"
    by (simp add: Serialize_children find_named PAMRasterBand_children_def
        Serialize_Histograms_children [OF assms(2)] Serialize_RAT_children [OF assms(3)]
        Serialize_Metadata_children [OF assms(4)])
  show ?thesis
    by (simp add: SerializeToXML_def assms(1) Let_def 1 split: list.split)
qed

subsection \<open>The hexadecimal form of a double\<close>

lemma hex2char_hex_digit: "n < 16 \<Longrightarrow> hex2char (hex_digit n) = n"
  by (simp add: hex2char_def hex_digit_def Let_def)

lemma byte_of_nibbles: "b < 256 \<Longrightarrow> ((b div 16 * 16) mod 256 OR b mod 16) = (b::nat)"
proof -
  assume "b < 256"
  have "(b div 16 * 16) mod 256 = push_bit 4 (drop_bit 4 b)"
    using \<open>b < 256\<close> by (simp add: push_bit_eq_mult drop_bit_eq_div)
  moreover have "b mod 16 = take_bit 4 b" by (simp add: take_bit_eq_mod)
  ultimately show ?thesis
    by (simp add: bit_eq_iff bit_simps) (metis add_diff_inverse_nat  not_less)
qed

lemma CPLHexToBinary_CPLBinaryToHex:
  "\<forall>b \<in> set bs. b < 256 \<Longrightarrow> CPLHexToBinary (CPLBinaryToHex bs) = bs"
proof (induction bs)
  case Nil
  then show ?case by (simp add: CPLBinaryToHex_def)
next
  case (Cons b bs)
  then have "b < 256" by simp
  then have "b div 16 < 16" "b mod 16 < 16" by simp_all
  then show ?case
    using Cons byte_of_nibbles [OF \<open>b < 256\<close>]
    by (simp add: CPLBinaryToHex_def hex2char_hex_digit)
qed

lemma le_bytes_range: "\<forall>b \<in> set (le_bytes d). b < 256"
proof -
  have "unat (w AND 0xFF) < 256" for w :: "64 word"
  proof -
    have "w AND 0xFF \<le> 0xFF" by (rule word_and_le1)
    then have "unat (w AND 0xFF) \<le> unat (0xFF :: 64 word)" by (simp add: word_le_nat_alt)
    then show ?thesis by simp
  qed
  then show ?thesis by (simp add: le_bytes_def)
qed

lemma length_le_bytes [simp]: "length (le_bytes d) = 8"
  by (simp add: le_bytes_def)

lemma byte_step:
  "word_of_nat (unat (drop_bit k d AND 0xFF)) OR push_bit 8 (drop_bit (k + 8) d) = drop_bit k (d :: 64 word)"
proof -
  have m: "(0xFF :: 64 word) = mask 8" by (simp add: mask_eq_exp_minus_1)
  show ?thesis
    unfolding m
    by (rule bit_word_eqI) (auto simp: bit_simps add.assoc, metis le_add_diff_inverse not_less)
qed

lemma of_le_bytes_from:
  "m \<le> 8 \<Longrightarrow>
   foldr (\<lambda>b acc. word_of_nat b OR push_bit 8 acc)
     (map (\<lambda>i. unat (drop_bit (8 * i) d AND 0xFF)) [m..<8]) 0 = drop_bit (8 * m) (d :: 64 word)"
proof (induction "8 - m" arbitrary: m)
  case 0
  then have "m = 8" by simp
  then show ?case by (simp add: drop_bit_eq_zero_iff_not_bit_last)
next
  case (Suc k)
  then have lt: "m < 8" and k: "k = 8 - Suc m" by simp_all
  have ih: "foldr (\<lambda>b acc. word_of_nat b OR push_bit 8 acc)
     (map (\<lambda>i. unat (drop_bit (8 * i) d AND 0xFF)) [Suc m..<8]) 0 = drop_bit (8 * Suc m) d"
    using Suc.hyps(1) [OF k] lt by simp
  have "8 * Suc m = 8 * m + 8" by simp
  then show ?case
    using byte_step [of "8 * m" d] lt by (simp add: upt_conv_Cons ih add.commute)
qed

lemma of_le_bytes_le_bytes: "of_le_bytes (le_bytes d) = d"
  using of_le_bytes_from [of 0 d] by (simp add: of_le_bytes_def le_bytes_def)

lemma hex_round_trip:
  "CPLHexToBinary (CPLBinaryToHex (le_bytes d)) = le_bytes d"
  by (simp add: CPLHexToBinary_CPLBinaryToHex le_bytes_range)

subsection \<open>Looking up the serialised document\<close>

lemma named_as:
  "eType n = CXT_Element \<Longrightarrow> EQUAL (pszValue n) a \<Longrightarrow> named k n \<longleftrightarrow> map toupper_c k = map toupper_c a"
  by (auto simp: named_def EQUAL_def)

lemma find_Histograms_other:
  assumes "children_named E b p" and "map toupper_c k \<noteq> ''HISTOGRAMS''"
  shows "find (named k) (case psSavedHistograms p of None \<Rightarrow> [] | Some hs \<Rightarrow> [hs]) = None"
proof (cases "psSavedHistograms p")
  case None
  then show ?thesis by simp
next
  case (Some hs)
  then have "eType hs = CXT_Element" "EQUAL (pszValue hs) ''Histograms''"
    using assms(1) by (simp_all add: children_named_def)
  from named_as [OF this] show ?thesis using assms(2) by (simp add: Some)
qed

lemma find_RAT_other:
  assumes "children_named E b p" and "map toupper_c k \<noteq> ''GDALRASTERATTRIBUTETABLE''"
  shows "find (named k) (case poDefaultRAT p of
             None \<Rightarrow> []
           | Some rat \<Rightarrow> (case RAT_Serialize E rat of None \<Rightarrow> [] | Some n \<Rightarrow> [n])) = None"
proof (cases "poDefaultRAT p")
  case None
  then show ?thesis by simp
next
  case (Some rat)
  show ?thesis
  proof (cases "RAT_Serialize E rat")
    case None
    then show ?thesis by (simp add: Some)
  next
    case (Some n)
    then have "eType n = CXT_Element" "EQUAL (pszValue n) ''GDALRasterAttributeTable''"
      using assms(1) \<open>poDefaultRAT p = Some rat\<close> by (simp_all add: children_named_def)
    from named_as [OF this] show ?thesis
      using assms(2) by (simp add: Some \<open>poDefaultRAT p = Some rat\<close>)
  qed
qed

lemma find_Metadata_other:
  assumes "children_named E b p" and "map toupper_c k \<noteq> ''METADATA''"
  shows "find (named k) (MDMD_Serialize E (oMDMD b)) = None"
proof -
  have "\<not> named k n" if "n \<in> set (MDMD_Serialize E (oMDMD b))" for n
  proof -
    from that have "eType n = CXT_Element" "EQUAL (pszValue n) ''Metadata''"
      using assms(1) by (simp_all add: children_named_def)
    from named_as [OF this] show ?thesis using assms(2) by simp
  qed
  then show ?thesis by (simp add: find_None_iff)
qed

lemmas find_other = find_Histograms_other find_RAT_other find_Metadata_other

lemma lookup_UnitType:
  assumes cn: "children_named E b p"
  shows "CPLGetXMLValue (CPLXMLNode CXT_Element nm (PAMRasterBand_children E b p)) [''UnitType''] None
         = pszUnitType p"
proof (cases "pszUnitType p")
  case None
  then show ?thesis
    by (simp add: CPLGetXMLValue_def PAMRasterBand_children_def find_named find_other [OF cn])
next
  case (Some u)
  then show ?thesis
    by (simp add: CPLGetXMLValue_def PAMRasterBand_children_def find_named find_other [OF cn]
        CPLCreateXMLElementAndValue_def)
qed

lemma lookup_Description:
  assumes cn: "children_named E b p"
  shows "CPLGetXMLValueD (CPLXMLNode CXT_Element nm (PAMRasterBand_children E b p)) [''Description''] [] =
         sDescription b"
proof (cases "sDescription b = []")
  case True
  then show ?thesis
    by (simp add: CPLGetXMLValue_def PAMRasterBand_children_def NoDataValue_nodes_def find_named
        find_other [OF cn] CPLCreateXMLElementAndValue_def CPLGetXMLValueD_def)
next
  case False
  then show ?thesis
    by (simp add: CPLGetXMLValue_def PAMRasterBand_children_def NoDataValue_nodes_def find_named
        find_other [OF cn] CPLCreateXMLElementAndValue_def CPLGetXMLValueD_def)
qed

lemma lookup_Offset:
  assumes cn: "children_named E b p"
  shows "CPLGetXMLValue (CPLXMLNode CXT_Element nm (PAMRasterBand_children E b p)) [''Offset''] None =
         (if d_ne (dfOffset p) d_0 then Some (Printf_16g E (dfOffset p)) else None)"
proof (cases "d_ne (dfOffset p) d_0")
  case True
  then show ?thesis
    by (simp add: CPLGetXMLValue_def PAMRasterBand_children_def NoDataValue_nodes_def find_named
        find_other [OF cn] CPLCreateXMLElementAndValue_def)
next
  case False
  then show ?thesis
    by (simp add: CPLGetXMLValue_def PAMRasterBand_children_def NoDataValue_nodes_def find_named
        find_other [OF cn] CPLCreateXMLElementAndValue_def)
qed

lemma lookup_Scale:
  assumes cn: "children_named E b p"
  shows "CPLGetXMLValue (CPLXMLNode CXT_Element nm (PAMRasterBand_children E b p)) [''Scale''] None =
         (if d_ne (dfScale p) d_1 then Some (Printf_16g E (dfScale p)) else None)"
proof (cases "d_ne (dfScale p) d_1")
  case True
  then show ?thesis
    by (simp add: CPLGetXMLValue_def PAMRasterBand_children_def NoDataValue_nodes_def find_named
        find_other [OF cn] CPLCreateXMLElementAndValue_def)
next
  case False
  then show ?thesis
    by (simp add: CPLGetXMLValue_def PAMRasterBand_children_def NoDataValue_nodes_def find_named
        find_other [OF cn] CPLCreateXMLElementAndValue_def)
qed

lemma lookup_ColorInterp:
  assumes cn: "children_named E b p"
  shows "CPLGetXMLValue (CPLXMLNode CXT_Element nm (PAMRasterBand_children E b p)) [''ColorInterp''] None =
         (if eColorInterp p \<noteq> GCI_Undefined then Some (GDALGetColorInterpretationName E (eColorInterp p)) else None)"
proof (cases "eColorInterp p \<noteq> GCI_Undefined")
  case True
  then show ?thesis
    by (simp add: CPLGetXMLValue_def PAMRasterBand_children_def NoDataValue_nodes_def find_named
        find_other [OF cn] CPLCreateXMLElementAndValue_def)
next
  case False
  then show ?thesis
    by (simp add: CPLGetXMLValue_def PAMRasterBand_children_def NoDataValue_nodes_def find_named
        find_other [OF cn] CPLCreateXMLElementAndValue_def)
qed

lemma lookup_Minimum:
  assumes cn: "children_named E b p"
  shows "CPLGetXMLValue (CPLXMLNode CXT_Element nm (PAMRasterBand_children E b p)) [''Minimum''] None =
         (if bHaveMinMax p then Some (Printf_16g E (dfMin p)) else None)"
proof (cases "bHaveMinMax p")
  case True
  then show ?thesis
    by (simp add: CPLGetXMLValue_def PAMRasterBand_children_def NoDataValue_nodes_def find_named
        find_other [OF cn] CPLCreateXMLElementAndValue_def)
next
  case False
  then show ?thesis
    by (simp add: CPLGetXMLValue_def PAMRasterBand_children_def NoDataValue_nodes_def find_named
        find_other [OF cn] CPLCreateXMLElementAndValue_def)
qed

lemma lookup_Maximum:
  assumes cn: "children_named E b p"
  shows "CPLGetXMLValue (CPLXMLNode CXT_Element nm (PAMRasterBand_children E b p)) [''Maximum''] None =
         (if bHaveMinMax p then Some (Printf_16g E (dfMax p)) else None)"
proof (cases "bHaveMinMax p")
  case True
  then show ?thesis
    by (simp add: CPLGetXMLValue_def PAMRasterBand_children_def NoDataValue_nodes_def find_named
        find_other [OF cn] CPLCreateXMLElementAndValue_def)
next
  case False
  then show ?thesis
    by (simp add: CPLGetXMLValue_def PAMRasterBand_children_def NoDataValue_nodes_def find_named
        find_other [OF cn] CPLCreateXMLElementAndValue_def)
qed

lemma lookup_Mean:
  assumes cn: "children_named E b p"
  shows "CPLGetXMLValue (CPLXMLNode CXT_Element nm (PAMRasterBand_children E b p)) [''Mean''] None =
         (if bHaveStats p then Some (Printf_16g E (dfMean p)) else None)"
proof (cases "bHaveStats p")
  case True
  then show ?thesis
    by (simp add: CPLGetXMLValue_def PAMRasterBand_children_def NoDataValue_nodes_def find_named
        find_other [OF cn] CPLCreateXMLElementAndValue_def)
next
  case False
  then show ?thesis
    by (simp add: CPLGetXMLValue_def PAMRasterBand_children_def NoDataValue_nodes_def find_named
        find_other [OF cn] CPLCreateXMLElementAndValue_def)
qed

lemma lookup_StandardDeviation:
  assumes cn: "children_named E b p"
  shows "CPLGetXMLValue (CPLXMLNode CXT_Element nm (PAMRasterBand_children E b p)) [''StandardDeviation''] None =
         (if bHaveStats p then Some (Printf_16g E (dfStdDev p)) else None)"
proof (cases "bHaveStats p")
  case True
  then show ?thesis
    by (simp add: CPLGetXMLValue_def PAMRasterBand_children_def NoDataValue_nodes_def find_named
        find_other [OF cn] CPLCreateXMLElementAndValue_def)
next
  case False
  then show ?thesis
    by (simp add: CPLGetXMLValue_def PAMRasterBand_children_def NoDataValue_nodes_def find_named
        find_other [OF cn] CPLCreateXMLElementAndValue_def)
qed

lemma lookup_CategoryNames:
  assumes cn: "children_named E b p"
  shows "find (named ''CategoryNames'') (PAMRasterBand_children E b p) =
         map_option (\<lambda>names. CPLXMLNode CXT_Element ''CategoryNames''
            (map (CPLCreateXMLElementAndValue ''Category'') names)) (papszCategoryNames p)"
proof (cases "papszCategoryNames p")
  case None
  then show ?thesis
    by (simp add: CPLGetXMLValue_def PAMRasterBand_children_def NoDataValue_nodes_def find_named
        find_other [OF cn] CPLCreateXMLElementAndValue_def)
next
  case (Some x)
  then show ?thesis
    by (simp add: CPLGetXMLValue_def PAMRasterBand_children_def NoDataValue_nodes_def find_named
        find_other [OF cn] CPLCreateXMLElementAndValue_def)
qed

lemma lookup_ColorTable:
  assumes cn: "children_named E b p"
  shows "find (named ''ColorTable'') (PAMRasterBand_children E b p) =
         map_option (\<lambda>tab. CPLXMLNode CXT_Element ''ColorTable'' (map Serialize_Entry tab)) (poColorTable p)"
proof (cases "poColorTable p")
  case None
  then show ?thesis
    by (simp add: CPLGetXMLValue_def PAMRasterBand_children_def NoDataValue_nodes_def find_named
        find_other [OF cn] CPLCreateXMLElementAndValue_def)
next
  case (Some x)
  then show ?thesis
    by (simp add: CPLGetXMLValue_def PAMRasterBand_children_def NoDataValue_nodes_def find_named
        find_other [OF cn] CPLCreateXMLElementAndValue_def)
qed

lemma lookup_Histograms:
  assumes cn: "children_named E b p"
  shows "find (named ''Histograms'') (PAMRasterBand_children E b p) = psSavedHistograms p"
proof (cases "psSavedHistograms p")
  case None
  then show ?thesis
    by (simp add: CPLGetXMLValue_def PAMRasterBand_children_def NoDataValue_nodes_def find_named
        find_other [OF cn] CPLCreateXMLElementAndValue_def)
next
  case (Some hs)
  then have "eType hs = CXT_Element" "EQUAL (pszValue hs) ''Histograms''"
    using cn by (simp_all add: children_named_def)
  from named_as [OF this] show ?thesis
    by (simp add: Some CPLGetXMLValue_def PAMRasterBand_children_def NoDataValue_nodes_def find_named
        find_other [OF cn] CPLCreateXMLElementAndValue_def)
qed

lemma lookup_RAT:
  assumes cn: "children_named E b p"
  shows "find (named ''GDALRasterAttributeTable'') (PAMRasterBand_children E b p) =
         (case poDefaultRAT p of None \<Rightarrow> None | Some rat \<Rightarrow> RAT_Serialize E rat)"
proof (cases "poDefaultRAT p")
  case None
  then show ?thesis
    by (simp add: CPLGetXMLValue_def PAMRasterBand_children_def NoDataValue_nodes_def find_named
        find_other [OF cn] CPLCreateXMLElementAndValue_def)
next
  case (Some rat)
  show ?thesis
  proof (cases "RAT_Serialize E rat")
    case None
    then show ?thesis
      by (simp add: Some CPLGetXMLValue_def PAMRasterBand_children_def NoDataValue_nodes_def find_named
        find_other [OF cn] CPLCreateXMLElementAndValue_def)
  next
    case (Some n)
    then have "eType n = CXT_Element" "EQUAL (pszValue n) ''GDALRasterAttributeTable''"
      using cn \<open>poDefaultRAT p = Some rat\<close> by (simp_all add: children_named_def)
    from named_as [OF this] show ?thesis
      by (simp add: Some \<open>poDefaultRAT p = Some rat\<close> CPLGetXMLValue_def PAMRasterBand_children_def NoDataValue_nodes_def find_named
        find_other [OF cn] CPLCreateXMLElementAndValue_def)
  qed
qed

lemma lookup_NoDataValue:
  assumes cn: "children_named E b p"
  shows "CPLGetXMLValue (CPLXMLNode CXT_Element nm (PAMRasterBand_children E b p)) [''NoDataValue''] None =
         (if bNoDataValueSet p
          then Some (if CPLIsNan (dfNoDataValue p) then ''nan'' else Printf_14E E (dfNoDataValue p))
          else if bNoDataValueSetAsInt64 p then Some (Printf_d (sint (nNoDataValueInt64 p)))
          else if bNoDataValueSetAsUInt64 p then Some (Printf_u (unat (nNoDataValueUInt64 p)))
          else None)"
proof -
  consider (d) "bNoDataValueSet p"
      "d_ne (dfNoDataValue p) (floor_double E (dfNoDataValue p)) \<or>
       d_ne (dfNoDataValue p) (CPLAtof E (Printf_14E E (dfNoDataValue p)))"
    | (e) "bNoDataValueSet p"
      "\<not> (d_ne (dfNoDataValue p) (floor_double E (dfNoDataValue p)) \<or>
          d_ne (dfNoDataValue p) (CPLAtof E (Printf_14E E (dfNoDataValue p))))"
    | (i) "\<not> bNoDataValueSet p" "bNoDataValueSetAsInt64 p"
    | (u) "\<not> bNoDataValueSet p" "\<not> bNoDataValueSetAsInt64 p" "bNoDataValueSetAsUInt64 p"
    | (n) "\<not> bNoDataValueSet p" "\<not> bNoDataValueSetAsInt64 p" "\<not> bNoDataValueSetAsUInt64 p"
    by blast
  then show ?thesis
  proof cases
    case d
    then show ?thesis by (simp add: CPLGetXMLValue_def PAMRasterBand_children_def NoDataValue_nodes_def find_named
        find_other [OF cn] CPLCreateXMLElementAndValue_def)
  next
    case e
    then show ?thesis by (simp add: CPLGetXMLValue_def PAMRasterBand_children_def NoDataValue_nodes_def find_named
        find_other [OF cn] CPLCreateXMLElementAndValue_def)
  next
    case i
    then show ?thesis by (simp add: CPLGetXMLValue_def PAMRasterBand_children_def NoDataValue_nodes_def find_named
        find_other [OF cn] CPLCreateXMLElementAndValue_def)
  next
    case u
    then show ?thesis by (simp add: CPLGetXMLValue_def PAMRasterBand_children_def NoDataValue_nodes_def find_named
        find_other [OF cn] CPLCreateXMLElementAndValue_def)
  next
    case n
    then show ?thesis by (simp add: CPLGetXMLValue_def PAMRasterBand_children_def NoDataValue_nodes_def find_named
        find_other [OF cn] CPLCreateXMLElementAndValue_def)
  qed
qed

lemma lookup_le_hex_equiv:
  assumes cn: "children_named E b p"
  shows "CPLGetXMLValue (CPLXMLNode CXT_Element nm (PAMRasterBand_children E b p)) [''NoDataValue'', ''le_hex_equiv''] None =
         (if bNoDataValueSet p \<and>
             (d_ne (dfNoDataValue p) (floor_double E (dfNoDataValue p)) \<or>
              d_ne (dfNoDataValue p) (CPLAtof E (Printf_14E E (dfNoDataValue p))))
          then Some (CPLBinaryToHex (le_bytes (dfNoDataValue p)))
          else None)"
proof -
  consider (d) "bNoDataValueSet p"
      "d_ne (dfNoDataValue p) (floor_double E (dfNoDataValue p)) \<or>
       d_ne (dfNoDataValue p) (CPLAtof E (Printf_14E E (dfNoDataValue p)))"
    | (e) "bNoDataValueSet p"
      "\<not> (d_ne (dfNoDataValue p) (floor_double E (dfNoDataValue p)) \<or>
          d_ne (dfNoDataValue p) (CPLAtof E (Printf_14E E (dfNoDataValue p))))"
    | (i) "\<not> bNoDataValueSet p" "bNoDataValueSetAsInt64 p"
    | (u) "\<not> bNoDataValueSet p" "\<not> bNoDataValueSetAsInt64 p" "bNoDataValueSetAsUInt64 p"
    | (n) "\<not> bNoDataValueSet p" "\<not> bNoDataValueSetAsInt64 p" "\<not> bNoDataValueSetAsUInt64 p"
    by blast
  then show ?thesis
  proof cases
    case d
    then show ?thesis by (simp add: CPLGetXMLValue_def PAMRasterBand_children_def NoDataValue_nodes_def find_named
        find_other [OF cn] CPLCreateXMLElementAndValue_def)
  next
    case e
    then show ?thesis by (simp add: CPLGetXMLValue_def PAMRasterBand_children_def NoDataValue_nodes_def find_named
        find_other [OF cn] CPLCreateXMLElementAndValue_def)
  next
    case i
    then show ?thesis by (simp add: CPLGetXMLValue_def PAMRasterBand_children_def NoDataValue_nodes_def find_named
        find_other [OF cn] CPLCreateXMLElementAndValue_def)
  next
    case u
    then show ?thesis by (simp add: CPLGetXMLValue_def PAMRasterBand_children_def NoDataValue_nodes_def find_named
        find_other [OF cn] CPLCreateXMLElementAndValue_def)
  next
    case n
    then show ?thesis by (simp add: CPLGetXMLValue_def PAMRasterBand_children_def NoDataValue_nodes_def find_named
        find_other [OF cn] CPLCreateXMLElementAndValue_def)
  qed
qed

subsection \<open>What deserialisation reads back\<close>

lemma rec_frame [simp]:
  "poParentDS (rec_NoDataValue E t ty q) = poParentDS q"
  "poColorTable (rec_NoDataValue E t ty q) = poColorTable q"
  "pszUnitType (rec_NoDataValue E t ty q) = pszUnitType q"
  "papszCategoryNames (rec_NoDataValue E t ty q) = papszCategoryNames q"
  "eColorInterp (rec_NoDataValue E t ty q) = eColorInterp q"
  "poDefaultRAT (rec_NoDataValue E t ty q) = poDefaultRAT q"
  "bHaveMinMax (rec_NoDataValue E t ty q) = bHaveMinMax q"
  "dfMin (rec_NoDataValue E t ty q) = dfMin q" "dfMax (rec_NoDataValue E t ty q) = dfMax q"
  "bHaveStats (rec_NoDataValue E t ty q) = bHaveStats q"
  "dfMean (rec_NoDataValue E t ty q) = dfMean q" "dfStdDev (rec_NoDataValue E t ty q) = dfStdDev q"
  "psSavedHistograms (rec_NoDataValue E t ty q) = psSavedHistograms q"
  "poParentDS (rec_OffsetScale E t q) = poParentDS q"
  "bNoDataValueSet (rec_OffsetScale E t q) = bNoDataValueSet q"
  "bNoDataValueSetAsInt64 (rec_OffsetScale E t q) = bNoDataValueSetAsInt64 q"
  "bNoDataValueSetAsUInt64 (rec_OffsetScale E t q) = bNoDataValueSetAsUInt64 q"
  "dfNoDataValue (rec_OffsetScale E t q) = dfNoDataValue q"
  "nNoDataValueInt64 (rec_OffsetScale E t q) = nNoDataValueInt64 q"
  "nNoDataValueUInt64 (rec_OffsetScale E t q) = nNoDataValueUInt64 q"
  "poColorTable (rec_OffsetScale E t q) = poColorTable q"
  "pszUnitType (rec_OffsetScale E t q) = pszUnitType q"
  "papszCategoryNames (rec_OffsetScale E t q) = papszCategoryNames q"
  "eColorInterp (rec_OffsetScale E t q) = eColorInterp q"
  "poDefaultRAT (rec_OffsetScale E t q) = poDefaultRAT q"
  "bHaveMinMax (rec_OffsetScale E t q) = bHaveMinMax q" "dfMin (rec_OffsetScale E t q) = dfMin q"
  "dfMax (rec_OffsetScale E t q) = dfMax q" "bHaveStats (rec_OffsetScale E t q) = bHaveStats q"
  "dfMean (rec_OffsetScale E t q) = dfMean q" "dfStdDev (rec_OffsetScale E t q) = dfStdDev q"
  "psSavedHistograms (rec_OffsetScale E t q) = psSavedHistograms q"
  "poParentDS (rec_UnitType t q) = poParentDS q"
  "bNoDataValueSet (rec_UnitType t q) = bNoDataValueSet q"
  "bNoDataValueSetAsInt64 (rec_UnitType t q) = bNoDataValueSetAsInt64 q"
  "bNoDataValueSetAsUInt64 (rec_UnitType t q) = bNoDataValueSetAsUInt64 q"
  "dfNoDataValue (rec_UnitType t q) = dfNoDataValue q"
  "nNoDataValueInt64 (rec_UnitType t q) = nNoDataValueInt64 q"
  "nNoDataValueUInt64 (rec_UnitType t q) = nNoDataValueUInt64 q"
  "poColorTable (rec_UnitType t q) = poColorTable q"
  "papszCategoryNames (rec_UnitType t q) = papszCategoryNames q"
  "eColorInterp (rec_UnitType t q) = eColorInterp q"
  "poDefaultRAT (rec_UnitType t q) = poDefaultRAT q"
  "bHaveMinMax (rec_UnitType t q) = bHaveMinMax q" "dfMin (rec_UnitType t q) = dfMin q"
  "dfMax (rec_UnitType t q) = dfMax q" "bHaveStats (rec_UnitType t q) = bHaveStats q"
  "dfMean (rec_UnitType t q) = dfMean q" "dfStdDev (rec_UnitType t q) = dfStdDev q"
  "psSavedHistograms (rec_UnitType t q) = psSavedHistograms q"
  "poParentDS (rec_ColorInterp E t q) = poParentDS q"
  "bNoDataValueSet (rec_ColorInterp E t q) = bNoDataValueSet q"
  "bNoDataValueSetAsInt64 (rec_ColorInterp E t q) = bNoDataValueSetAsInt64 q"
  "bNoDataValueSetAsUInt64 (rec_ColorInterp E t q) = bNoDataValueSetAsUInt64 q"
  "dfNoDataValue (rec_ColorInterp E t q) = dfNoDataValue q"
  "nNoDataValueInt64 (rec_ColorInterp E t q) = nNoDataValueInt64 q"
  "nNoDataValueUInt64 (rec_ColorInterp E t q) = nNoDataValueUInt64 q"
  "poColorTable (rec_ColorInterp E t q) = poColorTable q"
  "pszUnitType (rec_ColorInterp E t q) = pszUnitType q"
  "papszCategoryNames (rec_ColorInterp E t q) = papszCategoryNames q"
  "poDefaultRAT (rec_ColorInterp E t q) = poDefaultRAT q"
  "bHaveMinMax (rec_ColorInterp E t q) = bHaveMinMax q" "dfMin (rec_ColorInterp E t q) = dfMin q"
  "dfMax (rec_ColorInterp E t q) = dfMax q" "bHaveStats (rec_ColorInterp E t q) = bHaveStats q"
  "dfMean (rec_ColorInterp E t q) = dfMean q" "dfStdDev (rec_ColorInterp E t q) = dfStdDev q"
  "psSavedHistograms (rec_ColorInterp E t q) = psSavedHistograms q"
  "poParentDS (rec_CategoryNames t q) = poParentDS q"
  "bNoDataValueSet (rec_CategoryNames t q) = bNoDataValueSet q"
  "bNoDataValueSetAsInt64 (rec_CategoryNames t q) = bNoDataValueSetAsInt64 q"
  "bNoDataValueSetAsUInt64 (rec_CategoryNames t q) = bNoDataValueSetAsUInt64 q"
  "dfNoDataValue (rec_CategoryNames t q) = dfNoDataValue q"
  "nNoDataValueInt64 (rec_CategoryNames t q) = nNoDataValueInt64 q"
  "nNoDataValueUInt64 (rec_CategoryNames t q) = nNoDataValueUInt64 q"
  "poColorTable (rec_CategoryNames t q) = poColorTable q"
  "pszUnitType (rec_CategoryNames t q) = pszUnitType q"
  "eColorInterp (rec_CategoryNames t q) = eColorInterp q"
  "poDefaultRAT (rec_CategoryNames t q) = poDefaultRAT q"
  "bHaveMinMax (rec_CategoryNames t q) = bHaveMinMax q" "dfMin (rec_CategoryNames t q) = dfMin q"
  "dfMax (rec_CategoryNames t q) = dfMax q" "bHaveStats (rec_CategoryNames t q) = bHaveStats q"
  "dfMean (rec_CategoryNames t q) = dfMean q" "dfStdDev (rec_CategoryNames t q) = dfStdDev q"
  "psSavedHistograms (rec_CategoryNames t q) = psSavedHistograms q"
  "poParentDS (rec_ColorTable t q) = poParentDS q"
  "bNoDataValueSet (rec_ColorTable t q) = bNoDataValueSet q"
  "bNoDataValueSetAsInt64 (rec_ColorTable t q) = bNoDataValueSetAsInt64 q"
  "bNoDataValueSetAsUInt64 (rec_ColorTable t q) = bNoDataValueSetAsUInt64 q"
  "dfNoDataValue (rec_ColorTable t q) = dfNoDataValue q"
  "nNoDataValueInt64 (rec_ColorTable t q) = nNoDataValueInt64 q"
  "nNoDataValueUInt64 (rec_ColorTable t q) = nNoDataValueUInt64 q"
  "pszUnitType (rec_ColorTable t q) = pszUnitType q"
  "papszCategoryNames (rec_ColorTable t q) = papszCategoryNames q"
  "poDefaultRAT (rec_ColorTable t q) = poDefaultRAT q"
  "bHaveMinMax (rec_ColorTable t q) = bHaveMinMax q" "dfMin (rec_ColorTable t q) = dfMin q"
  "dfMax (rec_ColorTable t q) = dfMax q" "bHaveStats (rec_ColorTable t q) = bHaveStats q"
  "dfMean (rec_ColorTable t q) = dfMean q" "dfStdDev (rec_ColorTable t q) = dfStdDev q"
  "psSavedHistograms (rec_ColorTable t q) = psSavedHistograms q"
  "poParentDS (rec_MinMax E t q) = poParentDS q"
  "bNoDataValueSet (rec_MinMax E t q) = bNoDataValueSet q"
  "bNoDataValueSetAsInt64 (rec_MinMax E t q) = bNoDataValueSetAsInt64 q"
  "bNoDataValueSetAsUInt64 (rec_MinMax E t q) = bNoDataValueSetAsUInt64 q"
  "dfNoDataValue (rec_MinMax E t q) = dfNoDataValue q"
  "nNoDataValueInt64 (rec_MinMax E t q) = nNoDataValueInt64 q"
  "nNoDataValueUInt64 (rec_MinMax E t q) = nNoDataValueUInt64 q"
  "poColorTable (rec_MinMax E t q) = poColorTable q"
  "pszUnitType (rec_MinMax E t q) = pszUnitType q"
  "papszCategoryNames (rec_MinMax E t q) = papszCategoryNames q"
  "eColorInterp (rec_MinMax E t q) = eColorInterp q"
  "poDefaultRAT (rec_MinMax E t q) = poDefaultRAT q" "bHaveStats (rec_MinMax E t q) = bHaveStats q"
  "dfMean (rec_MinMax E t q) = dfMean q" "dfStdDev (rec_MinMax E t q) = dfStdDev q"
  "psSavedHistograms (rec_MinMax E t q) = psSavedHistograms q"
  "poParentDS (rec_Stats E t q) = poParentDS q"
  "bNoDataValueSet (rec_Stats E t q) = bNoDataValueSet q"
  "bNoDataValueSetAsInt64 (rec_Stats E t q) = bNoDataValueSetAsInt64 q"
  "bNoDataValueSetAsUInt64 (rec_Stats E t q) = bNoDataValueSetAsUInt64 q"
  "dfNoDataValue (rec_Stats E t q) = dfNoDataValue q"
  "nNoDataValueInt64 (rec_Stats E t q) = nNoDataValueInt64 q"
  "nNoDataValueUInt64 (rec_Stats E t q) = nNoDataValueUInt64 q"
  "poColorTable (rec_Stats E t q) = poColorTable q" "pszUnitType (rec_Stats E t q) = pszUnitType q"
  "papszCategoryNames (rec_Stats E t q) = papszCategoryNames q"
  "eColorInterp (rec_Stats E t q) = eColorInterp q"
  "poDefaultRAT (rec_Stats E t q) = poDefaultRAT q" "bHaveMinMax (rec_Stats E t q) = bHaveMinMax q"
  "dfMin (rec_Stats E t q) = dfMin q" "dfMax (rec_Stats E t q) = dfMax q"
  "psSavedHistograms (rec_Stats E t q) = psSavedHistograms q"
  "poParentDS (rec_Histograms t q) = poParentDS q"
  "bNoDataValueSet (rec_Histograms t q) = bNoDataValueSet q"
  "bNoDataValueSetAsInt64 (rec_Histograms t q) = bNoDataValueSetAsInt64 q"
  "bNoDataValueSetAsUInt64 (rec_Histograms t q) = bNoDataValueSetAsUInt64 q"
  "dfNoDataValue (rec_Histograms t q) = dfNoDataValue q"
  "nNoDataValueInt64 (rec_Histograms t q) = nNoDataValueInt64 q"
  "nNoDataValueUInt64 (rec_Histograms t q) = nNoDataValueUInt64 q"
  "poColorTable (rec_Histograms t q) = poColorTable q"
  "pszUnitType (rec_Histograms t q) = pszUnitType q"
  "papszCategoryNames (rec_Histograms t q) = papszCategoryNames q"
  "eColorInterp (rec_Histograms t q) = eColorInterp q"
  "poDefaultRAT (rec_Histograms t q) = poDefaultRAT q"
  "bHaveMinMax (rec_Histograms t q) = bHaveMinMax q" "dfMin (rec_Histograms t q) = dfMin q"
  "dfMax (rec_Histograms t q) = dfMax q" "bHaveStats (rec_Histograms t q) = bHaveStats q"
  "dfMean (rec_Histograms t q) = dfMean q" "dfStdDev (rec_Histograms t q) = dfStdDev q"
  "poParentDS (rec_RAT E t q) = poParentDS q" "bNoDataValueSet (rec_RAT E t q) = bNoDataValueSet q"
  "bNoDataValueSetAsInt64 (rec_RAT E t q) = bNoDataValueSetAsInt64 q"
  "bNoDataValueSetAsUInt64 (rec_RAT E t q) = bNoDataValueSetAsUInt64 q"
  "dfNoDataValue (rec_RAT E t q) = dfNoDataValue q"
  "nNoDataValueInt64 (rec_RAT E t q) = nNoDataValueInt64 q"
  "nNoDataValueUInt64 (rec_RAT E t q) = nNoDataValueUInt64 q"
  "poColorTable (rec_RAT E t q) = poColorTable q" "pszUnitType (rec_RAT E t q) = pszUnitType q"
  "papszCategoryNames (rec_RAT E t q) = papszCategoryNames q"
  "eColorInterp (rec_RAT E t q) = eColorInterp q" "bHaveMinMax (rec_RAT E t q) = bHaveMinMax q"
  "dfMin (rec_RAT E t q) = dfMin q" "dfMax (rec_RAT E t q) = dfMax q"
  "bHaveStats (rec_RAT E t q) = bHaveStats q" "dfMean (rec_RAT E t q) = dfMean q"
  "dfStdDev (rec_RAT E t q) = dfStdDev q" "psSavedHistograms (rec_RAT E t q) = psSavedHistograms q"
  by (simp_all add: rec_NoDataValue_def rec_SetNoDataValue_def rec_SetNoDataValueAsInt64_def
      rec_SetNoDataValueAsUInt64_def ResetNoDataValues_def rec_OffsetScale_def rec_SetOffset_def
      rec_SetScale_def rec_UnitType_def rec_ColorInterp_def rec_CategoryNames_def
      rec_ColorTable_def rec_SetColorTable_def rec_MinMax_def rec_Stats_def rec_Histograms_def
      rec_RAT_def split: option.split)

lemma Serialize_Entry_eq:
  "Serialize_Entry e =
     CPLXMLNode CXT_Element ''Entry''
       [CPLXMLNode CXT_Attribute ''c1'' [CPLXMLNode CXT_Text (Printf_d (c1 e)) []],
        CPLXMLNode CXT_Attribute ''c2'' [CPLXMLNode CXT_Text (Printf_d (c2 e)) []],
        CPLXMLNode CXT_Attribute ''c3'' [CPLXMLNode CXT_Text (Printf_d (c3 e)) []],
        CPLXMLNode CXT_Attribute ''c4'' [CPLXMLNode CXT_Text (Printf_d (c4 e)) []]]"
  by (simp add: Serialize_Entry_def SetXMLValue_def Let_def EQUAL_def)

lemma cast_short_atoi_Printf_d: "short_range c \<Longrightarrow> cast_short (atoi (Printf_d c)) = c"
  by (simp add: short_range_def atoi_Printf_d cast_short_def signed_take_bit_int_eq_self)

lemma XMLInit_Entry_Serialize_Entry:
  "short_range (c1 e) \<Longrightarrow> short_range (c2 e) \<Longrightarrow> short_range (c3 e) \<Longrightarrow> short_range (c4 e) \<Longrightarrow>
   XMLInit_Entry (Serialize_Entry e) = e"
  by (simp add: XMLInit_Entry_def Serialize_Entry_eq CPLGetXMLValueD_def CPLGetXMLValue_def
      EQUAL_def cast_short_atoi_Printf_d)

lemma entries_round_trip:
  "\<forall>e \<in> set tab. short_range (c1 e) \<and> short_range (c2 e) \<and> short_range (c3 e) \<and> short_range (c4 e) \<Longrightarrow>
   map XMLInit_Entry
     (filter (\<lambda>psEntry. eType psEntry = CXT_Element \<and> EQUAL (pszValue psEntry) ''Entry'')
        (map Serialize_Entry tab)) = tab"
proof (induction tab)
  case Nil
  then show ?case by simp
next
  case (Cons e tab)
  have "eType (Serialize_Entry e) = CXT_Element \<and> EQUAL (pszValue (Serialize_Entry e)) ''Entry''"
    by (simp add: Serialize_Entry_eq EQUAL_def)
  then show ?case using Cons by (simp add: XMLInit_Entry_Serialize_Entry)
qed

lemma categories_round_trip:
  "map (\<lambda>psEntry. case psChild psEntry of [] \<Rightarrow> [] | c # _ \<Rightarrow> pszValue c)
     (filter is_Category (map (CPLCreateXMLElementAndValue ''Category'') names)) = names"
  by (induction names) (simp_all add: is_Category_def CPLCreateXMLElementAndValue_def EQUAL_def)

lemma int64_text_round_trip: "word_of_int (strtoll (Printf_d (sint v))) = (v :: 64 word)"
proof -
  have "- (2 ^ 63) \<le> sint v" "sint v < 2 ^ 63"
    using sint_ge [of v] sint_lt [of v] by simp_all
  then show ?thesis by (simp add: strtoll_Printf_d)
qed

lemma uint64_text_round_trip: "strtoull (Printf_u (unat v)) = (v :: 64 word)"
proof -
  have "unat v < 2 ^ 64" using unsigned_less [of v] by simp
  then show ?thesis by (simp add: strtoull_Printf_u)
qed

lemma d_eq_not_nan: "d_eq a b \<Longrightarrow> \<not> CPLIsNan a"
  by (simp add: d_eq_def)

lemma round_trip_UnitType:
  assumes cn: "children_named E b p" and "pszUnitType p \<noteq> Some []" and "pszUnitType q = None"
  shows "pszUnitType (rec_XMLInit E (CPLXMLNode CXT_Element nm (PAMRasterBand_children E b p)) ty q)
         = pszUnitType p"
  using assms(2,3)
  by (cases "pszUnitType p")
     (simp_all add: rec_XMLInit_def rec_UnitType_def lookup_UnitType [OF cn] unit_or_none_def)

lemma round_trip_OffsetScale:
  fixes nm ty
  assumes cn: "children_named E b p"
    and "\<not> bOffsetSet q" "\<not> bScaleSet q" "dfOffset q = d_0" "dfScale q = d_1"
    and "d_ne (dfOffset p) d_0 \<longrightarrow> CPLAtof E (Printf_16g E (dfOffset p)) = dfOffset p"
    and "d_ne (dfScale p) d_1 \<longrightarrow> CPLAtof E (Printf_16g E (dfScale p)) = dfScale p"
  defines "q' \<equiv> rec_XMLInit E (CPLXMLNode CXT_Element nm (PAMRasterBand_children E b p)) ty q"
  shows "bOffsetSet q' = (d_ne (dfOffset p) d_0 \<or> d_ne (dfScale p) d_1)"
    and "bScaleSet q' = (d_ne (dfOffset p) d_0 \<or> d_ne (dfScale p) d_1)"
    and "dfOffset q' = (if d_ne (dfOffset p) d_0 then dfOffset p else d_0)"
    and "dfScale q' = (if d_ne (dfScale p) d_1 then dfScale p else d_1)"
  using assms(2-7)
  by (simp_all add: q'_def rec_XMLInit_def rec_OffsetScale_def rec_SetOffset_def rec_SetScale_def
      lookup_Offset [OF cn] lookup_Scale [OF cn])

lemma round_trip_ColorInterp:
  assumes cn: "children_named E b p"
    and "eColorInterp q = GCI_Undefined"
    and "poColorTable p \<noteq> None \<longrightarrow> eColorInterp p = GCI_PaletteIndex"
    and "eColorInterp p \<noteq> GCI_Undefined \<longrightarrow>
         GDALGetColorInterpretationByName E (GDALGetColorInterpretationName E (eColorInterp p))
         = eColorInterp p"
  shows "eColorInterp (rec_XMLInit E (CPLXMLNode CXT_Element nm (PAMRasterBand_children E b p)) ty q)
         = eColorInterp p"
  using assms(2-4)
  by (cases "poColorTable p")
     (simp_all add: rec_XMLInit_def rec_ColorTable_def rec_SetColorTable_def rec_ColorInterp_def
        lookup_ColorTable [OF cn] lookup_ColorInterp [OF cn])

lemma round_trip_CategoryNames:
  assumes cn: "children_named E b p"
    and "papszCategoryNames p \<noteq> Some []" and "papszCategoryNames q = None"
  shows "papszCategoryNames
           (rec_XMLInit E (CPLXMLNode CXT_Element nm (PAMRasterBand_children E b p)) ty q)
         = papszCategoryNames p"
proof (cases "papszCategoryNames p")
  case None
  then show ?thesis
    using assms(3) by (simp add: rec_XMLInit_def rec_CategoryNames_def lookup_CategoryNames [OF cn])
next
  case (Some names)
  then have ne: "names \<noteq> []" using assms(2) by auto
  then have "CSLDuplicate (Some names) = Some names"
    by (cases names) (simp_all add: CSLDuplicate_def)
  then show ?thesis
    using Some ne
    by (simp add: rec_XMLInit_def rec_CategoryNames_def lookup_CategoryNames [OF cn]
        categories_round_trip Let_def)
qed

lemma round_trip_ColorTable:
  assumes cn: "children_named E b p"
    and "\<forall>tab. poColorTable p = Some tab \<longrightarrow>
           (\<forall>e \<in> set tab. short_range (c1 e) \<and> short_range (c2 e) \<and> short_range (c3 e) \<and>
              short_range (c4 e))"
    and "poColorTable q = None"
  shows "poColorTable (rec_XMLInit E (CPLXMLNode CXT_Element nm (PAMRasterBand_children E b p)) ty q)
         = poColorTable p"
proof (cases "poColorTable p")
  case None
  then show ?thesis
    using assms(3) by (simp add: rec_XMLInit_def rec_ColorTable_def lookup_ColorTable [OF cn])
next
  case (Some tab)
  then have "\<forall>e \<in> set tab. short_range (c1 e) \<and> short_range (c2 e) \<and> short_range (c3 e) \<and>
      short_range (c4 e)"
    using assms(2) by simp
  from entries_round_trip [OF this] show ?thesis
    using Some
    by (simp add: rec_XMLInit_def rec_ColorTable_def rec_SetColorTable_def lookup_ColorTable [OF cn])
qed

lemma round_trip_MinMax:
  fixes nm ty
  assumes cn: "children_named E b p"
    and "\<not> bHaveMinMax q"
    and "bHaveMinMax p \<longrightarrow> CPLAtofM E (Printf_16g E (dfMin p)) = dfMin p \<and>
           CPLAtofM E (Printf_16g E (dfMax p)) = dfMax p"
  defines "q' \<equiv> rec_XMLInit E (CPLXMLNode CXT_Element nm (PAMRasterBand_children E b p)) ty q"
  shows "bHaveMinMax q' = bHaveMinMax p"
    and "bHaveMinMax p \<longrightarrow> dfMin q' = dfMin p \<and> dfMax q' = dfMax p"
  using assms(2,3)
  by (simp_all add: q'_def rec_XMLInit_def rec_MinMax_def lookup_Minimum [OF cn] lookup_Maximum [OF cn])

lemma round_trip_Stats:
  fixes nm ty
  assumes cn: "children_named E b p"
    and "\<not> bHaveStats q"
    and "bHaveStats p \<longrightarrow> CPLAtofM E (Printf_16g E (dfMean p)) = dfMean p \<and>
           CPLAtofM E (Printf_16g E (dfStdDev p)) = dfStdDev p"
  defines "q' \<equiv> rec_XMLInit E (CPLXMLNode CXT_Element nm (PAMRasterBand_children E b p)) ty q"
  shows "bHaveStats q' = bHaveStats p"
    and "bHaveStats p \<longrightarrow> dfMean q' = dfMean p \<and> dfStdDev q' = dfStdDev p"
  using assms(2,3)
  by (simp_all add: q'_def rec_XMLInit_def rec_Stats_def lookup_Mean [OF cn]
      lookup_StandardDeviation [OF cn])

lemma round_trip_Histograms:
  assumes cn: "children_named E b p" and "psSavedHistograms q = None"
  shows "psSavedHistograms
           (rec_XMLInit E (CPLXMLNode CXT_Element nm (PAMRasterBand_children E b p)) ty q)
         = psSavedHistograms p"
  using assms(2)
  by (cases "psSavedHistograms p")
     (simp_all add: rec_XMLInit_def rec_Histograms_def lookup_Histograms [OF cn])

lemma round_trip_RAT:
  assumes cn: "children_named E b p" and "poDefaultRAT q = None"
    and "\<forall>rat. poDefaultRAT p = Some rat \<longrightarrow>
           (\<exists>n. RAT_Serialize E rat = Some n \<and> RAT_XMLInit E n = rat)"
  shows "poDefaultRAT (rec_XMLInit E (CPLXMLNode CXT_Element nm (PAMRasterBand_children E b p)) ty q)
         = poDefaultRAT p"
proof (cases "poDefaultRAT p")
  case None
  then show ?thesis
    using assms(2) by (simp add: rec_XMLInit_def rec_RAT_def lookup_RAT [OF cn])
next
  case (Some rat)
  then obtain n where "RAT_Serialize E rat = Some n" "RAT_XMLInit E n = rat"
    using assms(3) by blast
  then show ?thesis
    using Some by (simp add: rec_XMLInit_def rec_RAT_def lookup_RAT [OF cn])
qed

lemma round_trip_NoDataValue:
  fixes nm ty
  assumes cn: "children_named E b p"
    and fresh: "\<not> bNoDataValueSet q" "\<not> bNoDataValueSetAsInt64 q" "\<not> bNoDataValueSetAsUInt64 q"
    and one: "length (filter id (nodata_flags p)) \<le> 1"
    and ty: "bNoDataValueSet p \<longrightarrow> ty \<noteq> GDT_Int64 \<and> ty \<noteq> GDT_UInt64"
      "bNoDataValueSetAsInt64 p \<longrightarrow> ty = GDT_Int64"
      "bNoDataValueSetAsUInt64 p \<longrightarrow> ty = GDT_UInt64"
  defines "q' \<equiv> rec_XMLInit E (CPLXMLNode CXT_Element nm (PAMRasterBand_children E b p)) ty q"
  shows "bNoDataValueSet q' = bNoDataValueSet p \<and>
         bNoDataValueSetAsInt64 q' = bNoDataValueSetAsInt64 p \<and>
         bNoDataValueSetAsUInt64 q' = bNoDataValueSetAsUInt64 p \<and>
         (bNoDataValueSet p \<longrightarrow>
            (if d_ne (dfNoDataValue p) (floor_double E (dfNoDataValue p)) \<or>
                d_ne (dfNoDataValue p) (CPLAtof E (Printf_14E E (dfNoDataValue p)))
             then dfNoDataValue q' = dfNoDataValue p
             else d_eq (dfNoDataValue q') (dfNoDataValue p))) \<and>
         (bNoDataValueSetAsInt64 p \<longrightarrow> nNoDataValueInt64 q' = nNoDataValueInt64 p) \<and>
         (bNoDataValueSetAsUInt64 p \<longrightarrow> nNoDataValueUInt64 q' = nNoDataValueUInt64 p)"
proof -
  let ?hex = "d_ne (dfNoDataValue p) (floor_double E (dfNoDataValue p)) \<or>
       d_ne (dfNoDataValue p) (CPLAtof E (Printf_14E E (dfNoDataValue p)))"
  note defs = q'_def rec_XMLInit_def rec_NoDataValue_def lookup_NoDataValue [OF cn]
    lookup_le_hex_equiv [OF cn] rec_SetNoDataValue_def rec_SetNoDataValueAsInt64_def
    rec_SetNoDataValueAsUInt64_def ResetNoDataValues_def hex_round_trip of_le_bytes_le_bytes
    int64_text_round_trip uint64_text_round_trip
  consider (d) "bNoDataValueSet p" "?hex"
    | (e) "bNoDataValueSet p" "\<not> ?hex"
    | (i) "\<not> bNoDataValueSet p" "bNoDataValueSetAsInt64 p"
    | (u) "\<not> bNoDataValueSet p" "\<not> bNoDataValueSetAsInt64 p" "bNoDataValueSetAsUInt64 p"
    | (n) "\<not> bNoDataValueSet p" "\<not> bNoDataValueSetAsInt64 p" "\<not> bNoDataValueSetAsUInt64 p"
    by blast
  then show ?thesis
  proof cases
    case d
    then have "\<not> bNoDataValueSetAsInt64 p" "\<not> bNoDataValueSetAsUInt64 p"
      using one by (simp_all add: nodata_flags_def split: if_splits)
    then show ?thesis using d by (simp add: defs)
  next
    case e
    then have o: "\<not> bNoDataValueSetAsInt64 p" "\<not> bNoDataValueSetAsUInt64 p"
      using one by (simp_all add: nodata_flags_def split: if_splits)
    from e have eq: "d_eq (dfNoDataValue p) (floor_double E (dfNoDataValue p))"
        "d_eq (dfNoDataValue p) (CPLAtof E (Printf_14E E (dfNoDataValue p)))"
      by (simp_all add: d_ne_def)
    from eq(1) have nn: "\<not> CPLIsNan (dfNoDataValue p)" by (rule d_eq_not_nan)
    from eq(2) have "d_eq (CPLAtof E (Printf_14E E (dfNoDataValue p))) (dfNoDataValue p)"
      by (simp add: d_eq_sym)
    then show ?thesis using e o ty(1) nn by (simp add: defs)
  next
    case i
    then have "\<not> bNoDataValueSetAsUInt64 p"
      using one by (simp add: nodata_flags_def split: if_splits)
    then show ?thesis using i ty(2) by (simp add: defs)
  next
    case u
    then show ?thesis using ty(3) by (simp add: defs)
  next
    case n
    then show ?thesis using fresh by (simp add: defs)
  qed
qed

lemma fresh_record:
  "psPam b0 = None \<Longrightarrow> psPam (PamInitialize E b0) = Some q0 \<Longrightarrow>
   q0 = (new_GDALRasterBandPamInfo E)\<lparr>poParentDS := True\<rparr>"
  by (auto simp: PamInitialize_def CPLError_def split: option.splits if_splits)

lemma children_named_not_attribute:
  assumes "children_named E b p"
  shows "\<forall>hs. psSavedHistograms p = Some hs \<longrightarrow> eType hs \<noteq> CXT_Attribute"
    and "\<forall>rat n. poDefaultRAT p = Some rat \<and> RAT_Serialize E rat = Some n \<longrightarrow> eType n \<noteq> CXT_Attribute"
    and "\<forall>n \<in> set (MDMD_Serialize E (oMDMD b)). eType n \<noteq> CXT_Attribute"
  using assms by (auto simp: children_named_def)

lemma SerializeToXML_tree:
  assumes "psPam b = Some p" and cn: "children_named E b p"
    and "SerializeToXML E b = Some psTree"
  shows "psTree = CPLXMLNode CXT_Element ''PAMRasterBand'' (PAMRasterBand_children E b p)"
  using assms(3)
  by (simp add: SerializeToXML_children [OF assms(1) children_named_not_attribute [OF cn]]
      split: list.splits)

subsection \<open>The round trip through the document\<close>

text \<open>
  Claim C1, amended. Let a band hold a record that serialises to a document, and let the
  document be read by \<^verbatim>\<open>XMLInit\<close> into a band of the same pixel type that has no record
  yet and can be given one. Suppose that at most one nodata flag is set and the variant
  set is the one of the pixel type (the integer variants on \<^verbatim>\<open>Int64\<close> and \<^verbatim>\<open>UInt64\<close>
  bands, the double variant on the others); that the unit type is not the empty string and
  the category names are not the empty list; that the channels of the colour entries are
  in the range of a \<^verbatim>\<open>short\<close>; that a record with a colour table has the colour
  interpretation \<^verbatim>\<open>GCI_PaletteIndex\<close>; that the name of the colour interpretation is
  looked up to the same interpretation; that the 16-digit text of each offset, scale,
  minimum, maximum, mean and standard deviation that is written reads back to the same
  double; that the histogram list is an element \<^verbatim>\<open>Histograms\<close>; that the attribute table
  serialises to an element \<^verbatim>\<open>GDALRasterAttributeTable\<close> from which it is read back; and
  that the metadata store serialises to elements \<^verbatim>\<open>Metadata\<close>. Then \<^verbatim>\<open>XMLInit\<close> returns
  normally, and the band it leaves has the description of the original and a record equal
  to the original in: the three nodata flags and the value of the variant set (bit for
  bit when the hexadecimal form was written, equal by \<^verbatim>\<open>==\<close> otherwise), the unit type,
  the colour interpretation, the category names, the colour table, the minimum and
  maximum, the mean and standard deviation, the histogram list and the attribute table.
  An offset that differs from 0.0 and a scale that differs from 1.0 come back as they
  were, the others as 0.0 and 1.0; both are marked set exactly when one of them was
  written.
\<close>

theorem XMLInit_SerializeToXML_round_trip:
  assumes rec: "psPam b = Some p"
    and ser: "SerializeToXML E b = Some psTree"
    and fresh: "psPam b0 = None" "psPam (PamInitialize E b0) \<noteq> None"
    and ty: "eDataType b0 = eDataType b"
    and one: "nodata_flag_count b \<le> 1"
    and nd: "bNoDataValueSet p \<longrightarrow> eDataType b \<noteq> GDT_Int64 \<and> eDataType b \<noteq> GDT_UInt64"
      "bNoDataValueSetAsInt64 p \<longrightarrow> eDataType b = GDT_Int64"
      "bNoDataValueSetAsUInt64 p \<longrightarrow> eDataType b = GDT_UInt64"
    and unit: "pszUnitType p \<noteq> Some []"
    and cats: "papszCategoryNames p \<noteq> Some []"
    and tab: "\<forall>tab. poColorTable p = Some tab \<longrightarrow>
           (\<forall>e \<in> set tab. short_range (c1 e) \<and> short_range (c2 e) \<and> short_range (c3 e) \<and>
              short_range (c4 e))"
    and pal: "poColorTable p \<noteq> None \<longrightarrow> eColorInterp p = GCI_PaletteIndex"
    and ci: "eColorInterp p \<noteq> GCI_Undefined \<longrightarrow>
         GDALGetColorInterpretationByName E (GDALGetColorInterpretationName E (eColorInterp p))
         = eColorInterp p"
    and off: "d_ne (dfOffset p) d_0 \<longrightarrow> CPLAtof E (Printf_16g E (dfOffset p)) = dfOffset p"
    and sc: "d_ne (dfScale p) d_1 \<longrightarrow> CPLAtof E (Printf_16g E (dfScale p)) = dfScale p"
    and mm: "bHaveMinMax p \<longrightarrow> CPLAtofM E (Printf_16g E (dfMin p)) = dfMin p \<and>
           CPLAtofM E (Printf_16g E (dfMax p)) = dfMax p"
    and st: "bHaveStats p \<longrightarrow> CPLAtofM E (Printf_16g E (dfMean p)) = dfMean p \<and>
           CPLAtofM E (Printf_16g E (dfStdDev p)) = dfStdDev p"
    and hist: "\<forall>hs. psSavedHistograms p = Some hs \<longrightarrow>
           eType hs = CXT_Element \<and> EQUAL (pszValue hs) ''Histograms''"
    and rat: "\<forall>rat. poDefaultRAT p = Some rat \<longrightarrow>
           (\<exists>n. RAT_Serialize E rat = Some n \<and> eType n = CXT_Element \<and>
                EQUAL (pszValue n) ''GDALRasterAttributeTable'' \<and> RAT_XMLInit E n = rat)"
    and md: "\<forall>n \<in> set (MDMD_Serialize E (oMDMD b)).
           eType n = CXT_Element \<and> EQUAL (pszValue n) ''Metadata''"
  shows "case XMLInit E psTree b0 of
           Inl crash \<Rightarrow> False
         | Inr b' \<Rightarrow>
             (case psPam b' of
                None \<Rightarrow> False
              | Some p' \<Rightarrow>
                  sDescription b' = sDescription b \<and>
                  bNoDataValueSet p' = bNoDataValueSet p \<and>
                  bNoDataValueSetAsInt64 p' = bNoDataValueSetAsInt64 p \<and>
                  bNoDataValueSetAsUInt64 p' = bNoDataValueSetAsUInt64 p \<and>
                  (bNoDataValueSet p \<longrightarrow>
                     (if d_ne (dfNoDataValue p) (floor_double E (dfNoDataValue p)) \<or>
                         d_ne (dfNoDataValue p) (CPLAtof E (Printf_14E E (dfNoDataValue p)))
                      then dfNoDataValue p' = dfNoDataValue p
                      else d_eq (dfNoDataValue p') (dfNoDataValue p))) \<and>
                  (bNoDataValueSetAsInt64 p \<longrightarrow> nNoDataValueInt64 p' = nNoDataValueInt64 p) \<and>
                  (bNoDataValueSetAsUInt64 p \<longrightarrow> nNoDataValueUInt64 p' = nNoDataValueUInt64 p) \<and>
                  pszUnitType p' = pszUnitType p \<and>
                  bOffsetSet p' = (d_ne (dfOffset p) d_0 \<or> d_ne (dfScale p) d_1) \<and>
                  bScaleSet p' = (d_ne (dfOffset p) d_0 \<or> d_ne (dfScale p) d_1) \<and>
                  dfOffset p' = (if d_ne (dfOffset p) d_0 then dfOffset p else d_0) \<and>
                  dfScale p' = (if d_ne (dfScale p) d_1 then dfScale p else d_1) \<and>
                  eColorInterp p' = eColorInterp p \<and>
                  papszCategoryNames p' = papszCategoryNames p \<and>
                  poColorTable p' = poColorTable p \<and>
                  bHaveMinMax p' = bHaveMinMax p \<and>
                  (bHaveMinMax p \<longrightarrow> dfMin p' = dfMin p \<and> dfMax p' = dfMax p) \<and>
                  bHaveStats p' = bHaveStats p \<and>
                  (bHaveStats p \<longrightarrow> dfMean p' = dfMean p \<and> dfStdDev p' = dfStdDev p) \<and>
                  psSavedHistograms p' = psSavedHistograms p \<and>
                  poDefaultRAT p' = poDefaultRAT p)"
proof -
  from fresh(2) obtain q0 where q0: "psPam (PamInitialize E b0) = Some q0" by blast
  have q0_eq: "q0 = (new_GDALRasterBandPamInfo E)\<lparr>poParentDS := True\<rparr>"
    by (rule fresh_record [OF fresh(1) q0])
  have cn: "children_named E b p"
    using hist rat md by (fastforce simp: children_named_def)
  have rat': "\<forall>rat. poDefaultRAT p = Some rat \<longrightarrow>
      (\<exists>n. RAT_Serialize E rat = Some n \<and> RAT_XMLInit E n = rat)"
    using rat by blast
  have t: "psTree = CPLXMLNode CXT_Element ''PAMRasterBand'' (PAMRasterBand_children E b p)"
    by (rule SerializeToXML_tree [OF rec cn ser])
  have one': "length (filter id (nodata_flags p)) \<le> 1"
    using one by (simp add: nodata_flag_count_def rec)
  from XMLInit_record [OF q0, of psTree]
  obtain b' where x: "XMLInit E psTree b0 = Inr b'"
    and p': "psPam b' = Some (rec_XMLInit E psTree (eDataType b0) q0)"
    and d: "sDescription b' = CPLGetXMLValueD psTree [''Description''] []"
    by blast
  let ?q = "rec_XMLInit E (CPLXMLNode CXT_Element ''PAMRasterBand'' (PAMRasterBand_children E b p))
      (eDataType b) q0"
  have f: "\<not> bNoDataValueSet q0" "\<not> bNoDataValueSetAsInt64 q0" "\<not> bNoDataValueSetAsUInt64 q0"
      "pszUnitType q0 = None" "\<not> bOffsetSet q0" "\<not> bScaleSet q0" "dfOffset q0 = d_0"
      "dfScale q0 = d_1" "eColorInterp q0 = GCI_Undefined" "papszCategoryNames q0 = None"
      "poColorTable q0 = None" "\<not> bHaveMinMax q0" "\<not> bHaveStats q0"
      "psSavedHistograms q0 = None" "poDefaultRAT q0 = None"
    by (simp_all add: q0_eq new_GDALRasterBandPamInfo_def)
  have 1: "sDescription b' = sDescription b"
    by (simp add: d t lookup_Description [OF cn])
  note 2 = round_trip_NoDataValue [OF cn f(1-3) one' nd, of "''PAMRasterBand''"]
  note 3 = round_trip_UnitType [OF cn unit f(4), of "''PAMRasterBand''" "eDataType b"]
  note 4 = round_trip_OffsetScale [OF cn f(5-8) off sc, of "''PAMRasterBand''" "eDataType b"]
  note 5 = round_trip_ColorInterp [OF cn f(9) pal ci, of "''PAMRasterBand''" "eDataType b"]
  note 6 = round_trip_CategoryNames [OF cn cats f(10), of "''PAMRasterBand''" "eDataType b"]
  note 7 = round_trip_ColorTable [OF cn tab f(11), of "''PAMRasterBand''" "eDataType b"]
  note 8 = round_trip_MinMax [OF cn f(12) mm, of "''PAMRasterBand''" "eDataType b"]
  note 9 = round_trip_Stats [OF cn f(13) st, of "''PAMRasterBand''" "eDataType b"]
  note 10 = round_trip_Histograms [OF cn f(14), of "''PAMRasterBand''" "eDataType b"]
  note 11 = round_trip_RAT [OF cn f(15) rat', of "''PAMRasterBand''" "eDataType b"]
  show ?thesis
    unfolding x p' sum.case option.case
    unfolding t ty
    using 1 2 3 4 5 6 7 8 9 10 11 by blast
qed

lemma Printf_d_255 [simp]: "Printf_d 255 = ''255''"
  by code_simp

lemma d_ne_defaults [simp]: "\<not> d_ne d_0 d_0" "\<not> d_ne d_1 d_1"
  by (simp_all add: d_ne_def d_eq_def CPLIsNan_def d_0_def d_1_def)

lemma demo_band_gray_eq:
  "demo_band_gray =
     demo_band\<lparr>psPam := Some (demo_record\<lparr>poColorTable := Some [\<lparr>c1 = 255, c2 = 0, c3 = 0, c4 = 255\<rparr>],
                                           eColorInterp := GCI_GrayIndex\<rparr>),
                poDS := map_option (ds_dirty_update (\<lambda>_. True)) (poDS demo_band)\<rparr>"
  by (simp add: demo_band_gray_def SetColorTable_def SetColorInterpretation_def Let_def
      PamInitialize_def MarkPamDirty_def demo_band_def demo_record_def demo_env_def
      new_GDALRasterBandPamInfo_def)

lemma demo_interp_Gray [simp]: "GDALGetColorInterpretationName demo_env GCI_GrayIndex = ''Gray''"
  by (simp add: demo_env_def demo_interp_names_def)

lemma demo_MDMD [simp]: "MDMD_Serialize demo_env md = md"
  by (simp add: demo_env_def)

lemma Serialize_demo_band_gray: "SerializeToXML demo_env demo_band_gray = Some demo_doc_gray"
proof -
  let ?p = "demo_record\<lparr>poColorTable := Some [\<lparr>c1 = 255, c2 = 0, c3 = 0, c4 = 255\<rparr>],
      eColorInterp := GCI_GrayIndex\<rparr>"
  have p: "psPam demo_band_gray = Some ?p" by (simp add: demo_band_gray_eq)
  have b: "nBand demo_band_gray = 1" "sDescription demo_band_gray = []" "oMDMD demo_band_gray = []"
    by (simp_all add: demo_band_gray_eq demo_band_def)
  have k: "PAMRasterBand_children demo_env demo_band_gray ?p = psChild demo_doc_gray"
    by (simp add: PAMRasterBand_children_def NoDataValue_nodes_def b demo_record_def
        new_GDALRasterBandPamInfo_def demo_doc_gray_def Serialize_Entry_eq
        CPLCreateXMLElementAndValue_def)
  have h: "\<forall>hs. psSavedHistograms ?p = Some hs \<longrightarrow> eType hs \<noteq> CXT_Attribute"
    "\<forall>rat n. poDefaultRAT ?p = Some rat \<and> RAT_Serialize demo_env rat = Some n \<longrightarrow>
       eType n \<noteq> CXT_Attribute"
    "\<forall>n \<in> set (MDMD_Serialize demo_env (oMDMD demo_band_gray)). eType n \<noteq> CXT_Attribute"
    by (simp_all add: b demo_record_def new_GDALRasterBandPamInfo_def)
  show ?thesis
    by (simp add: SerializeToXML_children [OF p h] k demo_doc_gray_def)
qed

lemma demo_band_defaults_eq:
  "demo_band_defaults =
     demo_band\<lparr>psPam := Some (demo_record\<lparr>bOffsetSet := True, bScaleSet := True\<rparr>),
                sDescription := ''x'',
                poDS := map_option (ds_dirty_update (\<lambda>_. True)) (poDS demo_band)\<rparr>"
  by (simp add: demo_band_defaults_def SetScale_def SetOffset_def SetDescription_def Let_def
      PamInitialize_def MarkPamDirty_def demo_band_def demo_record_def demo_env_def
      new_GDALRasterBandPamInfo_def)

lemma Serialize_demo_band_defaults: "SerializeToXML demo_env demo_band_defaults = Some demo_doc_defaults"
proof -
  let ?p = "demo_record\<lparr>bOffsetSet := True, bScaleSet := True\<rparr>"
  have p: "psPam demo_band_defaults = Some ?p" by (simp add: demo_band_defaults_eq)
  have b: "nBand demo_band_defaults = 1" "sDescription demo_band_defaults = ''x''"
    "oMDMD demo_band_defaults = []"
    by (simp_all add: demo_band_defaults_eq demo_band_def)
  have k: "PAMRasterBand_children demo_env demo_band_defaults ?p = psChild demo_doc_defaults"
    by (simp add: PAMRasterBand_children_def NoDataValue_nodes_def b demo_record_def
        new_GDALRasterBandPamInfo_def demo_doc_defaults_def CPLCreateXMLElementAndValue_def)
  have h: "\<forall>hs. psSavedHistograms ?p = Some hs \<longrightarrow> eType hs \<noteq> CXT_Attribute"
    "\<forall>rat n. poDefaultRAT ?p = Some rat \<and> RAT_Serialize demo_env rat = Some n \<longrightarrow>
       eType n \<noteq> CXT_Attribute"
    "\<forall>n \<in> set (MDMD_Serialize demo_env (oMDMD demo_band_defaults)). eType n \<noteq> CXT_Attribute"
    by (simp_all add: b demo_record_def new_GDALRasterBandPamInfo_def)
  show ?thesis
    by (simp add: SerializeToXML_children [OF p h] k demo_doc_defaults_def)
qed

text \<open>
  The claim as stated fails for a record with a colour table whose colour interpretation
  was set afterwards: the document carries both, and \<^verbatim>\<open>XMLInit\<close> reads the colour
  interpretation first and the colour table second, whose setter forces
  \<^verbatim>\<open>GCI_PaletteIndex\<close>. It fails also for a record whose offset and scale have been set
  to 0.0 and 1.0: neither is written, and both come back not set.
\<close>

theorem XMLInit_SerializeToXML_round_trip_counterexample:
  "map_option eColorInterp (psPam demo_band_gray) = Some GCI_GrayIndex \<and>
   map_option poColorTable (psPam demo_band_gray) = Some (Some [\<lparr>c1 = 255, c2 = 0, c3 = 0, c4 = 255\<rparr>]) \<and>
   SerializeToXML demo_env demo_band_gray = Some demo_doc_gray \<and>
   \<not> isl (XMLInit demo_env demo_doc_gray demo_band) \<and>
   map_option eColorInterp (psPam (projr (XMLInit demo_env demo_doc_gray demo_band)))
     = Some GCI_PaletteIndex \<and>
   map_option bOffsetSet (psPam demo_band_defaults) = Some True \<and>
   map_option bScaleSet (psPam demo_band_defaults) = Some True \<and>
   SerializeToXML demo_env demo_band_defaults = Some demo_doc_defaults \<and>
   \<not> isl (XMLInit demo_env demo_doc_defaults demo_band) \<and>
   map_option bOffsetSet (psPam (projr (XMLInit demo_env demo_doc_defaults demo_band)))
     = Some False \<and>
   map_option bScaleSet (psPam (projr (XMLInit demo_env demo_doc_defaults demo_band)))
     = Some False"
proof -
  have i: "psPam (PamInitialize demo_env demo_band) = Some demo_record" by (simp add: demo_init)
  from XMLInit_record [OF i, of demo_doc_gray]
  obtain b' where x: "XMLInit demo_env demo_doc_gray demo_band = Inr b'"
    and p': "psPam b' = Some (rec_XMLInit demo_env demo_doc_gray (eDataType demo_band) demo_record)"
    by blast
  have c: "eColorInterp (rec_XMLInit demo_env demo_doc_gray ty q) = GCI_PaletteIndex" for ty q
    by (simp add: rec_XMLInit_def rec_ColorTable_def rec_SetColorTable_def demo_doc_gray_def EQUAL_def)
  have 1: "map_option eColorInterp (psPam demo_band_gray) = Some GCI_GrayIndex \<and>
   map_option poColorTable (psPam demo_band_gray) = Some (Some [\<lparr>c1 = 255, c2 = 0, c3 = 0, c4 = 255\<rparr>]) \<and>
   SerializeToXML demo_env demo_band_gray = Some demo_doc_gray \<and>
   \<not> isl (XMLInit demo_env demo_doc_gray demo_band) \<and>
   map_option eColorInterp (psPam (projr (XMLInit demo_env demo_doc_gray demo_band)))
     = Some GCI_PaletteIndex"
    by (simp add: Serialize_demo_band_gray x p' c) (simp add: demo_band_gray_eq)
  from XMLInit_record [OF i, of demo_doc_defaults]
  obtain b2 where x2: "XMLInit demo_env demo_doc_defaults demo_band = Inr b2"
    and p2: "psPam b2 = Some (rec_XMLInit demo_env demo_doc_defaults (eDataType demo_band) demo_record)"
    by blast
  have v: "CPLGetXMLValue demo_doc_defaults [''Offset''] None = None"
    "CPLGetXMLValue demo_doc_defaults [''Scale''] None = None"
    by (simp_all add: CPLGetXMLValue_def demo_doc_defaults_def EQUAL_def)
  have f: "\<not> bOffsetSet (rec_XMLInit demo_env demo_doc_defaults ty demo_record)"
    "\<not> bScaleSet (rec_XMLInit demo_env demo_doc_defaults ty demo_record)" for ty
    by (simp_all add: rec_XMLInit_def rec_OffsetScale_def v demo_record_def
        new_GDALRasterBandPamInfo_def)
  have 2: "map_option bOffsetSet (psPam demo_band_defaults) = Some True \<and>
   map_option bScaleSet (psPam demo_band_defaults) = Some True \<and>
   SerializeToXML demo_env demo_band_defaults = Some demo_doc_defaults \<and>
   \<not> isl (XMLInit demo_env demo_doc_defaults demo_band) \<and>
   map_option bOffsetSet (psPam (projr (XMLInit demo_env demo_doc_defaults demo_band)))
     = Some False \<and>
   map_option bScaleSet (psPam (projr (XMLInit demo_env demo_doc_defaults demo_band)))
     = Some False"
    by (simp add: Serialize_demo_band_defaults x2 p2 f) (simp add: demo_band_defaults_eq)
  from 1 2 show ?thesis by blast
qed

lemma demo_text_round_trip [simp]:
  "demo_Atof (demo_Printf_16g 0) = 0"
  "demo_Atof (demo_Printf_16g 0x3FF0000000000000) = 0x3FF0000000000000"
  "demo_Atof (demo_Printf_16g 0x4000000000000000) = 0x4000000000000000"
  "demo_Atof (demo_Printf_16g 0x4004000000000000) = 0x4004000000000000"
  "demo_Atof (demo_Printf_16g 0x406FE00000000000) = 0x406FE00000000000"
  by (simp_all add: demo_Atof_def demo_Printf_16g_def demo_doubles_def)

lemma demo_band_full_fields:
  "nBand demo_band_full = 1" "sDescription demo_band_full = ''elevation''"
  "oMDMD demo_band_full = [CPLXMLNode CXT_Element ''Metadata'' []]"
  "eDataType demo_band_full = GDT_Byte" "eDataType demo_band = GDT_Byte" "psPam demo_band = None"
  by (simp_all add: demo_band_full_def demo_band_def)

text \<open>The round trip of a band with a value in every field.\<close>

theorem XMLInit_SerializeToXML_round_trip_witness:
  "case SerializeToXML demo_env demo_band_full of
     None \<Rightarrow> False
   | Some psTree \<Rightarrow>
       (case XMLInit demo_env psTree demo_band of
          Inl crash \<Rightarrow> False
        | Inr b' \<Rightarrow>
            (case psPam b' of
               None \<Rightarrow> False
             | Some p' \<Rightarrow>
                 sDescription b' = ''elevation'' \<and>
                 bNoDataValueSet p' \<and> \<not> bNoDataValueSetAsInt64 p' \<and> \<not> bNoDataValueSetAsUInt64 p' \<and>
                 dfNoDataValue p' = 0x4004000000000000 \<and>
                 pszUnitType p' = Some ''m'' \<and>
                 bOffsetSet p' \<and> bScaleSet p' \<and>
                 dfOffset p' = 0x4004000000000000 \<and> dfScale p' = 0x4000000000000000 \<and>
                 eColorInterp p' = GCI_PaletteIndex \<and>
                 papszCategoryNames p' = Some [''water'', ''land''] \<and>
                 poColorTable p' = Some [\<lparr>c1 = 255, c2 = 0, c3 = 0, c4 = 255\<rparr>] \<and>
                 bHaveMinMax p' \<and> dfMin p' = 0 \<and> dfMax p' = 0x406FE00000000000 \<and>
                 bHaveStats p' \<and> dfMean p' = 0x4000000000000000 \<and> dfStdDev p' = 0x3FF0000000000000 \<and>
                 psSavedHistograms p' = Some (CPLXMLNode CXT_Element ''Histograms''
                   [HistItem_node ''0'' ''255'' ''2'' ''1'' ''0'' ''3|4'']) \<and>
                 poDefaultRAT p' = Some (CPLXMLNode CXT_Element ''GDALRasterAttributeTable'' [])))"
proof -
  define p where "p = the (psPam demo_band_full)"
  have r: "psPam demo_band_full = Some p" by (simp add: p_def demo_band_full_def)
  have p: "p = demo_record\<lparr>
         bNoDataValueSet := True, dfNoDataValue := 0x4004000000000000,
         poColorTable := Some [\<lparr>c1 = 255, c2 = 0, c3 = 0, c4 = 255\<rparr>],
         dfOffset := 0x4004000000000000, dfScale := 0x4000000000000000,
         bOffsetSet := True, bScaleSet := True,
         pszUnitType := Some ''m'', papszCategoryNames := Some [''water'', ''land''],
         eColorInterp := GCI_PaletteIndex,
         poDefaultRAT := Some (CPLXMLNode CXT_Element ''GDALRasterAttributeTable'' []),
         bHaveMinMax := True, dfMin := 0, dfMax := 0x406FE00000000000,
         bHaveStats := True, dfMean := 0x4000000000000000, dfStdDev := 0x3FF0000000000000,
         psSavedHistograms := Some (CPLXMLNode CXT_Element ''Histograms''
           [HistItem_node ''0'' ''255'' ''2'' ''1'' ''0'' ''3|4''])\<rparr>"
    by (simp add: p_def demo_band_full_def)
  define psTree where
    "psTree = CPLXMLNode CXT_Element ''PAMRasterBand'' (PAMRasterBand_children demo_env demo_band_full p)"
  have h: "\<forall>hs. psSavedHistograms p = Some hs \<longrightarrow> eType hs \<noteq> CXT_Attribute"
    "\<forall>rat n. poDefaultRAT p = Some rat \<and> RAT_Serialize demo_env rat = Some n \<longrightarrow>
       eType n \<noteq> CXT_Attribute"
    "\<forall>n \<in> set (MDMD_Serialize demo_env (oMDMD demo_band_full)). eType n \<noteq> CXT_Attribute"
    by (auto simp: p demo_band_full_fields demo_env_def)
  have k: "\<exists>x y zs. PAMRasterBand_children demo_env demo_band_full p = x # y # zs"
    by (simp add: PAMRasterBand_children_def demo_band_full_fields)
  have s: "SerializeToXML demo_env demo_band_full = Some psTree"
    using k by (auto simp: SerializeToXML_children [OF r h] psTree_def)
  have d: "d_ne 0x4004000000000000 d_0" "d_ne 0x4000000000000000 d_1"
    "d_ne 0x4004000000000000 0x4000000000000000"
    by (simp_all add: d_ne_def d_eq_def CPLIsNan_def d_is_zero_def d_0_def d_1_def)
  have n: "GDALGetColorInterpretationByName demo_env
      (GDALGetColorInterpretationName demo_env GCI_PaletteIndex) = GCI_PaletteIndex"
    by (simp add: demo_env_def demo_interp_names_def EQUAL_def)
  have e: "RAT_Serialize demo_env = Some" "RAT_XMLInit demo_env x = x"
    "floor_double demo_env 0x4004000000000000 = 0x4000000000000000" for x
    by (simp_all add: demo_env_def demo_floor_def)
  show ?thesis
    using XMLInit_SerializeToXML_round_trip [OF r s, of demo_band]
    by (simp add: s r demo_init demo_band_full_fields p nodata_flag_count_def nodata_flags_def
        short_range_def d n e EQUAL_def demo_record_def
        new_GDALRasterBandPamInfo_def
        split: sum.splits option.splits)
qed

end
